theory Spec2Isabelle
  imports Main "HOL-Library.Word"
begin

section \<open>The MusicService API types (api/v1/musicservice\_types.go)\<close>

text \<open>
  Go's \<open>int32\<close> and \<open>int64\<close> fields are modelled as \<open>int\<close>: the operator only compares
  and copies them, so no wrap-around can occur. A pointer field is an \<open>option\<close>
  (\<open>None\<close> is \<open>nil\<close>). \<open>metav1.Time\<close> is \<open>nat option\<close>: \<open>None\<close> is the zero time
  and \<open>Some t\<close> a reading of the clock.
\<close>

type_synonym Time = "nat option"

definition IsZero :: "Time \<Rightarrow> bool" where
  "IsZero t = (t = None)"

record StreamingSpec =
  Bitrate :: string
  MaxConnections :: int

record StorageSpec =
  Size :: string
  UpdatePolicy :: string

definition StorageUpdatePolicyResize :: string where
  "StorageUpdatePolicyResize = ''Resize''"

definition StorageUpdatePolicyRecreate :: string where
  "StorageUpdatePolicyRecreate = ''Recreate''"

record AutoscalingSpec =
  MinReplicas :: int
  MaxReplicas :: int
  TargetCPUUtilizationPercentage :: int
  TargetMemoryUtilizationPercentage :: "int option"

record DatabaseReplicationSpec =
  repl_Enabled :: "bool option"
  repl_GTID :: "bool option"

text \<open>
  Modelled from the spec: the declaration of \<open>DatabaseHighAvailabilitySpec\<close> and of the
  field \<open>DatabaseSpec.HighAvailability\<close> is not part of the type file at hand; the
  controller reads \<open>ms.Spec.Database.HighAvailability.Enabled\<close> behind two nil checks and
  the builder test constructs \<open>&DatabaseHighAvailabilitySpec{Enabled: true}\<close>, which is
  the spec's \<open>HighAvailabilitySpec {enabled}\<close>.
\<close>

record DatabaseHighAvailabilitySpec =
  ha_Enabled :: bool

record DatabaseSpec =
  db_Enabled :: bool
  db_Replicas :: int
  db_Image :: string
  db_Storage :: "StorageSpec option"
  db_RootPassword :: string
  db_Replication :: "DatabaseReplicationSpec option"
  db_HighAvailability :: "DatabaseHighAvailabilitySpec option"
  db_Autoscaling :: "AutoscalingSpec option"

text \<open>\<open>corev1.ResourceRequirements\<close>: limits and requests, each a list of (resource, quantity text).\<close>

record ResourceRequirements =
  Limits :: "(string \<times> string) list"
  Requests :: "(string \<times> string) list"

record MusicServiceSpec =
  spec_Replicas :: int
  spec_Image :: string
  spec_Port :: int
  spec_Storage :: StorageSpec
  spec_Streaming :: StreamingSpec
  spec_Resources :: "ResourceRequirements option"
  spec_Autoscaling :: "AutoscalingSpec option"
  spec_Database :: "DatabaseSpec option"

datatype ConditionStatus = ConditionTrue | ConditionFalse | ConditionUnknown

record Condition =
  cond_Type :: string
  cond_Status :: ConditionStatus
  cond_ObservedGeneration :: int
  cond_LastTransitionTime :: Time
  cond_Reason :: string
  cond_Message :: string

record DatabaseStatus =
  dbs_Phase :: string
  MasterReady :: bool
  ReplicasReady :: int
  ReplicaEverCreated :: bool
  ReplicaLastSeen :: Time
  ReplicaDeletionDetected :: bool
  ReplicationReady :: bool

record MusicServiceStatus =
  ObservedGeneration :: int
  DesiredReplicas :: int
  ReadyReplicas :: int
  Phase :: string
  LastReconcileTime :: Time
  LastError :: string
  Conditions :: "Condition list"
  Database :: "DatabaseStatus option"

record MusicService =
  ms_Name :: string
  ms_Namespace :: string
  ms_UID :: string
  ms_Generation :: int
  ms_DeletionTimestamp :: Time
  ms_Finalizers :: "string list"
  ms_Spec :: MusicServiceSpec
  ms_Status :: MusicServiceStatus

section \<open>Conditions (internal/status/manager.go)\<close>

text \<open>
  The loop of \<open>setCondition\<close> over the stored conditions: the first condition of the same
  type is replaced in place and the loop returns; when the loop ends without a match the
  condition is appended. \<open>now\<close> is the time read before the loop.
\<close>

fun setCondition_range :: "Time \<Rightarrow> Condition \<Rightarrow> Condition list \<Rightarrow> Condition list" where
  "setCondition_range now condition [] = [condition]"
| "setCondition_range now condition (c # cs) =
     (if cond_Type c = cond_Type condition then
        (if cond_Status c \<noteq> cond_Status condition
         then condition\<lparr>cond_LastTransitionTime := now\<rparr>
         else condition\<lparr>cond_LastTransitionTime := cond_LastTransitionTime c\<rparr>) # cs
      else c # setCondition_range now condition cs)"

text \<open>
  \<open>setCondition clock conditions condition\<close>: \<open>clock\<close> is what \<open>time.Now()\<close> returns
  (never the zero time). A nil slice and an empty slice are both the empty list.
\<close>

definition setCondition :: "nat \<Rightarrow> Condition list \<Rightarrow> Condition \<Rightarrow> Condition list" where
  "setCondition clock conditions condition =
     (let now = Some clock;
          condition' = (if IsZero (cond_LastTransitionTime condition)
                        then condition\<lparr>cond_LastTransitionTime := now\<rparr> else condition)
      in setCondition_range now condition' conditions)"

text \<open>The stored condition of a type: the first one in the list, as every reader's loop finds it.\<close>

definition findCondition :: "Condition list \<Rightarrow> string \<Rightarrow> Condition option" where
  "findCondition conditions ty = find (\<lambda>c. cond_Type c = ty) conditions"

section \<open>Kubernetes objects the operator builds and reads\<close>

text \<open>
  \<open>resource.Quantity\<close> is modelled by its numeric value; \<open>Cmp\<close> compares values.
  Label maps are association lists in the order the builder writes them.
\<close>

type_synonym Quantity = int

datatype EnvVarSource = FieldRef string | SecretKeyRef string string

record EnvVar =
  ev_Name :: string
  ev_Value :: string
  ev_ValueFrom :: "EnvVarSource option"

record ContainerPort =
  port_Name :: string
  port_ContainerPort :: int
  port_Protocol :: string

record VolumeMount =
  vm_Name :: string
  vm_MountPath :: string

record Probe =
  probe_Command :: "string list"
  InitialDelaySeconds :: int
  PeriodSeconds :: int

text \<open>
  The shell scripts of the builder are fixed texts, one of them with the master host
  substituted; a command line holds them symbolically.
\<close>

datatype Script = MasterConfigScript | ReplicaConfigScript | ReplicaSetupScript string

datatype CommandArg = Arg string | ScriptArg Script

record Container =
  c_Name :: string
  c_Image :: string
  c_Command :: "CommandArg list"
  c_Env :: "EnvVar list"
  c_Ports :: "ContainerPort list"
  c_Resources :: ResourceRequirements
  c_VolumeMounts :: "VolumeMount list"
  c_ReadinessProbe :: "Probe option"
  c_LivenessProbe :: "Probe option"

record Volume =
  vol_Name :: string
  vol_EmptyDir :: bool

record OwnerReference =
  owner_APIVersion :: string
  owner_Kind :: string
  owner_Name :: string
  owner_UID :: string
  owner_Controller :: bool
  owner_BlockOwnerDeletion :: bool

record PersistentVolumeClaim =
  pvc_Name :: string
  pvc_Namespace :: string
  pvc_AccessModes :: "string list"
  pvc_Requests :: "string \<rightharpoonup> Quantity"
  pvc_Phase :: string

record StatefulSetSpec =
  sts_Replicas :: "int option"
  sts_ServiceName :: string
  sts_Selector :: "(string \<times> string) list"
  tmpl_Labels :: "(string \<times> string) list"
  tmpl_InitContainers :: "Container list"
  tmpl_Containers :: "Container list"
  tmpl_Volumes :: "Volume list"
  sts_VolumeClaimTemplates :: "PersistentVolumeClaim list"

record StatefulSet =
  sts_Name :: string
  sts_Namespace :: string
  sts_Labels :: "(string \<times> string) list"
  sts_OwnerReferences :: "OwnerReference list"
  sts_Spec :: StatefulSetSpec
  sts_ReadyReplicas :: int

record ServicePort =
  sp_Name :: string
  sp_Port :: int
  sp_TargetPort :: "int option"
  sp_Protocol :: string

record Service =
  svc_Name :: string
  svc_Namespace :: string
  svc_Labels :: "(string \<times> string) list"
  svc_OwnerReferences :: "OwnerReference list"
  svc_Selector :: "(string \<times> string) list"
  svc_Ports :: "ServicePort list"
  svc_Type :: string
  svc_ClusterIP :: string
  svc_PublishNotReadyAddresses :: bool

record MetricTarget =
  mt_Type :: string
  mt_AverageUtilization :: "int option"

record ResourceMetricSource =
  rms_Name :: string
  rms_Target :: MetricTarget

record MetricSpec =
  metric_Type :: string
  metric_Resource :: "ResourceMetricSource option"

record CrossVersionObjectReference =
  ref_APIVersion :: string
  ref_Kind :: string
  ref_Name :: string

record HorizontalPodAutoscalerSpec =
  ScaleTargetRef :: CrossVersionObjectReference
  hpa_MinReplicas :: "int option"
  hpa_MaxReplicas :: int
  Metrics :: "MetricSpec list"

record HorizontalPodAutoscaler =
  hpa_Name :: string
  hpa_Namespace :: string
  hpa_Labels :: "(string \<times> string) list"
  hpa_OwnerReferences :: "OwnerReference list"
  hpa_Spec :: HorizontalPodAutoscalerSpec

record Secret =
  secret_Name :: string
  secret_Namespace :: string
  secret_OwnerReferences :: "OwnerReference list"
  secret_Type :: string
  secret_Data :: "string \<rightharpoonup> string"

definition ResourceStorage :: string where
  "ResourceStorage = ''storage''"

definition ClaimBound :: string where
  "ClaimBound = ''Bound''"

section \<open>Errors, panics and the API server\<close>

text \<open>
  A Go \<open>error\<close> returned by the client is a value of \<open>error\<close>; \<open>Error\<close> is its
  message (\<open>err.Error()\<close>). A run-time panic (of \<open>resource.MustParse\<close>, or of a nil
  pointer dereference) is a value of \<open>panic\<close>: a function that can panic returns
  \<open>panic + 'a\<close>, and a panic leaves through every caller.
\<close>

datatype error = NotFound string | AlreadyExists string | OtherError string

fun IsNotFound :: "error \<Rightarrow> bool" where
  "IsNotFound (NotFound n) = True"
| "IsNotFound (AlreadyExists n) = False"
| "IsNotFound (OtherError m) = False"

fun Error :: "error \<Rightarrow> string" where
  "Error (NotFound n) = n @ '' not found''"
| "Error (AlreadyExists n) = n @ '' already exists''"
| "Error (OtherError m) = m"

datatype panic = MustParsePanic string | NilPointerDereference

datatype Kind = KMusicService | KStatefulSet | KService | KHorizontalPodAutoscaler
  | KSecret | KPersistentVolumeClaim

datatype Object = OMusicService MusicService | OStatefulSet StatefulSet | OService Service
  | OHorizontalPodAutoscaler HorizontalPodAutoscaler | OSecret Secret
  | OPersistentVolumeClaim PersistentVolumeClaim

text \<open>One call of the client: kind, namespace and name for reads and deletes, the object for writes.\<close>

datatype Call = CGet Kind string string | CList Kind string | CCreate Object | CUpdate Object
  | CDelete Kind string string | CStatusUpdate MusicService

fun isWrite :: "Call \<Rightarrow> bool" where
  "isWrite (CGet k ns n) = False"
| "isWrite (CList k ns) = False"
| "isWrite (CCreate obj) = True"
| "isWrite (CUpdate obj) = True"
| "isWrite (CDelete k ns n) = True"
| "isWrite (CStatusUpdate ms) = True"

text \<open>
  What a pass cannot decide by itself: the quantity parser of the Kubernetes library, the
  failures of the API server (the \<open>n\<close>-th client call of the pass fails with a message
  when \<open>fault n\<close> is \<open>Some\<close>), the clock, and the system's random source.
\<close>

record Env =
  ParseQuantity :: "string \<Rightarrow> Quantity option"
  fault :: "nat \<Rightarrow> string option"
  clock :: nat
  rand_fault :: "string option"
  rand_bytes :: "nat \<Rightarrow> 8 word"

text \<open>
  The live state: one table per kind, keyed by (namespace, name); the volume claims are a
  list, in the order \<open>List\<close> returns them. \<open>trace\<close> records every client call of the pass.
\<close>

record World =
  musicservices :: "(string \<times> string) \<rightharpoonup> MusicService"
  statefulsets :: "(string \<times> string) \<rightharpoonup> StatefulSet"
  services :: "(string \<times> string) \<rightharpoonup> Service"
  autoscalers :: "(string \<times> string) \<rightharpoonup> HorizontalPodAutoscaler"
  secrets :: "(string \<times> string) \<rightharpoonup> Secret"
  pvcs :: "PersistentVolumeClaim list"
  trace :: "Call list"

definition api_call :: "Env \<Rightarrow> Call \<Rightarrow> World \<Rightarrow> string option \<times> World" where
  "api_call env c w = (fault env (length (trace w)), w\<lparr>trace := trace w @ [c]\<rparr>)"

definition client_Get ::
  "Env \<Rightarrow> Kind \<Rightarrow> (World \<Rightarrow> (string \<times> string) \<rightharpoonup> 'a) \<Rightarrow> string \<Rightarrow> string \<Rightarrow> World
     \<Rightarrow> (error + 'a) \<times> World" where
  "client_Get env k tbl ns name w =
     (case api_call env (CGet k ns name) w of
        (Some m, w') \<Rightarrow> (Inl (OtherError m), w')
      | (None, w') \<Rightarrow>
          (case tbl w' (ns, name) of
             None \<Rightarrow> (Inl (NotFound name), w')
           | Some x \<Rightarrow> (Inr x, w')))"

definition client_Create ::
  "Env \<Rightarrow> Object \<Rightarrow> (World \<Rightarrow> (string \<times> string) \<rightharpoonup> 'a)
     \<Rightarrow> ((((string \<times> string) \<rightharpoonup> 'a) \<Rightarrow> ((string \<times> string) \<rightharpoonup> 'a)) \<Rightarrow> World \<Rightarrow> World)
     \<Rightarrow> string \<Rightarrow> string \<Rightarrow> 'a \<Rightarrow> World \<Rightarrow> error option \<times> World" where
  "client_Create env obj tbl upd ns name x w =
     (case api_call env (CCreate obj) w of
        (Some m, w') \<Rightarrow> (Some (OtherError m), w')
      | (None, w') \<Rightarrow>
          (if tbl w' (ns, name) \<noteq> None then (Some (AlreadyExists name), w')
           else (None, upd (\<lambda>t. t((ns, name) \<mapsto> x)) w')))"

definition client_Update ::
  "Env \<Rightarrow> Object \<Rightarrow> (World \<Rightarrow> (string \<times> string) \<rightharpoonup> 'a)
     \<Rightarrow> ((((string \<times> string) \<rightharpoonup> 'a) \<Rightarrow> ((string \<times> string) \<rightharpoonup> 'a)) \<Rightarrow> World \<Rightarrow> World)
     \<Rightarrow> string \<Rightarrow> string \<Rightarrow> 'a \<Rightarrow> World \<Rightarrow> error option \<times> World" where
  "client_Update env obj tbl upd ns name x w =
     (case api_call env (CUpdate obj) w of
        (Some m, w') \<Rightarrow> (Some (OtherError m), w')
      | (None, w') \<Rightarrow>
          (if tbl w' (ns, name) = None then (Some (NotFound name), w')
           else (None, upd (\<lambda>t. t((ns, name) \<mapsto> x)) w')))"

definition client_Delete ::
  "Env \<Rightarrow> Kind \<Rightarrow> (World \<Rightarrow> (string \<times> string) \<rightharpoonup> 'a)
     \<Rightarrow> ((((string \<times> string) \<rightharpoonup> 'a) \<Rightarrow> ((string \<times> string) \<rightharpoonup> 'a)) \<Rightarrow> World \<Rightarrow> World)
     \<Rightarrow> string \<Rightarrow> string \<Rightarrow> World \<Rightarrow> error option \<times> World" where
  "client_Delete env k tbl upd ns name w =
     (case api_call env (CDelete k ns name) w of
        (Some m, w') \<Rightarrow> (Some (OtherError m), w')
      | (None, w') \<Rightarrow>
          (if tbl w' (ns, name) = None then (Some (NotFound name), w')
           else (None, upd (\<lambda>t. t((ns, name) := None)) w')))"

definition Get_StatefulSet :: "Env \<Rightarrow> string \<Rightarrow> string \<Rightarrow> World \<Rightarrow> (error + StatefulSet) \<times> World" where
  "Get_StatefulSet env ns name w = client_Get env KStatefulSet statefulsets ns name w"

definition Create_StatefulSet :: "Env \<Rightarrow> StatefulSet \<Rightarrow> World \<Rightarrow> error option \<times> World" where
  "Create_StatefulSet env sts w =
     client_Create env (OStatefulSet sts) statefulsets statefulsets_update
       (sts_Namespace sts) (sts_Name sts) sts w"

definition Update_StatefulSet :: "Env \<Rightarrow> StatefulSet \<Rightarrow> World \<Rightarrow> error option \<times> World" where
  "Update_StatefulSet env sts w =
     client_Update env (OStatefulSet sts) statefulsets statefulsets_update
       (sts_Namespace sts) (sts_Name sts) sts w"

definition Delete_StatefulSet :: "Env \<Rightarrow> StatefulSet \<Rightarrow> World \<Rightarrow> error option \<times> World" where
  "Delete_StatefulSet env sts w =
     client_Delete env KStatefulSet statefulsets statefulsets_update
       (sts_Namespace sts) (sts_Name sts) w"

definition Get_Service :: "Env \<Rightarrow> string \<Rightarrow> string \<Rightarrow> World \<Rightarrow> (error + Service) \<times> World" where
  "Get_Service env ns name w = client_Get env KService services ns name w"

definition Create_Service :: "Env \<Rightarrow> Service \<Rightarrow> World \<Rightarrow> error option \<times> World" where
  "Create_Service env svc w =
     client_Create env (OService svc) services services_update
       (svc_Namespace svc) (svc_Name svc) svc w"

definition Get_HorizontalPodAutoscaler ::
  "Env \<Rightarrow> string \<Rightarrow> string \<Rightarrow> World \<Rightarrow> (error + HorizontalPodAutoscaler) \<times> World" where
  "Get_HorizontalPodAutoscaler env ns name w =
     client_Get env KHorizontalPodAutoscaler autoscalers ns name w"

definition Create_HorizontalPodAutoscaler ::
  "Env \<Rightarrow> HorizontalPodAutoscaler \<Rightarrow> World \<Rightarrow> error option \<times> World" where
  "Create_HorizontalPodAutoscaler env hpa w =
     client_Create env (OHorizontalPodAutoscaler hpa) autoscalers autoscalers_update
       (hpa_Namespace hpa) (hpa_Name hpa) hpa w"

definition Update_HorizontalPodAutoscaler ::
  "Env \<Rightarrow> HorizontalPodAutoscaler \<Rightarrow> World \<Rightarrow> error option \<times> World" where
  "Update_HorizontalPodAutoscaler env hpa w =
     client_Update env (OHorizontalPodAutoscaler hpa) autoscalers autoscalers_update
       (hpa_Namespace hpa) (hpa_Name hpa) hpa w"

definition Delete_HorizontalPodAutoscaler ::
  "Env \<Rightarrow> HorizontalPodAutoscaler \<Rightarrow> World \<Rightarrow> error option \<times> World" where
  "Delete_HorizontalPodAutoscaler env hpa w =
     client_Delete env KHorizontalPodAutoscaler autoscalers autoscalers_update
       (hpa_Namespace hpa) (hpa_Name hpa) w"

definition Get_Secret :: "Env \<Rightarrow> string \<Rightarrow> string \<Rightarrow> World \<Rightarrow> (error + Secret) \<times> World" where
  "Get_Secret env ns name w = client_Get env KSecret secrets ns name w"

definition Create_Secret :: "Env \<Rightarrow> Secret \<Rightarrow> World \<Rightarrow> error option \<times> World" where
  "Create_Secret env s w =
     client_Create env (OSecret s) secrets secrets_update
       (secret_Namespace s) (secret_Name s) s w"

definition Update_Secret :: "Env \<Rightarrow> Secret \<Rightarrow> World \<Rightarrow> error option \<times> World" where
  "Update_Secret env s w =
     client_Update env (OSecret s) secrets secrets_update
       (secret_Namespace s) (secret_Name s) s w"

definition samePVC :: "PersistentVolumeClaim \<Rightarrow> PersistentVolumeClaim \<Rightarrow> bool" where
  "samePVC a b = (pvc_Namespace a = pvc_Namespace b \<and> pvc_Name a = pvc_Name b)"

definition List_PersistentVolumeClaim ::
  "Env \<Rightarrow> string \<Rightarrow> World \<Rightarrow> (error + PersistentVolumeClaim list) \<times> World" where
  "List_PersistentVolumeClaim env ns w =
     (case api_call env (CList KPersistentVolumeClaim ns) w of
        (Some m, w') \<Rightarrow> (Inl (OtherError m), w')
      | (None, w') \<Rightarrow> (Inr (filter (\<lambda>p. pvc_Namespace p = ns) (pvcs w')), w'))"

definition Update_PersistentVolumeClaim ::
  "Env \<Rightarrow> PersistentVolumeClaim \<Rightarrow> World \<Rightarrow> error option \<times> World" where
  "Update_PersistentVolumeClaim env pvc w =
     (case api_call env (CUpdate (OPersistentVolumeClaim pvc)) w of
        (Some m, w') \<Rightarrow> (Some (OtherError m), w')
      | (None, w') \<Rightarrow>
          (if \<not> list_ex (samePVC pvc) (pvcs w') then (Some (NotFound (pvc_Name pvc)), w')
           else (None, w'\<lparr>pvcs := map (\<lambda>p. if samePVC pvc p then pvc else p) (pvcs w')\<rparr>)))"

definition Delete_PersistentVolumeClaim ::
  "Env \<Rightarrow> PersistentVolumeClaim \<Rightarrow> World \<Rightarrow> error option \<times> World" where
  "Delete_PersistentVolumeClaim env pvc w =
     (case api_call env (CDelete KPersistentVolumeClaim (pvc_Namespace pvc) (pvc_Name pvc)) w of
        (Some m, w') \<Rightarrow> (Some (OtherError m), w')
      | (None, w') \<Rightarrow>
          (if \<not> list_ex (samePVC pvc) (pvcs w') then (Some (NotFound (pvc_Name pvc)), w')
           else (None, w'\<lparr>pvcs := filter (\<lambda>p. \<not> samePVC pvc p) (pvcs w')\<rparr>)))"

definition Get_MusicService :: "Env \<Rightarrow> string \<Rightarrow> string \<Rightarrow> World \<Rightarrow> (error + MusicService) \<times> World" where
  "Get_MusicService env ns name w = client_Get env KMusicService musicservices ns name w"

text \<open>
  \<open>r.Update(ctx, ms)\<close> writes metadata and spec; the status is a subresource and keeps its
  stored value. An object that is being deleted and has no finalizer left is removed.
\<close>

definition Update_MusicService :: "Env \<Rightarrow> MusicService \<Rightarrow> World \<Rightarrow> error option \<times> World" where
  "Update_MusicService env ms w =
     (case api_call env (CUpdate (OMusicService ms)) w of
        (Some m, w') \<Rightarrow> (Some (OtherError m), w')
      | (None, w') \<Rightarrow>
          (case musicservices w' (ms_Namespace ms, ms_Name ms) of
             None \<Rightarrow> (Some (NotFound (ms_Name ms)), w')
           | Some stored \<Rightarrow>
               (if ms_DeletionTimestamp ms \<noteq> None \<and> ms_Finalizers ms = []
                then (None, w'\<lparr>musicservices :=
                        (musicservices w')((ms_Namespace ms, ms_Name ms) := None)\<rparr>)
                else (None, w'\<lparr>musicservices :=
                        (musicservices w')((ms_Namespace ms, ms_Name ms) \<mapsto>
                           ms\<lparr>ms_Status := ms_Status stored\<rparr>)\<rparr>))))"

text \<open>\<open>r.Status().Update(ctx, ms)\<close> writes the status of the stored object only.\<close>

definition Status_Update :: "Env \<Rightarrow> MusicService \<Rightarrow> World \<Rightarrow> error option \<times> World" where
  "Status_Update env ms w =
     (case api_call env (CStatusUpdate ms) w of
        (Some m, w') \<Rightarrow> (Some (OtherError m), w')
      | (None, w') \<Rightarrow>
          (case musicservices w' (ms_Namespace ms, ms_Name ms) of
             None \<Rightarrow> (Some (NotFound (ms_Name ms)), w')
           | Some stored \<Rightarrow>
               (None, w'\<lparr>musicservices :=
                  (musicservices w')((ms_Namespace ms, ms_Name ms) \<mapsto>
                     stored\<lparr>ms_Status := ms_Status ms\<rparr>)\<rparr>)))"

section \<open>The resource builder (internal/builder/resource\_builder.go)\<close>

text \<open>\<open>fmt.Sprintf("%d", n)\<close>: the decimal digits of an integer.\<close>

definition digit :: "nat \<Rightarrow> char" where
  "digit d = ''0123456789'' ! d"

fun showNat :: "nat \<Rightarrow> string" where
  "showNat n = (if n < 10 then [digit n] else showNat (n div 10) @ [digit (n mod 10)])"

declare showNat.simps [simp del]

definition showInt :: "int \<Rightarrow> string" where
  "showInt i = (if i < 0 then CHR ''-'' # showNat (nat (- i)) else showNat (nat i))"

text \<open>\<open>resource.MustParse\<close> panics where \<open>resource.ParseQuantity\<close> returns an error.\<close>

definition MustParse :: "Env \<Rightarrow> string \<Rightarrow> panic + Quantity" where
  "MustParse env s =
     (case ParseQuantity env s of None \<Rightarrow> Inl (MustParsePanic s) | Some q \<Rightarrow> Inr q)"

definition NewControllerRef :: "MusicService \<Rightarrow> OwnerReference" where
  "NewControllerRef ms =
     \<lparr>owner_APIVersion = ''music.mixcorp.org/v1'', owner_Kind = ''MusicService'',
      owner_Name = ms_Name ms, owner_UID = ms_UID ms,
      owner_Controller = True, owner_BlockOwnerDeletion = True\<rparr>"

definition getLabels :: "MusicService \<Rightarrow> string \<Rightarrow> (string \<times> string) list" where
  "getLabels ms component =
     [(''app'', ms_Name ms),
      (''component'', component),
      (''app.kubernetes.io/name'', ''music-service''),
      (''app.kubernetes.io/instance'', ms_Name ms),
      (''app.kubernetes.io/managed-by'', ''music-operator'')]"

definition BuildAppService :: "MusicService \<Rightarrow> Service" where
  "BuildAppService ms =
     \<lparr>svc_Name = ms_Name ms, svc_Namespace = ms_Namespace ms,
      svc_Labels = getLabels ms ''app'',
      svc_OwnerReferences = [NewControllerRef ms],
      svc_Selector = [(''app'', ms_Name ms), (''component'', ''music-service'')],
      svc_Ports = [\<lparr>sp_Name = ''http'', sp_Port = spec_Port (ms_Spec ms),
                    sp_TargetPort = Some 80, sp_Protocol = ''TCP''\<rparr>],
      svc_Type = ''ClusterIP'', svc_ClusterIP = [],
      svc_PublishNotReadyAddresses = False\<rparr>"

definition volumeClaimTemplate :: "string \<Rightarrow> Quantity \<Rightarrow> PersistentVolumeClaim" where
  "volumeClaimTemplate name storageSize =
     \<lparr>pvc_Name = name, pvc_Namespace = [], pvc_AccessModes = [''ReadWriteOnce''],
      pvc_Requests = [ResourceStorage \<mapsto> storageSize], pvc_Phase = []\<rparr>"

definition BuildAppStatefulSet :: "Env \<Rightarrow> MusicService \<Rightarrow> panic + StatefulSet" where
  "BuildAppStatefulSet env ms =
     (let labels = getLabels ms ''app'';
          podLabels = [(''app'', ms_Name ms), (''component'', ''music-service'')];
          resources = (case spec_Resources (ms_Spec ms) of
                         None \<Rightarrow> \<lparr>Limits = [], Requests = []\<rparr>
                       | Some r \<Rightarrow> r)
      in case MustParse env (Size (spec_Storage (ms_Spec ms))) of
           Inl p \<Rightarrow> Inl p
         | Inr storageSize \<Rightarrow> Inr
             \<lparr>sts_Name = ms_Name ms, sts_Namespace = ms_Namespace ms,
              sts_Labels = labels,
              sts_OwnerReferences = [NewControllerRef ms],
              sts_Spec =
                \<lparr>sts_Replicas = Some (spec_Replicas (ms_Spec ms)),
                 sts_ServiceName = ms_Name ms,
                 sts_Selector = podLabels,
                 tmpl_Labels = podLabels,
                 tmpl_InitContainers = [],
                 tmpl_Containers =
                   [\<lparr>c_Name = ''music-service'',
                     c_Image = spec_Image (ms_Spec ms),
                     c_Command = [],
                     c_Env =
                       [\<lparr>ev_Name = ''STREAMING_BITRATE'',
                         ev_Value = Bitrate (spec_Streaming (ms_Spec ms)),
                         ev_ValueFrom = None\<rparr>,
                        \<lparr>ev_Name = ''MAX_CONNECTIONS'',
                         ev_Value = showInt (MaxConnections (spec_Streaming (ms_Spec ms))),
                         ev_ValueFrom = None\<rparr>],
                     c_Ports = [\<lparr>port_Name = ''http'', port_ContainerPort = 80,
                                  port_Protocol = ''TCP''\<rparr>],
                     c_Resources = resources,
                     c_VolumeMounts = [\<lparr>vm_Name = ''music-data'', vm_MountPath = ''/data''\<rparr>],
                     c_ReadinessProbe = None,
                     c_LivenessProbe = None\<rparr>],
                 tmpl_Volumes = [],
                 sts_VolumeClaimTemplates = [volumeClaimTemplate ''music-data'' storageSize]\<rparr>,
              sts_ReadyReplicas = 0\<rparr>)"

record databaseConfig =
  image :: string
  storageSize :: Quantity
  rootPassword :: string
  replicas :: int
  masterHost :: string
  replicationEnabled :: bool
  replicationGTID :: bool
  replicationSecret :: string

definition replicationSecretName :: "MusicService \<Rightarrow> string" where
  "replicationSecretName ms = ms_Name ms @ ''-db-replication''"

definition buildDatabaseConfig :: "Env \<Rightarrow> MusicService \<Rightarrow> panic + databaseConfig" where
  "buildDatabaseConfig env ms =
     (case MustParse env ''10Gi'' of
        Inl p \<Rightarrow> Inl p
      | Inr defaultSize \<Rightarrow>
          (let config = \<lparr>image = ''mariadb:10.11'', storageSize = defaultSize,
                         rootPassword = ''rootpass'', replicas = 0,
                         masterHost = ms_Name ms @ ''-db-master'',
                         replicationEnabled = True, replicationGTID = True,
                         replicationSecret = replicationSecretName ms\<rparr>
           in case spec_Database (ms_Spec ms) of
                None \<Rightarrow> Inr config
              | Some db \<Rightarrow>
                  (let config = config\<lparr>replicas := db_Replicas db\<rparr>;
                       config = (if db_Image db \<noteq> [] then config\<lparr>image := db_Image db\<rparr>
                                 else config)
                   in case (case db_Storage db of
                              None \<Rightarrow> Inr config
                            | Some st \<Rightarrow>
                                (case MustParse env (Size st) of
                                   Inl p \<Rightarrow> Inl p
                                 | Inr q \<Rightarrow> Inr (config\<lparr>storageSize := q\<rparr>))) of
                        Inl p \<Rightarrow> Inl p
                      | Inr config \<Rightarrow>
                          (let config = (if db_RootPassword db \<noteq> []
                                         then config\<lparr>rootPassword := db_RootPassword db\<rparr>
                                         else config);
                               config = (case db_Replication db of
                                           None \<Rightarrow> config
                                         | Some r \<Rightarrow>
                                             (let config = (case repl_Enabled r of
                                                              None \<Rightarrow> config
                                                            | Some b \<Rightarrow> config\<lparr>replicationEnabled := b\<rparr>)
                                              in case repl_GTID r of
                                                   None \<Rightarrow> config
                                                 | Some b \<Rightarrow> config\<lparr>replicationGTID := b\<rparr>))
                           in Inr config))))"

definition buildReplicaSetupScript :: "string \<Rightarrow> Script" where
  "buildReplicaSetupScript host = ReplicaSetupScript host"

definition buildMasterConfigScript :: Script where
  "buildMasterConfigScript = MasterConfigScript"

definition buildReplicaConfigScript :: Script where
  "buildReplicaConfigScript = ReplicaConfigScript"

definition secretEnv :: "string \<Rightarrow> string \<Rightarrow> string \<Rightarrow> EnvVar" where
  "secretEnv name secret key =
     \<lparr>ev_Name = name, ev_Value = [], ev_ValueFrom = Some (SecretKeyRef secret key)\<rparr>"

definition plainEnv :: "string \<Rightarrow> string \<Rightarrow> EnvVar" where
  "plainEnv name v = \<lparr>ev_Name = name, ev_Value = v, ev_ValueFrom = None\<rparr>"

definition noResources :: ResourceRequirements where
  "noResources = \<lparr>Limits = [], Requests = []\<rparr>"

definition buildReplicaSetupContainer :: "databaseConfig \<Rightarrow> Script \<Rightarrow> Container list" where
  "buildReplicaSetupContainer config script =
     (if \<not> replicationEnabled config then []
      else [\<lparr>c_Name = ''replication-setup'',
             c_Image = image config,
             c_Command = [Arg ''/bin/sh'', Arg ''-c'', ScriptArg script],
             c_Env = [plainEnv ''MYSQL_ROOT_PASSWORD'' (rootPassword config),
                      secretEnv ''REPLICATION_USER'' (replicationSecret config) ''username'',
                      secretEnv ''REPLICATION_PASSWORD'' (replicationSecret config) ''password''],
             c_Ports = [],
             c_Resources = noResources,
             c_VolumeMounts = [],
             c_ReadinessProbe = None,
             c_LivenessProbe = None\<rparr>])"

definition mysqlPing :: "int \<Rightarrow> int \<Rightarrow> Probe" where
  "mysqlPing delay period =
     \<lparr>probe_Command = [''/bin/sh'', ''-c'', ''mysqladmin ping -uroot -p$MYSQL_ROOT_PASSWORD''],
      InitialDelaySeconds = delay, PeriodSeconds = period\<rparr>"

definition dbVolumeMounts :: "VolumeMount list" where
  "dbVolumeMounts =
     [\<lparr>vm_Name = ''db-data'', vm_MountPath = ''/var/lib/mysql''\<rparr>,
      \<lparr>vm_Name = ''db-config'', vm_MountPath = ''/etc/mysql/conf.d''\<rparr>]"

definition dbConfigVolume :: Volume where
  "dbConfigVolume = \<lparr>vol_Name = ''db-config'', vol_EmptyDir = True\<rparr>"

definition mysqlPort :: ContainerPort where
  "mysqlPort = \<lparr>port_Name = ''mysql'', port_ContainerPort = 3306, port_Protocol = ''TCP''\<rparr>"

definition BuildDatabaseMasterStatefulSet :: "Env \<Rightarrow> MusicService \<Rightarrow> panic + StatefulSet" where
  "BuildDatabaseMasterStatefulSet env ms =
     (let labels = getLabels ms ''db-master'';
          podLabels = [(''app'', ms_Name ms), (''component'', ''db-master'')]
      in case buildDatabaseConfig env ms of
           Inl p \<Rightarrow> Inl p
         | Inr config \<Rightarrow> Inr
             \<lparr>sts_Name = ms_Name ms @ ''-db-master'', sts_Namespace = ms_Namespace ms,
              sts_Labels = labels,
              sts_OwnerReferences = [NewControllerRef ms],
              sts_Spec =
                \<lparr>sts_Replicas = Some 1,
                 sts_ServiceName = ms_Name ms @ ''-db-master'',
                 sts_Selector = podLabels,
                 tmpl_Labels = podLabels,
                 tmpl_InitContainers =
                   [\<lparr>c_Name = ''init-db-config'',
                     c_Image = image config,
                     c_Command = [Arg ''/bin/sh'', Arg ''-c'', ScriptArg buildMasterConfigScript],
                     c_Env = [],
                     c_Ports = [],
                     c_Resources = noResources,
                     c_VolumeMounts = [\<lparr>vm_Name = ''db-config'', vm_MountPath = ''/db-config''\<rparr>],
                     c_ReadinessProbe = None,
                     c_LivenessProbe = None\<rparr>],
                 tmpl_Containers =
                   [\<lparr>c_Name = ''mariadb'',
                     c_Image = image config,
                     c_Command = [],
                     c_Env = [plainEnv ''MYSQL_ROOT_PASSWORD'' (rootPassword config),
                              plainEnv ''MYSQL_DATABASE'' ''musicdb''],
                     c_Ports = [mysqlPort],
                     c_Resources = noResources,
                     c_VolumeMounts = dbVolumeMounts,
                     c_ReadinessProbe = Some (mysqlPing 10 10),
                     c_LivenessProbe = Some (mysqlPing 30 20)\<rparr>],
                 tmpl_Volumes = [dbConfigVolume],
                 sts_VolumeClaimTemplates = [volumeClaimTemplate ''db-data'' (storageSize config)]\<rparr>,
              sts_ReadyReplicas = 0\<rparr>)"

definition BuildDatabaseReplicaStatefulSet :: "Env \<Rightarrow> MusicService \<Rightarrow> panic + StatefulSet" where
  "BuildDatabaseReplicaStatefulSet env ms =
     (let labels = getLabels ms ''db-replica'';
          podLabels = [(''app'', ms_Name ms), (''component'', ''db-replica'')]
      in case buildDatabaseConfig env ms of
           Inl p \<Rightarrow> Inl p
         | Inr config \<Rightarrow>
             (let replicationSetupScript = buildReplicaSetupScript (masterHost config);
                  initContainers =
                    [\<lparr>c_Name = ''init-db-config'',
                      c_Image = image config,
                      c_Command = [Arg ''/bin/sh'', Arg ''-c'', ScriptArg buildReplicaConfigScript],
                      c_Env = [\<lparr>ev_Name = ''POD_NAME'', ev_Value = [],
                                 ev_ValueFrom = Some (FieldRef ''metadata.name'')\<rparr>],
                      c_Ports = [],
                      c_Resources = noResources,
                      c_VolumeMounts = [\<lparr>vm_Name = ''db-config'', vm_MountPath = ''/db-config''\<rparr>],
                      c_ReadinessProbe = None,
                      c_LivenessProbe = None\<rparr>];
                  volumes = [dbConfigVolume];
                  replicaEnv = [plainEnv ''MYSQL_ROOT_PASSWORD'' (rootPassword config),
                                plainEnv ''MYSQL_DATABASE'' ''musicdb''];
                  replicaVolumeMounts = dbVolumeMounts;
                  replicaEnv =
                    (if replicationEnabled config
                     then replicaEnv @
                       [secretEnv ''REPLICATION_USER'' (replicationSecret config) ''username'',
                        secretEnv ''REPLICATION_PASSWORD'' (replicationSecret config) ''password'']
                     else replicaEnv)
              in Inr
                \<lparr>sts_Name = ms_Name ms @ ''-db-replica'', sts_Namespace = ms_Namespace ms,
                 sts_Labels = labels,
                 sts_OwnerReferences = [NewControllerRef ms],
                 sts_Spec =
                   \<lparr>sts_Replicas = Some (replicas config),
                    sts_ServiceName = ms_Name ms @ ''-db-replica'',
                    sts_Selector = podLabels,
                    tmpl_Labels = podLabels,
                    tmpl_InitContainers = initContainers,
                    tmpl_Containers =
                      [\<lparr>c_Name = ''mariadb'',
                        c_Image = image config,
                        c_Command = [],
                        c_Env = replicaEnv,
                        c_Ports = [mysqlPort],
                        c_Resources = noResources,
                        c_VolumeMounts = replicaVolumeMounts,
                        c_ReadinessProbe = Some (mysqlPing 10 10),
                        c_LivenessProbe = Some (mysqlPing 30 20)\<rparr>]
                      @ buildReplicaSetupContainer config replicationSetupScript,
                    tmpl_Volumes = volumes,
                    sts_VolumeClaimTemplates = [volumeClaimTemplate ''db-data'' (storageSize config)]\<rparr>,
                 sts_ReadyReplicas = 0\<rparr>))"

definition BuildDatabaseMasterService :: "MusicService \<Rightarrow> Service" where
  "BuildDatabaseMasterService ms =
     \<lparr>svc_Name = ms_Name ms @ ''-db-master'', svc_Namespace = ms_Namespace ms,
      svc_Labels = getLabels ms ''db-master'',
      svc_OwnerReferences = [NewControllerRef ms],
      svc_Selector = [(''app'', ms_Name ms), (''component'', ''db-master'')],
      svc_Ports = [\<lparr>sp_Name = ''mysql'', sp_Port = 3306, sp_TargetPort = None,
                    sp_Protocol = ''TCP''\<rparr>],
      svc_Type = ''ClusterIP'', svc_ClusterIP = ''None'',
      svc_PublishNotReadyAddresses = False\<rparr>"

definition BuildDatabaseReadService :: "MusicService \<Rightarrow> Service" where
  "BuildDatabaseReadService ms =
     \<lparr>svc_Name = ms_Name ms @ ''-db-read'', svc_Namespace = ms_Namespace ms,
      svc_Labels = getLabels ms ''db-read'',
      svc_OwnerReferences = [NewControllerRef ms],
      svc_Selector = [(''app'', ms_Name ms), (''component'', ''db-replica'')],
      svc_Ports = [\<lparr>sp_Name = ''mysql'', sp_Port = 3306, sp_TargetPort = None,
                    sp_Protocol = ''TCP''\<rparr>],
      svc_Type = ''ClusterIP'', svc_ClusterIP = [],
      svc_PublishNotReadyAddresses = False\<rparr>"

definition buildResourceMetric :: "string \<Rightarrow> int \<Rightarrow> MetricSpec" where
  "buildResourceMetric resourceName targetUtilization =
     \<lparr>metric_Type = ''Resource'',
      metric_Resource = Some \<lparr>rms_Name = resourceName,
                              rms_Target = \<lparr>mt_Type = ''Utilization'',
                                            mt_AverageUtilization = Some targetUtilization\<rparr>\<rparr>\<rparr>"

definition autoscalerMetrics :: "AutoscalingSpec \<Rightarrow> MetricSpec list" where
  "autoscalerMetrics a =
     (let metrics = [buildResourceMetric ''cpu'' (TargetCPUUtilizationPercentage a)]
      in case TargetMemoryUtilizationPercentage a of
           None \<Rightarrow> metrics
         | Some m \<Rightarrow> metrics @ [buildResourceMetric ''memory'' m])"

definition BuildAutoscaler :: "MusicService \<Rightarrow> panic + HorizontalPodAutoscaler" where
  "BuildAutoscaler ms =
     (let labels = getLabels ms ''autoscaler''
      in case spec_Autoscaling (ms_Spec ms) of
           None \<Rightarrow> Inl NilPointerDereference
         | Some a \<Rightarrow> Inr
             \<lparr>hpa_Name = ms_Name ms @ ''-autoscaler'', hpa_Namespace = ms_Namespace ms,
              hpa_Labels = labels,
              hpa_OwnerReferences = [NewControllerRef ms],
              hpa_Spec =
                \<lparr>ScaleTargetRef = \<lparr>ref_APIVersion = ''apps/v1'', ref_Kind = ''StatefulSet'',
                                    ref_Name = ms_Name ms\<rparr>,
                 hpa_MinReplicas = Some (MinReplicas a),
                 hpa_MaxReplicas = MaxReplicas a,
                 Metrics = autoscalerMetrics a\<rparr>\<rparr>)"

definition BuildDatabaseReplicaAutoscaler :: "MusicService \<Rightarrow> panic + HorizontalPodAutoscaler" where
  "BuildDatabaseReplicaAutoscaler ms =
     (let labels = getLabels ms ''db-autoscaler''
      in case spec_Database (ms_Spec ms) of
           None \<Rightarrow> Inl NilPointerDereference
         | Some db \<Rightarrow>
             (case db_Autoscaling db of
                None \<Rightarrow> Inl NilPointerDereference
              | Some a \<Rightarrow> Inr
                  \<lparr>hpa_Name = ms_Name ms @ ''-db-replica-autoscaler'',
                   hpa_Namespace = ms_Namespace ms,
                   hpa_Labels = labels,
                   hpa_OwnerReferences = [NewControllerRef ms],
                   hpa_Spec =
                     \<lparr>ScaleTargetRef = \<lparr>ref_APIVersion = ''apps/v1'', ref_Kind = ''StatefulSet'',
                                         ref_Name = ms_Name ms @ ''-db-replica''\<rparr>,
                      hpa_MinReplicas = Some (MinReplicas a),
                      hpa_MaxReplicas = MaxReplicas a,
                      Metrics = autoscalerMetrics a\<rparr>\<rparr>))"

section \<open>Storage policy (internal/reconciler/storage.go)\<close>

definition storageUpdatePolicy :: "StorageSpec \<Rightarrow> string" where
  "storageUpdatePolicy storage =
     (if UpdatePolicy storage = [] then StorageUpdatePolicyResize else UpdatePolicy storage)"

text \<open>The pair (quantity, ok) of the source is an \<open>option\<close>: \<open>None\<close> when \<open>ok\<close> is false.\<close>

definition storageRequestFromStatefulSet :: "StatefulSet \<Rightarrow> Quantity option" where
  "storageRequestFromStatefulSet sts =
     (case sts_VolumeClaimTemplates (sts_Spec sts) of
        [] \<Rightarrow> None
      | t # ts \<Rightarrow> pvc_Requests t ResourceStorage)"

definition storageSizeChanged :: "StatefulSet \<Rightarrow> StatefulSet \<Rightarrow> bool" where
  "storageSizeChanged current desired =
     (case storageRequestFromStatefulSet current of
        None \<Rightarrow> False
      | Some currentSize \<Rightarrow>
          (case storageRequestFromStatefulSet desired of
             None \<Rightarrow> False
           | Some desiredSize \<Rightarrow> currentSize \<noteq> desiredSize))"

definition HasPrefix :: "string \<Rightarrow> string \<Rightarrow> bool" where
  "HasPrefix s pre = (length s \<ge> length pre \<and> take (length pre) s = pre)"

definition claimPrefix :: "string \<Rightarrow> string \<Rightarrow> string" where
  "claimPrefix claimName appName = claimName @ ''-'' @ appName @ ''-''"

definition listPVCsByPrefix ::
  "Env \<Rightarrow> string \<Rightarrow> string \<Rightarrow> string \<Rightarrow> World
     \<Rightarrow> (error + PersistentVolumeClaim list) \<times> World" where
  "listPVCsByPrefix env claimName appName namespace w =
     (case List_PersistentVolumeClaim env namespace w of
        (Inl err, w') \<Rightarrow> (Inl err, w')
      | (Inr items, w') \<Rightarrow>
          (Inr (filter (\<lambda>pvc. HasPrefix (pvc_Name pvc) (claimPrefix claimName appName)) items), w'))"

fun resizePVCs_range ::
  "Env \<Rightarrow> Quantity \<Rightarrow> PersistentVolumeClaim list \<Rightarrow> World \<Rightarrow> error option \<times> World" where
  "resizePVCs_range env desiredSize [] w = (None, w)"
| "resizePVCs_range env desiredSize (pvc # rest) w =
     (case pvc_Requests pvc ResourceStorage of
        None \<Rightarrow> resizePVCs_range env desiredSize rest w
      | Some currentSize \<Rightarrow>
          (if currentSize \<ge> desiredSize then resizePVCs_range env desiredSize rest w
           else (case Update_PersistentVolumeClaim env
                        (pvc\<lparr>pvc_Requests := (pvc_Requests pvc)(ResourceStorage \<mapsto> desiredSize)\<rparr>) w of
                   (Some err, w') \<Rightarrow> (Some err, w')
                 | (None, w') \<Rightarrow> resizePVCs_range env desiredSize rest w')))"

definition resizePVCs ::
  "Env \<Rightarrow> string \<Rightarrow> string \<Rightarrow> StatefulSet \<Rightarrow> World \<Rightarrow> error option \<times> World" where
  "resizePVCs env claimName appName desired w =
     (case storageRequestFromStatefulSet desired of
        None \<Rightarrow> (None, w)
      | Some desiredSize \<Rightarrow>
          (case listPVCsByPrefix env claimName appName (sts_Namespace desired) w of
             (Inl err, w') \<Rightarrow> (Some err, w')
           | (Inr claims, w') \<Rightarrow> resizePVCs_range env desiredSize claims w'))"

fun deletePVCs_range ::
  "Env \<Rightarrow> PersistentVolumeClaim list \<Rightarrow> World \<Rightarrow> error option \<times> World" where
  "deletePVCs_range env [] w = (None, w)"
| "deletePVCs_range env (pvc # rest) w =
     (case Delete_PersistentVolumeClaim env pvc w of
        (Some err, w') \<Rightarrow> (Some err, w')
      | (None, w') \<Rightarrow> deletePVCs_range env rest w')"

definition deletePVCsByPrefix ::
  "Env \<Rightarrow> string \<Rightarrow> string \<Rightarrow> string \<Rightarrow> World \<Rightarrow> error option \<times> World" where
  "deletePVCsByPrefix env claimName appName namespace w =
     (case listPVCsByPrefix env claimName appName namespace w of
        (Inl err, w') \<Rightarrow> (Some err, w')
      | (Inr claims, w') \<Rightarrow> deletePVCs_range env claims w')"

definition recreateStatefulSetStorage ::
  "Env \<Rightarrow> StatefulSet \<Rightarrow> string \<Rightarrow> string \<Rightarrow> World \<Rightarrow> error option \<times> World" where
  "recreateStatefulSetStorage env sts claimName appName w =
     (case Delete_StatefulSet env sts w of
        (Some err, w') \<Rightarrow> (Some err, w')
      | (None, w') \<Rightarrow> deletePVCsByPrefix env claimName appName (sts_Namespace sts) w')"

section \<open>The application reconciler (internal/reconciler/app.go)\<close>

text \<open>
  A reconcile step returns \<open>Inr None\<close> for a nil error, \<open>Inr (Some err)\<close> for an error
  and \<open>Inl p\<close> when it panics. \<open>reflect.DeepEqual\<close> is equality of the modelled values.
  Two distinctions of the Go values are outside the model. A slice is a list, so a nil
  slice and an empty slice are the same empty list, where \<open>reflect.DeepEqual\<close> tells them
  apart. A quantity of \<open>ResourceRequirements\<close> is its text, and the store returns an
  object as it was written, where the API server returns a quantity in canonical form
  (\<open>1000m\<close> as \<open>1\<close>) and \<open>reflect.DeepEqual\<close> then sees a difference. The statements
  below compare live objects that are built by the builder or differ from it in the
  replica count and the storage size only.
\<close>

type_synonym step = "Env \<Rightarrow> MusicService \<Rightarrow> World \<Rightarrow> (panic + error option) \<times> World"

definition returning :: "error option \<times> World \<Rightarrow> (panic + error option) \<times> World" where
  "returning r = (Inr (fst r), snd r)"

definition ReconcileService :: step where
  "ReconcileService env ms w =
     (case Get_Service env (ms_Namespace ms) (ms_Name ms) w of
        (Inl err, w') \<Rightarrow>
          (if IsNotFound err then returning (Create_Service env (BuildAppService ms) w')
           else (Inr (Some err), w'))
      | (Inr service, w') \<Rightarrow> (Inr None, w'))"

definition containerNeedsUpdate :: "Container \<Rightarrow> Container \<Rightarrow> bool" where
  "containerNeedsUpdate currentContainer desiredContainer =
     (c_Image currentContainer \<noteq> c_Image desiredContainer
      \<or> c_Resources currentContainer \<noteq> c_Resources desiredContainer
      \<or> c_Env currentContainer \<noteq> c_Env desiredContainer
      \<or> c_VolumeMounts currentContainer \<noteq> c_VolumeMounts desiredContainer
      \<or> c_Ports currentContainer \<noteq> c_Ports desiredContainer
      \<or> c_ReadinessProbe currentContainer \<noteq> c_ReadinessProbe desiredContainer
      \<or> c_LivenessProbe currentContainer \<noteq> c_LivenessProbe desiredContainer)"

text \<open>Dereferencing \<open>Spec.Replicas\<close> panics when the pointer is nil.\<close>

definition statefulSetNeedsUpdate :: "StatefulSet \<Rightarrow> StatefulSet \<Rightarrow> panic + bool" where
  "statefulSetNeedsUpdate current desired =
     (case sts_Replicas (sts_Spec current) of
        None \<Rightarrow> Inl NilPointerDereference
      | Some currentReplicas \<Rightarrow>
     (case sts_Replicas (sts_Spec desired) of
        None \<Rightarrow> Inl NilPointerDereference
      | Some desiredReplicas \<Rightarrow>
          (if currentReplicas \<noteq> desiredReplicas then Inr True
           else if tmpl_InitContainers (sts_Spec current) \<noteq> tmpl_InitContainers (sts_Spec desired)
             then Inr True
           else if tmpl_Volumes (sts_Spec current) \<noteq> tmpl_Volumes (sts_Spec desired)
             then Inr True
           else if length (tmpl_Containers (sts_Spec current))
                     \<noteq> length (tmpl_Containers (sts_Spec desired))
             then Inr True
           else Inr (list_ex (\<lambda>(c, d). containerNeedsUpdate c d)
                       (zip (tmpl_Containers (sts_Spec current))
                            (tmpl_Containers (sts_Spec desired)))))))"

text \<open>
  The part the three StatefulSet reconcilers share once the live StatefulSet is found and
  the desired one is built: the storage policy, then the update of the spec.
\<close>

definition applyStatefulSet ::
  "Env \<Rightarrow> StorageSpec \<Rightarrow> string \<Rightarrow> string \<Rightarrow> StatefulSet \<Rightarrow> StatefulSet \<Rightarrow> World
     \<Rightarrow> (panic + error option) \<times> World" where
  "applyStatefulSet env storage claimName appName sts desiredSts w =
     (let storageChanged = storageSizeChanged sts desiredSts
      in if storageChanged \<and> storageUpdatePolicy storage = StorageUpdatePolicyRecreate
         then returning (recreateStatefulSetStorage env sts claimName appName w)
         else (case (if storageChanged then resizePVCs env claimName appName desiredSts w
                     else (None, w)) of
                 (Some err, w') \<Rightarrow> (Inr (Some err), w')
               | (None, w') \<Rightarrow>
                   (case statefulSetNeedsUpdate sts desiredSts of
                      Inl p \<Rightarrow> (Inl p, w')
                    | Inr True \<Rightarrow>
                        returning (Update_StatefulSet env (sts\<lparr>sts_Spec := sts_Spec desiredSts\<rparr>) w')
                    | Inr False \<Rightarrow> (Inr None, w'))))"

definition ReconcileStatefulSet :: step where
  "ReconcileStatefulSet env ms w =
     (case Get_StatefulSet env (ms_Namespace ms) (ms_Name ms) w of
        (Inl err, w') \<Rightarrow>
          (if IsNotFound err then
             (case BuildAppStatefulSet env ms of
                Inl p \<Rightarrow> (Inl p, w')
              | Inr sts \<Rightarrow> returning (Create_StatefulSet env sts w'))
           else (Inr (Some err), w'))
      | (Inr sts, w') \<Rightarrow>
          (case BuildAppStatefulSet env ms of
             Inl p \<Rightarrow> (Inl p, w')
           | Inr desiredSts \<Rightarrow>
               applyStatefulSet env (spec_Storage (ms_Spec ms)) ''music-data'' (ms_Name ms)
                 sts desiredSts w'))"

fun metricsNeedUpdate :: "MetricSpec list \<Rightarrow> MetricSpec list \<Rightarrow> bool" where
  "metricsNeedUpdate [] ds = False"
| "metricsNeedUpdate (metric # ms) [] = False"
| "metricsNeedUpdate (metric # ms) (desiredMetric # ds) =
     (if metric_Type metric \<noteq> metric_Type desiredMetric then True
      else (case (metric_Resource metric, metric_Resource desiredMetric) of
              (Some r, Some dr) \<Rightarrow>
                (if rms_Name r \<noteq> rms_Name dr then True
                 else (case (mt_AverageUtilization (rms_Target r),
                             mt_AverageUtilization (rms_Target dr)) of
                         (Some a, Some b) \<Rightarrow> (if a \<noteq> b then True else metricsNeedUpdate ms ds)
                       | (x, y) \<Rightarrow> x \<noteq> y))
            | (x, y) \<Rightarrow> x \<noteq> y))"

definition autoscalerNeedsUpdate :: "HorizontalPodAutoscaler \<Rightarrow> HorizontalPodAutoscaler \<Rightarrow> bool" where
  "autoscalerNeedsUpdate current desired =
     (if hpa_MaxReplicas (hpa_Spec current) \<noteq> hpa_MaxReplicas (hpa_Spec desired) then True
      else (case (hpa_MinReplicas (hpa_Spec current), hpa_MinReplicas (hpa_Spec desired)) of
              (Some a, Some b) \<Rightarrow>
                (if a \<noteq> b then True
                 else if length (Metrics (hpa_Spec current)) \<noteq> length (Metrics (hpa_Spec desired))
                   then True
                 else metricsNeedUpdate (Metrics (hpa_Spec current)) (Metrics (hpa_Spec desired)))
            | (x, y) \<Rightarrow> x \<noteq> y))"

definition deleteAutoscalerIfExists :: step where
  "deleteAutoscalerIfExists env ms w =
     (case Get_HorizontalPodAutoscaler env (ms_Namespace ms) (ms_Name ms @ ''-autoscaler'') w of
        (Inl err, w') \<Rightarrow> (if IsNotFound err then (Inr None, w') else (Inr (Some err), w'))
      | (Inr hpa, w') \<Rightarrow> returning (Delete_HorizontalPodAutoscaler env hpa w'))"

definition ReconcileAutoscaler :: step where
  "ReconcileAutoscaler env ms w =
     (if spec_Autoscaling (ms_Spec ms) = None then deleteAutoscalerIfExists env ms w
      else
        (case Get_HorizontalPodAutoscaler env (ms_Namespace ms) (ms_Name ms @ ''-autoscaler'') w of
           (Inl err, w') \<Rightarrow>
             (if IsNotFound err then
                (case BuildAutoscaler ms of
                   Inl p \<Rightarrow> (Inl p, w')
                 | Inr hpa \<Rightarrow> returning (Create_HorizontalPodAutoscaler env hpa w'))
              else (Inr (Some err), w'))
         | (Inr hpa, w') \<Rightarrow>
             (case BuildAutoscaler ms of
                Inl p \<Rightarrow> (Inl p, w')
              | Inr desiredHpa \<Rightarrow>
                  (if autoscalerNeedsUpdate hpa desiredHpa
                   then returning (Update_HorizontalPodAutoscaler env
                                     (hpa\<lparr>hpa_Spec := hpa_Spec desiredHpa\<rparr>) w')
                   else (Inr None, w')))))"

section \<open>The database reconciler (internal/reconciler/database.go)\<close>

definition databaseStorageSpec :: "MusicService \<Rightarrow> StorageSpec" where
  "databaseStorageSpec ms =
     (case spec_Database (ms_Spec ms) of
        None \<Rightarrow> \<lparr>Size = [], UpdatePolicy = []\<rparr>
      | Some db \<Rightarrow>
          (case db_Storage db of
             None \<Rightarrow> \<lparr>Size = [], UpdatePolicy = []\<rparr>
           | Some st \<Rightarrow> st))"

definition replicationEnabled_ms :: "MusicService \<Rightarrow> bool" where
  "replicationEnabled_ms ms =
     (case spec_Database (ms_Spec ms) of
        None \<Rightarrow> False
      | Some db \<Rightarrow>
          (case db_Replication db of
             None \<Rightarrow> True
           | Some r \<Rightarrow> (case repl_Enabled r of None \<Rightarrow> True | Some b \<Rightarrow> b)))"

definition hexdigit :: "nat \<Rightarrow> char" where
  "hexdigit d = ''0123456789abcdef'' ! d"

definition EncodeToString :: "8 word list \<Rightarrow> string" where
  "EncodeToString buf = concat (map (\<lambda>b. [hexdigit (unat b div 16), hexdigit (unat b mod 16)]) buf)"

text \<open>\<open>rand.Read(buf)\<close> fills the buffer from the system's random source or fails.\<close>

definition rand_Read :: "Env \<Rightarrow> nat \<Rightarrow> error + 8 word list" where
  "rand_Read env n =
     (case rand_fault env of
        Some m \<Rightarrow> Inl (OtherError m)
      | None \<Rightarrow> Inr (map (rand_bytes env) [0..<n]))"

definition generatePassword :: "Env \<Rightarrow> nat \<Rightarrow> error + string" where
  "generatePassword env len =
     (case rand_Read env len of
        Inl err \<Rightarrow> Inl err
      | Inr buf \<Rightarrow> Inr (EncodeToString buf))"

text \<open>
  The lines of \<open>ensureReplicationSecret\<close> after the secret is fetched: the missing keys
  are filled in, and \<open>updated\<close> tells whether one was.
\<close>

definition backfillSecret :: "Env \<Rightarrow> Secret \<Rightarrow> error + Secret \<times> bool" where
  "backfillSecret env secret =
     (let updated = False;
          (secret, updated) =
            (if secret_Data secret ''username'' = None
             then (secret\<lparr>secret_Data := (secret_Data secret)(''username'' \<mapsto> ''repl'')\<rparr>, True)
             else (secret, updated))
      in (if secret_Data secret ''password'' = None
          then (case generatePassword env 16 of
                  Inl err \<Rightarrow> Inl err
                | Inr password \<Rightarrow>
                    Inr (secret\<lparr>secret_Data := (secret_Data secret)(''password'' \<mapsto> password)\<rparr>,
                         True))
          else Inr (secret, updated)))"

definition ensureReplicationSecret ::
  "Env \<Rightarrow> MusicService \<Rightarrow> World \<Rightarrow> (error + Secret option) \<times> World" where
  "ensureReplicationSecret env ms w =
     (if \<not> replicationEnabled_ms ms
         \<or> (case spec_Database (ms_Spec ms) of None \<Rightarrow> True | Some db \<Rightarrow> db_Replicas db = 0)
      then (Inr None, w)
      else
        (case Get_Secret env (ms_Namespace ms) (ms_Name ms @ ''-db-replication'') w of
           (Inl err, w') \<Rightarrow>
             (if \<not> IsNotFound err then (Inl err, w')
              else
                (case generatePassword env 16 of
                   Inl err \<Rightarrow> (Inl err, w')
                 | Inr password \<Rightarrow>
                     (let secret =
                            \<lparr>secret_Name = ms_Name ms @ ''-db-replication'',
                             secret_Namespace = ms_Namespace ms,
                             secret_OwnerReferences = [NewControllerRef ms],
                             secret_Type = ''Opaque'',
                             secret_Data = [''username'' \<mapsto> ''repl'', ''password'' \<mapsto> password]\<rparr>
                      in (case Create_Secret env secret w' of
                            (Some err, w'') \<Rightarrow> (Inl err, w'')
                          | (None, w'') \<Rightarrow> (Inr (Some secret), w'')))))
         | (Inr secret, w') \<Rightarrow>
             (case backfillSecret env secret of
                Inl err \<Rightarrow> (Inl err, w')
              | Inr (secret, updated) \<Rightarrow>
                  (if updated then
                     (case Update_Secret env secret w' of
                        (Some err, w'') \<Rightarrow> (Inl err, w'')
                      | (None, w'') \<Rightarrow> (Inr (Some secret), w''))
                   else (Inr (Some secret), w')))))"

definition ReconcileMaster :: step where
  "ReconcileMaster env ms w =
     (case Get_StatefulSet env (ms_Namespace ms) (ms_Name ms @ ''-db-master'') w of
        (Inl err, w') \<Rightarrow>
          (if IsNotFound err then
             (case BuildDatabaseMasterStatefulSet env ms of
                Inl p \<Rightarrow> (Inl p, w')
              | Inr sts \<Rightarrow> returning (Create_StatefulSet env sts w'))
           else (Inr (Some err), w'))
      | (Inr sts, w') \<Rightarrow>
          (case BuildDatabaseMasterStatefulSet env ms of
             Inl p \<Rightarrow> (Inl p, w')
           | Inr desiredSts \<Rightarrow>
               applyStatefulSet env (databaseStorageSpec ms) ''db-data'' (ms_Name ms @ ''-db-master'')
                 sts desiredSts w'))"

definition ReconcileReplicas :: step where
  "ReconcileReplicas env ms w =
     (case spec_Database (ms_Spec ms) of
        None \<Rightarrow> (Inl NilPointerDereference, w)
      | Some db \<Rightarrow>
          (if db_Replicas db = 0 then (Inr None, w)
           else
             (case ensureReplicationSecret env ms w of
                (Inl err, w0) \<Rightarrow> (Inr (Some err), w0)
              | (Inr secret, w0) \<Rightarrow>
                  (case Get_StatefulSet env (ms_Namespace ms) (ms_Name ms @ ''-db-replica'') w0 of
                     (Inl err, w') \<Rightarrow>
                       (if IsNotFound err then
                          (case BuildDatabaseReplicaStatefulSet env ms of
                             Inl p \<Rightarrow> (Inl p, w')
                           | Inr sts \<Rightarrow> returning (Create_StatefulSet env sts w'))
                        else (Inr (Some err), w'))
                   | (Inr sts, w') \<Rightarrow>
                       (case BuildDatabaseReplicaStatefulSet env ms of
                          Inl p \<Rightarrow> (Inl p, w')
                        | Inr desiredSts \<Rightarrow>
                            applyStatefulSet env (databaseStorageSpec ms) ''db-data''
                              (ms_Name ms @ ''-db-replica'') sts desiredSts w')))))"

definition ReconcileServices :: step where
  "ReconcileServices env ms w =
     (case (case Get_Service env (ms_Namespace ms) (ms_Name ms @ ''-db-master'') w of
              (Inl err, w') \<Rightarrow>
                (if IsNotFound err then Create_Service env (BuildDatabaseMasterService ms) w'
                 else (Some err, w'))
            | (Inr masterSvc, w') \<Rightarrow> (None, w')) of
        (Some err, w') \<Rightarrow> (Inr (Some err), w')
      | (None, w') \<Rightarrow>
          (case spec_Database (ms_Spec ms) of
             None \<Rightarrow> (Inl NilPointerDereference, w')
           | Some db \<Rightarrow>
               (if db_Replicas db > 0 then
                  (case Get_Service env (ms_Namespace ms) (ms_Name ms @ ''-db-read'') w' of
                     (Inl err, w'') \<Rightarrow>
                       (if IsNotFound err
                        then returning (Create_Service env (BuildDatabaseReadService ms) w'')
                        else (Inr None, w''))
                   | (Inr readSvc, w'') \<Rightarrow> (Inr None, w''))
                else (Inr None, w'))))"

definition db_ReconcileAutoscaler :: step where
  "db_ReconcileAutoscaler env ms w =
     (case spec_Database (ms_Spec ms) of
        None \<Rightarrow> (Inl NilPointerDereference, w)
      | Some db \<Rightarrow>
          (if db_Autoscaling db = None \<or> db_Replicas db = 0 then (Inr None, w)
           else
             (case Get_HorizontalPodAutoscaler env (ms_Namespace ms)
                     (ms_Name ms @ ''-db-replica-autoscaler'') w of
                (Inl err, w') \<Rightarrow>
                  (if IsNotFound err then
                     (case BuildDatabaseReplicaAutoscaler ms of
                        Inl p \<Rightarrow> (Inl p, w')
                      | Inr hpa \<Rightarrow> returning (Create_HorizontalPodAutoscaler env hpa w'))
                   else (Inr (Some err), w'))
              | (Inr hpa, w') \<Rightarrow>
                  (case BuildDatabaseReplicaAutoscaler ms of
                     Inl p \<Rightarrow> (Inl p, w')
                   | Inr desired \<Rightarrow>
                       (if hpa_Spec hpa \<noteq> hpa_Spec desired
                        then returning (Update_HorizontalPodAutoscaler env
                                          (hpa\<lparr>hpa_Spec := hpa_Spec desired\<rparr>) w')
                        else (Inr None, w'))))))"

section \<open>The status manager (internal/status/manager.go)\<close>

text \<open>
  The methods change the object in memory and end with \<open>Status().Update\<close>: the model
  returns that call's error together with the object as it was written.
\<close>

definition setStatusCondition :: "Env \<Rightarrow> MusicService \<Rightarrow> Condition \<Rightarrow> MusicService" where
  "setStatusCondition env ms c =
     ms\<lparr>ms_Status := (ms_Status ms)\<lparr>Conditions :=
          setCondition (clock env) (Conditions (ms_Status ms)) c\<rparr>\<rparr>"

definition newCondition :: "MusicService \<Rightarrow> string \<Rightarrow> ConditionStatus \<Rightarrow> string \<Rightarrow> string \<Rightarrow> Condition" where
  "newCondition ms ty st reason message =
     \<lparr>cond_Type = ty, cond_Status = st, cond_ObservedGeneration = ms_Generation ms,
      cond_LastTransitionTime = None, cond_Reason = reason, cond_Message = message\<rparr>"

definition UpdateReconciled ::
  "Env \<Rightarrow> MusicService \<Rightarrow> World \<Rightarrow> (error option \<times> MusicService) \<times> World" where
  "UpdateReconciled env ms w =
     (let ms = setStatusCondition env ms
                 (newCondition ms ''Reconciled'' ConditionTrue ''ReconcileSuccess''
                    ''Successfully reconciled'');
          ms = ms\<lparr>ms_Status := (ms_Status ms)\<lparr>LastReconcileTime := Some (clock env)\<rparr>\<rparr>;
          ms = ms\<lparr>ms_Status := (ms_Status ms)\<lparr>LastError := []\<rparr>\<rparr>
      in (case Status_Update env ms w of (err, w') \<Rightarrow> ((err, ms), w')))"

definition UpdateError ::
  "Env \<Rightarrow> MusicService \<Rightarrow> string \<Rightarrow> string \<Rightarrow> World \<Rightarrow> (error option \<times> MusicService) \<times> World" where
  "UpdateError env ms reason message w =
     (let ms = ms\<lparr>ms_Status := (ms_Status ms)\<lparr>Phase := ''Failed''\<rparr>\<rparr>;
          ms = ms\<lparr>ms_Status := (ms_Status ms)\<lparr>LastError := message\<rparr>\<rparr>;
          ms = ms\<lparr>ms_Status := (ms_Status ms)\<lparr>LastReconcileTime := Some (clock env)\<rparr>\<rparr>;
          ms = setStatusCondition env ms
                 (newCondition ms ''Reconciled'' ConditionFalse reason message)
      in (case Status_Update env ms w of (err, w') \<Rightarrow> ((err, ms), w')))"

definition status_listPVCsByPrefix ::
  "Env \<Rightarrow> string \<Rightarrow> string \<Rightarrow> string \<Rightarrow> World
     \<Rightarrow> (error + PersistentVolumeClaim list) \<times> World" where
  "status_listPVCsByPrefix env claimName appName namespace w =
     (case List_PersistentVolumeClaim env namespace w of
        (Inl err, w') \<Rightarrow> (Inl err, w')
      | (Inr items, w') \<Rightarrow>
          (let pre = claimPrefix claimName appName
           in (Inr (filter (\<lambda>pvc. length (pvc_Name pvc) \<ge> length pre
                                   \<and> take (length pre) (pvc_Name pvc) = pre) items), w')))"

definition updateStorageWarnings ::
  "Env \<Rightarrow> MusicService \<Rightarrow> StatefulSet \<Rightarrow> string \<Rightarrow> string \<Rightarrow> string \<Rightarrow> string \<Rightarrow> World
     \<Rightarrow> MusicService \<times> World" where
  "updateStorageWarnings env ms sts claimName appName desiredSize conditionType w =
     (if (case storageRequestFromStatefulSet sts of
            None \<Rightarrow> False
          | Some currentSize \<Rightarrow>
              desiredSize \<noteq> [] \<and>
              (case ParseQuantity env desiredSize of
                 None \<Rightarrow> False
               | Some desired \<Rightarrow> desired < currentSize))
      then (setStatusCondition env ms
              (newCondition ms conditionType ConditionFalse ''ShrinkNotSupported''
                 ''Requested storage size is smaller than current PVC size''), w)
      else
        (case status_listPVCsByPrefix env claimName appName (ms_Namespace ms) w of
           (Inl err, w') \<Rightarrow>
             (setStatusCondition env ms
                (newCondition ms conditionType ConditionTrue ''StorageHealthy''
                   ''Storage requests are within expected bounds''), w')
         | (Inr claims, w') \<Rightarrow>
             (if list_ex (\<lambda>pvc. pvc_Phase pvc \<noteq> ClaimBound) claims
              then (setStatusCondition env ms
                      (newCondition ms conditionType ConditionFalse ''PVCNotBound''
                         ''One or more PVCs are not bound yet''), w')
              else (setStatusCondition env ms
                      (newCondition ms conditionType ConditionTrue ''StorageHealthy''
                         ''Storage requests are within expected bounds''), w'))))"

text \<open>The \<open>if\<close>/\<open>else if\<close>/\<open>else\<close> of \<open>UpdateFromAppStatefulSet\<close> on the ready replicas.\<close>

definition availability :: "Env \<Rightarrow> MusicService \<Rightarrow> int \<Rightarrow> int \<Rightarrow> MusicService" where
  "availability env ms readyReplicas specReplicas =
     (if readyReplicas = 0 then
        setStatusCondition env (ms\<lparr>ms_Status := (ms_Status ms)\<lparr>Phase := ''Pending''\<rparr>\<rparr>)
          (newCondition ms ''Available'' ConditionFalse ''PodsNotReady''
             ''Waiting for pods to be ready'')
      else if readyReplicas < specReplicas then
        setStatusCondition env (ms\<lparr>ms_Status := (ms_Status ms)\<lparr>Phase := ''Progressing''\<rparr>\<rparr>)
          (newCondition ms ''Available'' ConditionFalse ''PodsProgressing''
             (''Waiting for pods: '' @ showInt readyReplicas @ ''/''
                @ showInt specReplicas @ '' ready''))
      else
        setStatusCondition env (ms\<lparr>ms_Status := (ms_Status ms)\<lparr>Phase := ''Available''\<rparr>\<rparr>)
          (newCondition ms ''Available'' ConditionTrue ''PodsReady''
             ''All replicas are ready''))"

definition UpdateFromAppStatefulSet ::
  "Env \<Rightarrow> MusicService \<Rightarrow> StatefulSet \<Rightarrow> World
     \<Rightarrow> (panic + error option \<times> MusicService) \<times> World" where
  "UpdateFromAppStatefulSet env ms sts w =
     (case sts_Replicas (sts_Spec sts) of
        None \<Rightarrow> (Inl NilPointerDereference, w)
      | Some specReplicas \<Rightarrow>
          (let ms = ms\<lparr>ms_Status := (ms_Status ms)
                       \<lparr>ReadyReplicas := sts_ReadyReplicas sts,
                        DesiredReplicas := specReplicas,
                        ObservedGeneration := ms_Generation ms\<rparr>\<rparr>;
               ms = availability env ms (sts_ReadyReplicas sts) specReplicas
           in (case updateStorageWarnings env ms sts ''music-data'' (ms_Name ms)
                      (Size (spec_Storage (ms_Spec ms))) ''StorageWarningApp'' w of
                 (ms, w') \<Rightarrow>
                   (case Status_Update env ms w' of (err, w'') \<Rightarrow> (Inr (err, ms), w'')))))"

definition emptyDatabaseStatus :: DatabaseStatus where
  "emptyDatabaseStatus =
     \<lparr>dbs_Phase = [], MasterReady = False, ReplicasReady = 0, ReplicaEverCreated = False,
      ReplicaLastSeen = None, ReplicaDeletionDetected = False, ReplicationReady = False\<rparr>"

definition initDatabaseStatus :: "MusicService \<Rightarrow> MusicService" where
  "initDatabaseStatus ms =
     (if Database (ms_Status ms) = None
      then ms\<lparr>ms_Status := (ms_Status ms)\<lparr>Database := Some emptyDatabaseStatus\<rparr>\<rparr>
      else ms)"

definition databaseStatus :: "MusicService \<Rightarrow> DatabaseStatus" where
  "databaseStatus ms =
     (case Database (ms_Status ms) of None \<Rightarrow> emptyDatabaseStatus | Some d \<Rightarrow> d)"

definition setDatabaseStatus :: "MusicService \<Rightarrow> DatabaseStatus \<Rightarrow> MusicService" where
  "setDatabaseStatus ms d = ms\<lparr>ms_Status := (ms_Status ms)\<lparr>Database := Some d\<rparr>\<rparr>"

text \<open>The body of \<open>if err == nil\<close> after the master StatefulSet is fetched.\<close>

definition masterObserved ::
  "Env \<Rightarrow> MusicService \<Rightarrow> DatabaseSpec \<Rightarrow> StatefulSet \<Rightarrow> World \<Rightarrow> MusicService \<times> World" where
  "masterObserved env ms db masterSts w =
     (let ms = setDatabaseStatus ms
                 ((databaseStatus ms)
                    \<lparr>MasterReady := sts_ReadyReplicas masterSts > 0,
                     dbs_Phase := (if sts_ReadyReplicas masterSts > 0 then ''Ready''
                                   else ''Pending'')\<rparr>)
      in (case db_Storage db of
            None \<Rightarrow> (ms, w)
          | Some st \<Rightarrow>
              updateStorageWarnings env ms masterSts ''db-data''
                (ms_Name ms @ ''-db-master'') (Size st) ''StorageWarningDatabase'' w))"

text \<open>The body of \<open>if err == nil\<close> after the replica StatefulSet is fetched.\<close>

definition replicaObserved :: "Env \<Rightarrow> MusicService \<Rightarrow> StatefulSet \<Rightarrow> MusicService" where
  "replicaObserved env ms replicaSts =
     (let ms = setDatabaseStatus ms
                 ((databaseStatus ms)
                    \<lparr>ReplicasReady := sts_ReadyReplicas replicaSts,
                     ReplicaEverCreated := True,
                     ReplicaDeletionDetected := False,
                     ReplicaLastSeen := Some (clock env),
                     ReplicationReady := sts_ReadyReplicas replicaSts > 0\<rparr>)
      in setStatusCondition env ms
           (newCondition ms ''DatabaseReplicaHistory'' ConditionTrue
              ''ReplicaObserved'' ''Replica StatefulSet is present''))"

text \<open>The body of \<open>else if errors.IsNotFound(err)\<close> for the replica StatefulSet.\<close>

definition replicaNotFound :: "Env \<Rightarrow> MusicService \<Rightarrow> MusicService" where
  "replicaNotFound env ms =
     (if ReplicaEverCreated (databaseStatus ms) then
        (let ms = setDatabaseStatus ms
                    ((databaseStatus ms)\<lparr>ReplicaDeletionDetected := True\<rparr>)
         in setStatusCondition env ms
              (newCondition ms ''DatabaseReplicaHistory'' ConditionFalse
                 ''ReplicaDeleted''
                 ''Replica StatefulSet was deleted after previously existing''))
      else ms)"

definition UpdateDatabase ::
  "Env \<Rightarrow> MusicService \<Rightarrow> World \<Rightarrow> (panic + error option \<times> MusicService) \<times> World" where
  "UpdateDatabase env ms w =
     (let ms = initDatabaseStatus ms
      in (case Get_StatefulSet env (ms_Namespace ms) (ms_Name ms @ ''-db-master'') w of
            (r1, w1) \<Rightarrow>
      (case spec_Database (ms_Spec ms) of
         None \<Rightarrow> (Inl NilPointerDereference, w1)
       | Some db \<Rightarrow>
      (case (case r1 of
               Inl err \<Rightarrow> (ms, w1)
             | Inr masterSts \<Rightarrow> masterObserved env ms db masterSts w1) of
         (ms, w2) \<Rightarrow>
      (case (if db_Replicas db > 0 then
               (case Get_StatefulSet env (ms_Namespace ms) (ms_Name ms @ ''-db-replica'') w2 of
                  (Inr replicaSts, w3) \<Rightarrow> (replicaObserved env ms replicaSts, w3)
                | (Inl err, w3) \<Rightarrow>
                    (if IsNotFound err then (replicaNotFound env ms, w3) else (ms, w3)))
             else (ms, w2)) of
         (ms, w4) \<Rightarrow>
           (case Status_Update env ms w4 of (err, w5) \<Rightarrow> (Inr (err, ms), w5)))))))"

section \<open>The high-availability reconciler\<close>

text \<open>
  Modelled from the spec: the builder functions \<open>BuildDatabaseGaleraStatefulSet\<close>,
  \<open>BuildDatabaseGaleraService\<close> and \<open>BuildDatabaseGaleraPrimaryService\<close> are called by the
  builder's tests but their code is not at hand. The spec's high-availability cluster is
  "a single symmetric pool of N+1 nodes, all primary-capable", with a "direct-discovery
  endpoint" that publishes not-yet-ready node addresses and "a separate, health-filtered,
  load-balanced endpoint" for client writes; the names, the component label and the
  init container are the ones the builder's tests expect.
\<close>

definition BuildDatabaseGaleraStatefulSet :: "Env \<Rightarrow> MusicService \<Rightarrow> panic + StatefulSet" where
  "BuildDatabaseGaleraStatefulSet env ms =
     (let labels = getLabels ms ''db-galera'';
          podLabels = [(''app'', ms_Name ms), (''component'', ''db-galera'')]
      in case buildDatabaseConfig env ms of
           Inl p \<Rightarrow> Inl p
         | Inr config \<Rightarrow> Inr
             \<lparr>sts_Name = ms_Name ms @ ''-db-galera'', sts_Namespace = ms_Namespace ms,
              sts_Labels = labels,
              sts_OwnerReferences = [NewControllerRef ms],
              sts_Spec =
                \<lparr>sts_Replicas = Some (replicas config + 1),
                 sts_ServiceName = ms_Name ms @ ''-db-galera'',
                 sts_Selector = podLabels,
                 tmpl_Labels = podLabels,
                 tmpl_InitContainers =
                   [\<lparr>c_Name = ''init-galera-config'',
                     c_Image = image config,
                     c_Command = [],
                     c_Env = [],
                     c_Ports = [],
                     c_Resources = noResources,
                     c_VolumeMounts = [\<lparr>vm_Name = ''db-config'', vm_MountPath = ''/db-config''\<rparr>],
                     c_ReadinessProbe = None,
                     c_LivenessProbe = None\<rparr>],
                 tmpl_Containers =
                   [\<lparr>c_Name = ''mariadb'',
                     c_Image = image config,
                     c_Command = [],
                     c_Env = [plainEnv ''MYSQL_ROOT_PASSWORD'' (rootPassword config),
                              plainEnv ''MYSQL_DATABASE'' ''musicdb''],
                     c_Ports =
                       [mysqlPort,
                        \<lparr>port_Name = ''galera-repl'', port_ContainerPort = 4567, port_Protocol = ''TCP''\<rparr>,
                        \<lparr>port_Name = ''galera-ist'', port_ContainerPort = 4568, port_Protocol = ''TCP''\<rparr>,
                        \<lparr>port_Name = ''galera-sst'', port_ContainerPort = 4444, port_Protocol = ''TCP''\<rparr>],
                     c_Resources = noResources,
                     c_VolumeMounts = dbVolumeMounts,
                     c_ReadinessProbe = Some (mysqlPing 10 10),
                     c_LivenessProbe = Some (mysqlPing 30 20)\<rparr>],
                 tmpl_Volumes = [dbConfigVolume],
                 sts_VolumeClaimTemplates = [volumeClaimTemplate ''db-data'' (storageSize config)]\<rparr>,
              sts_ReadyReplicas = 0\<rparr>)"

text \<open>Modelled from the spec: the direct-discovery endpoint of the cluster (see above).\<close>

definition BuildDatabaseGaleraService :: "MusicService \<Rightarrow> Service" where
  "BuildDatabaseGaleraService ms =
     \<lparr>svc_Name = ms_Name ms @ ''-db-galera'', svc_Namespace = ms_Namespace ms,
      svc_Labels = getLabels ms ''db-galera'',
      svc_OwnerReferences = [NewControllerRef ms],
      svc_Selector = [(''app'', ms_Name ms), (''component'', ''db-galera'')],
      svc_Ports = [\<lparr>sp_Name = ''mysql'', sp_Port = 3306, sp_TargetPort = None,
                    sp_Protocol = ''TCP''\<rparr>],
      svc_Type = ''ClusterIP'', svc_ClusterIP = ''None'',
      svc_PublishNotReadyAddresses = True\<rparr>"

text \<open>Modelled from the spec: the load-balanced write endpoint of the cluster (see above).\<close>

definition BuildDatabaseGaleraPrimaryService :: "MusicService \<Rightarrow> Service" where
  "BuildDatabaseGaleraPrimaryService ms =
     \<lparr>svc_Name = ms_Name ms @ ''-db-master'', svc_Namespace = ms_Namespace ms,
      svc_Labels = getLabels ms ''db-galera'',
      svc_OwnerReferences = [NewControllerRef ms],
      svc_Selector = [(''app'', ms_Name ms), (''component'', ''db-galera'')],
      svc_Ports = [\<lparr>sp_Name = ''mysql'', sp_Port = 3306, sp_TargetPort = None,
                    sp_Protocol = ''TCP''\<rparr>],
      svc_Type = ''ClusterIP'', svc_ClusterIP = [],
      svc_PublishNotReadyAddresses = False\<rparr>"

text \<open>
  Modelled from the spec: \<open>ReconcileGalera\<close> is called by the controller but its code is not
  at hand. It follows the orchestrator's steps of the spec: "Fetch live resource by stable
  key", "If absent: create from descriptor", and if present the storage policy and the
  update of the diff, as the reconcilers of the other tiers do.
\<close>

definition ReconcileGalera :: step where
  "ReconcileGalera env ms w =
     (case Get_StatefulSet env (ms_Namespace ms) (ms_Name ms @ ''-db-galera'') w of
        (Inl err, w') \<Rightarrow>
          (if IsNotFound err then
             (case BuildDatabaseGaleraStatefulSet env ms of
                Inl p \<Rightarrow> (Inl p, w')
              | Inr sts \<Rightarrow> returning (Create_StatefulSet env sts w'))
           else (Inr (Some err), w'))
      | (Inr sts, w') \<Rightarrow>
          (case BuildDatabaseGaleraStatefulSet env ms of
             Inl p \<Rightarrow> (Inl p, w')
           | Inr desiredSts \<Rightarrow>
               applyStatefulSet env (databaseStorageSpec ms) ''db-data'' (ms_Name ms @ ''-db-galera'')
                 sts desiredSts w'))"

text \<open>
  Modelled from the spec: \<open>ReconcileGaleraServices\<close> is called by the controller but its
  code is not at hand; each of the two endpoints is fetched and, "if absent", created.
\<close>

definition ReconcileGaleraServices :: step where
  "ReconcileGaleraServices env ms w =
     (case (case Get_Service env (ms_Namespace ms) (ms_Name ms @ ''-db-galera'') w of
              (Inl err, w') \<Rightarrow>
                (if IsNotFound err then Create_Service env (BuildDatabaseGaleraService ms) w'
                 else (Some err, w'))
            | (Inr svc, w') \<Rightarrow> (None, w')) of
        (Some err, w') \<Rightarrow> (Inr (Some err), w')
      | (None, w') \<Rightarrow>
          (case Get_Service env (ms_Namespace ms) (ms_Name ms @ ''-db-master'') w' of
             (Inl err, w'') \<Rightarrow>
               (if IsNotFound err
                then returning (Create_Service env (BuildDatabaseGaleraPrimaryService ms) w'')
                else (Inr (Some err), w''))
           | (Inr svc, w'') \<Rightarrow> (Inr None, w'')))"

section \<open>The controller (internal/controller/musicservice\_controller.go)\<close>

definition musicServiceFinalizerName :: string where
  "musicServiceFinalizerName = ''music.mixcorp.org/finalizer''"

definition ContainsFinalizer :: "MusicService \<Rightarrow> string \<Rightarrow> bool" where
  "ContainsFinalizer ms f = (f \<in> set (ms_Finalizers ms))"

definition AddFinalizer :: "MusicService \<Rightarrow> string \<Rightarrow> MusicService" where
  "AddFinalizer ms f =
     (if f \<in> set (ms_Finalizers ms) then ms else ms\<lparr>ms_Finalizers := ms_Finalizers ms @ [f]\<rparr>)"

definition RemoveFinalizer :: "MusicService \<Rightarrow> string \<Rightarrow> MusicService" where
  "RemoveFinalizer ms f = ms\<lparr>ms_Finalizers := filter (\<lambda>x. x \<noteq> f) (ms_Finalizers ms)\<rparr>"

definition databaseEnabled :: "MusicService \<Rightarrow> bool" where
  "databaseEnabled ms =
     (case spec_Database (ms_Spec ms) of None \<Rightarrow> False | Some db \<Rightarrow> db_Enabled db)"

definition databaseHAEnabled :: "MusicService \<Rightarrow> bool" where
  "databaseHAEnabled ms =
     (case spec_Database (ms_Spec ms) of
        None \<Rightarrow> False
      | Some db \<Rightarrow>
          (case db_HighAvailability db of None \<Rightarrow> False | Some ha \<Rightarrow> ha_Enabled ha))"

text \<open>\<open>ctrl.Result\<close>: the delay of the requeue in seconds, 0 for none.\<close>

record Result =
  RequeueAfter :: nat

type_synonym Return = "(panic + Result \<times> error option) \<times> World"

text \<open>
  The statements \<open>if err := step(ctx, ms); err != nil { return ctrl.Result{},
  UpdateError(ctx, ms, reason, err.Error()) }\<close> of \<open>Reconcile\<close> are a list of (reason, step)
  in the order of the source; \<open>runSteps\<close> runs them up to the first error or panic.
\<close>

fun runSteps ::
  "Env \<Rightarrow> MusicService \<Rightarrow> (string \<times> step) list \<Rightarrow> World
     \<Rightarrow> (panic + (string \<times> error) option) \<times> World" where
  "runSteps env ms [] w = (Inr None, w)"
| "runSteps env ms ((reason, st) # rest) w =
     (case st env ms w of
        (Inl p, w') \<Rightarrow> (Inl p, w')
      | (Inr (Some err), w') \<Rightarrow> (Inr (Some (reason, err)), w')
      | (Inr None, w') \<Rightarrow> runSteps env ms rest w')"

definition appSteps :: "(string \<times> step) list" where
  "appSteps =
     [(''ServiceFailed'', ReconcileService),
      (''StatefulSetFailed'', ReconcileStatefulSet),
      (''AutoscalerFailed'', ReconcileAutoscaler)]"

text \<open>
  The steps inside \<open>if databaseEnabled(musicService)\<close>. The two steps of the
  high-availability branch are methods whose code is not at hand: they are parameters.
\<close>

definition databaseSteps :: "step \<Rightarrow> step \<Rightarrow> MusicService \<Rightarrow> (string \<times> step) list" where
  "databaseSteps galera galeraServices ms =
     (if databaseHAEnabled ms
      then [(''DBGaleraFailed'', galera),
            (''DBGaleraServicesFailed'', galeraServices)]
      else [(''DBMasterFailed'', ReconcileMaster),
            (''DBReplicasFailed'', ReconcileReplicas),
            (''DBServicesFailed'', ReconcileServices)])
     @ [(''DBAutoscalerFailed'', db_ReconcileAutoscaler)]"

definition failWith :: "Env \<Rightarrow> MusicService \<Rightarrow> string \<Rightarrow> error \<Rightarrow> World \<Rightarrow> Return" where
  "failWith env ms reason err w =
     (case UpdateError env ms reason (Error err) w of
        ((e, ms'), w') \<Rightarrow> (Inr (\<lparr>RequeueAfter = 0\<rparr>, e), w'))"

text \<open>The end of \<open>Reconcile\<close>, from "Sync status from StatefulSet" on.\<close>

definition syncStatus :: "Env \<Rightarrow> MusicService \<Rightarrow> World \<Rightarrow> Return" where
  "syncStatus env ms w =
     (case (case Get_StatefulSet env (ms_Namespace ms) (ms_Name ms) w of
              (Inl err, w1) \<Rightarrow> (Inr (None, ms), w1)
            | (Inr appSts, w1) \<Rightarrow> UpdateFromAppStatefulSet env ms appSts w1) of
        (Inl p, w1) \<Rightarrow> (Inl p, w1)
      | (Inr (Some err, ms), w1) \<Rightarrow> (Inr (\<lparr>RequeueAfter = 0\<rparr>, Some err), w1)
      | (Inr (None, ms), w1) \<Rightarrow>
     (case (if databaseEnabled ms then UpdateDatabase env ms w1 else (Inr (None, ms), w1)) of
        (Inl p, w2) \<Rightarrow> (Inl p, w2)
      | (Inr (Some err, ms), w2) \<Rightarrow> (Inr (\<lparr>RequeueAfter = 0\<rparr>, Some err), w2)
      | (Inr (None, ms), w2) \<Rightarrow>
     (case UpdateReconciled env ms w2 of
        ((Some err, ms), w3) \<Rightarrow> (Inr (\<lparr>RequeueAfter = 0\<rparr>, Some err), w3)
      | ((None, ms), w3) \<Rightarrow>
          (if ReadyReplicas (ms_Status ms) < spec_Replicas (ms_Spec ms)
           then (Inr (\<lparr>RequeueAfter = 5\<rparr>, None), w3)
           else (Inr (\<lparr>RequeueAfter = 30\<rparr>, None), w3)))))"

text \<open>The two assignments under "Initialize status".\<close>

definition initStatus :: "MusicService \<Rightarrow> MusicService" where
  "initStatus ms =
     ms\<lparr>ms_Status := (ms_Status ms)
          \<lparr>ObservedGeneration := ms_Generation ms,
           DesiredReplicas := spec_Replicas (ms_Spec ms)\<rparr>\<rparr>"

text \<open>The middle of \<open>Reconcile\<close>, from "Initialize status" to the database autoscaler.\<close>

definition reconcileResources :: "step \<Rightarrow> step \<Rightarrow> Env \<Rightarrow> MusicService \<Rightarrow> World \<Rightarrow> Return" where
  "reconcileResources galera galeraServices env ms w =
     (let ms = initStatus ms
      in (case runSteps env ms appSteps w of
            (Inl p, w1) \<Rightarrow> (Inl p, w1)
          | (Inr (Some (reason, err)), w1) \<Rightarrow> failWith env ms reason err w1
          | (Inr None, w1) \<Rightarrow>
              (if databaseEnabled ms then
                 (let ms = initDatabaseStatus ms
                  in (case runSteps env ms (databaseSteps galera galeraServices ms) w1 of
                        (Inl p, w2) \<Rightarrow> (Inl p, w2)
                      | (Inr (Some (reason, err)), w2) \<Rightarrow> failWith env ms reason err w2
                      | (Inr None, w2) \<Rightarrow> syncStatus env ms w2))
               else syncStatus env ms w1)))"

definition Reconcile :: "step \<Rightarrow> step \<Rightarrow> Env \<Rightarrow> string \<Rightarrow> string \<Rightarrow> World \<Rightarrow> Return" where
  "Reconcile galera galeraServices env ns name w =
     (case Get_MusicService env ns name w of
        (Inl err, w1) \<Rightarrow>
          (if IsNotFound err then (Inr (\<lparr>RequeueAfter = 0\<rparr>, None), w1)
           else (Inr (\<lparr>RequeueAfter = 0\<rparr>, Some err), w1))
      | (Inr musicService, w1) \<Rightarrow>
          (if ms_DeletionTimestamp musicService \<noteq> None then
             (if ContainsFinalizer musicService musicServiceFinalizerName then
                (case Update_MusicService env
                        (RemoveFinalizer musicService musicServiceFinalizerName) w1 of
                   (Some err, w2) \<Rightarrow> (Inr (\<lparr>RequeueAfter = 0\<rparr>, Some err), w2)
                 | (None, w2) \<Rightarrow> (Inr (\<lparr>RequeueAfter = 0\<rparr>, None), w2))
              else (Inr (\<lparr>RequeueAfter = 0\<rparr>, None), w1))
           else if \<not> ContainsFinalizer musicService musicServiceFinalizerName then
             (let musicService = AddFinalizer musicService musicServiceFinalizerName
              in (case Update_MusicService env musicService w1 of
                    (Some err, w2) \<Rightarrow> (Inr (\<lparr>RequeueAfter = 0\<rparr>, Some err), w2)
                  | (None, w2) \<Rightarrow> reconcileResources galera galeraServices env musicService w2))
           else reconcileResources galera galeraServices env musicService w1))"

section \<open>Example inputs\<close>

text \<open>A parser that knows three sizes, an environment without failures, and a small service.\<close>

definition example_parse :: "string \<Rightarrow> Quantity option" where
  "example_parse s =
     (if s = ''10Gi'' then Some 10 else if s = ''15Gi'' then Some 15
      else if s = ''20Gi'' then Some 20 else None)"

definition example_env :: Env where
  "example_env =
     \<lparr>ParseQuantity = example_parse, fault = (\<lambda>n. None), clock = 100,
      rand_fault = None, rand_bytes = (\<lambda>i. of_nat (17 * i + 3))\<rparr>"

definition example_status :: MusicServiceStatus where
  "example_status =
     \<lparr>ObservedGeneration = 0, DesiredReplicas = 0, ReadyReplicas = 0, Phase = [],
      LastReconcileTime = None, LastError = [], Conditions = [], Database = None\<rparr>"

definition example_ms :: MusicService where
  "example_ms =
     \<lparr>ms_Name = ''demo'', ms_Namespace = ''default'', ms_UID = ''uid-1'', ms_Generation = 1,
      ms_DeletionTimestamp = None, ms_Finalizers = [musicServiceFinalizerName],
      ms_Spec =
        \<lparr>spec_Replicas = 3, spec_Image = ''nginx:latest'', spec_Port = 8080,
         spec_Storage = \<lparr>Size = ''10Gi'', UpdatePolicy = []\<rparr>,
         spec_Streaming = \<lparr>Bitrate = ''128k'', MaxConnections = 100\<rparr>,
         spec_Resources = None, spec_Autoscaling = None, spec_Database = None\<rparr>,
      ms_Status = example_status\<rparr>"

definition example_world :: World where
  "example_world =
     \<lparr>musicservices = [(''default'', ''demo'') \<mapsto> example_ms],
      statefulsets = Map.empty, services = Map.empty, autoscalers = Map.empty,
      secrets = Map.empty, pvcs = [], trace = []\<rparr>"

text \<open>A live application StatefulSet with three declared and two ready replicas.\<close>

definition example_sts :: StatefulSet where
  "example_sts =
     \<lparr>sts_Name = ''demo'', sts_Namespace = ''default'', sts_Labels = [],
      sts_OwnerReferences = [],
      sts_Spec =
        \<lparr>sts_Replicas = Some 3, sts_ServiceName = ''demo'', sts_Selector = [],
         tmpl_Labels = [], tmpl_InitContainers = [], tmpl_Containers = [],
         tmpl_Volumes = [], sts_VolumeClaimTemplates = []\<rparr>,
      sts_ReadyReplicas = 2\<rparr>"

definition example_conditions :: "Condition list" where
  "example_conditions =
     [\<lparr>cond_Type = ''Available'', cond_Status = ConditionFalse, cond_ObservedGeneration = 1,
       cond_LastTransitionTime = Some 5, cond_Reason = ''PodsNotReady'',
       cond_Message = ''Waiting for pods to be ready''\<rparr>,
      \<lparr>cond_Type = ''Reconciled'', cond_Status = ConditionTrue, cond_ObservedGeneration = 1,
       cond_LastTransitionTime = Some 7, cond_Reason = ''ReconcileSuccess'',
       cond_Message = ''Successfully reconciled''\<rparr>]"

definition example_progressing :: Condition where
  "example_progressing =
     \<lparr>cond_Type = ''Available'', cond_Status = ConditionFalse, cond_ObservedGeneration = 1,
      cond_LastTransitionTime = None, cond_Reason = ''PodsProgressing'',
      cond_Message = ''Waiting for pods: 2/3 ready''\<rparr>"

text \<open>A service with a primary/replica database whose replica tier was seen before.\<close>

definition example_db :: DatabaseSpec where
  "example_db =
     \<lparr>db_Enabled = True, db_Replicas = 2, db_Image = ''mariadb:10.11'',
      db_Storage = Some \<lparr>Size = ''20Gi'', UpdatePolicy = []\<rparr>,
      db_RootPassword = ''secret'', db_Replication = None,
      db_HighAvailability = None, db_Autoscaling = None\<rparr>"

definition example_db_ms :: MusicService where
  "example_db_ms =
     example_ms
       \<lparr>ms_Spec := (ms_Spec example_ms)\<lparr>spec_Database := Some example_db\<rparr>,
        ms_Status := example_status
          \<lparr>Database := Some (emptyDatabaseStatus\<lparr>ReplicaEverCreated := True\<rparr>)\<rparr>\<rparr>"

text \<open>
  The same service with \<open>Replication.Enabled\<close> written out as true (the GTID flag as it
  was), and the test for a spec that leaves it out.
\<close>

definition withReplicationEnabled :: "MusicService \<Rightarrow> MusicService" where
  "withReplicationEnabled ms =
     (case spec_Database (ms_Spec ms) of
        None \<Rightarrow> ms
      | Some db \<Rightarrow>
          ms\<lparr>ms_Spec := (ms_Spec ms)\<lparr>spec_Database := Some (db\<lparr>db_Replication :=
                 Some \<lparr>repl_Enabled = Some True,
                       repl_GTID = (case db_Replication db of
                                      None \<Rightarrow> None
                                    | Some r \<Rightarrow> repl_GTID r)\<rparr>\<rparr>)\<rparr>\<rparr>)"

definition replicationUnset :: "MusicService \<Rightarrow> bool" where
  "replicationUnset ms =
     (case spec_Database (ms_Spec ms) of
        None \<Rightarrow> False
      | Some db \<Rightarrow>
          (case db_Replication db of None \<Rightarrow> True | Some r \<Rightarrow> repl_Enabled r = None))"

text \<open>A world whose replication secret is fully populated.\<close>

definition example_secret :: Secret where
  "example_secret =
     \<lparr>secret_Name = ''demo-db-replication'', secret_Namespace = ''default'',
      secret_OwnerReferences = [NewControllerRef example_db_ms], secret_Type = ''Opaque'',
      secret_Data = [''username'' \<mapsto> ''repl'', ''password'' \<mapsto> ''0123456789abcdef0123456789abcdef'']\<rparr>"

definition example_world_secret :: World where
  "example_world_secret =
     example_world\<lparr>secrets := [(''default'', ''demo-db-replication'') \<mapsto> example_secret]\<rparr>"

text \<open>An environment whose second client call fails.\<close>

definition example_env_fault :: Env where
  "example_env_fault = example_env\<lparr>fault := (\<lambda>n. if n = 1 then Some ''boom'' else None)\<rparr>"

text \<open>
  The quantity strings of a spec are well-formed: the storage size of the application,
  the default size of the database and the storage size of the database when it has one.
\<close>

definition quantitiesWellFormed :: "Env \<Rightarrow> MusicService \<Rightarrow> bool" where
  "quantitiesWellFormed env ms =
     (ParseQuantity env (Size (spec_Storage (ms_Spec ms))) \<noteq> None
      \<and> ParseQuantity env ''10Gi'' \<noteq> None
      \<and> (case spec_Database (ms_Spec ms) of
            None \<Rightarrow> True
          | Some db \<Rightarrow>
              (case db_Storage db of
                 None \<Rightarrow> True
               | Some st \<Rightarrow> ParseQuantity env (Size st) \<noteq> None)))"

text \<open>The example service with a storage size that is not a quantity.\<close>

definition example_ms_malformed :: MusicService where
  "example_ms_malformed =
     example_ms\<lparr>ms_Spec := (ms_Spec example_ms)
       \<lparr>spec_Storage := \<lparr>Size = ''ten'', UpdatePolicy = []\<rparr>\<rparr>\<rparr>"

text \<open>The database example with a storage size that is not a quantity.\<close>

definition example_db_ms_malformed :: MusicService where
  "example_db_ms_malformed =
     example_db_ms\<lparr>ms_Spec := (ms_Spec example_db_ms)\<lparr>spec_Database := Some (example_db
       \<lparr>db_Storage := Some \<lparr>Size = ''ten'', UpdatePolicy = []\<rparr>\<rparr>)\<rparr>\<rparr>"

text \<open>
  An autoscaled service: the autoscaler descriptor exists, and the live application
  StatefulSet is the desired one scaled from three to five replicas.
\<close>

definition example_autoscaling :: AutoscalingSpec where
  "example_autoscaling =
     \<lparr>MinReplicas = 2, MaxReplicas = 10, TargetCPUUtilizationPercentage = 80,
      TargetMemoryUtilizationPercentage = None\<rparr>"

definition example_hpa_ms :: MusicService where
  "example_hpa_ms =
     example_ms\<lparr>ms_Spec := (ms_Spec example_ms)\<lparr>spec_Autoscaling := Some example_autoscaling\<rparr>\<rparr>"

definition example_hpa :: HorizontalPodAutoscaler where
  "example_hpa =
     (case BuildAutoscaler example_hpa_ms of
        Inr hpa \<Rightarrow> hpa
      | Inl p \<Rightarrow>
          \<lparr>hpa_Name = [], hpa_Namespace = [], hpa_Labels = [], hpa_OwnerReferences = [],
           hpa_Spec = \<lparr>ScaleTargetRef = \<lparr>ref_APIVersion = [], ref_Kind = [], ref_Name = []\<rparr>,
                       hpa_MinReplicas = None, hpa_MaxReplicas = 0, Metrics = []\<rparr>\<rparr>)"

definition example_desired_sts :: StatefulSet where
  "example_desired_sts =
     (case BuildAppStatefulSet example_env example_hpa_ms of
        Inr sts \<Rightarrow> sts
      | Inl p \<Rightarrow> example_sts)"

definition example_scaled_sts :: StatefulSet where
  "example_scaled_sts =
     example_desired_sts
       \<lparr>sts_Spec := (sts_Spec example_desired_sts)\<lparr>sts_Replicas := Some 5\<rparr>,
        sts_ReadyReplicas := 5\<rparr>"

definition example_world_scaled :: World where
  "example_world_scaled =
     example_world
       \<lparr>musicservices := [(''default'', ''demo'') \<mapsto> example_hpa_ms],
        statefulsets := [(''default'', ''demo'') \<mapsto> example_scaled_sts],
        autoscalers := [(''default'', ''demo-autoscaler'') \<mapsto> example_hpa]\<rparr>"

text \<open>
  A service whose application claim was grown before: the live StatefulSet is the one
  created for a size of ten and still carries that template, and the claim of its first
  pod requests \<open>q\<close>. \<open>withStorageSize\<close> declares another size for the application.
\<close>

definition example_claim :: "Quantity \<Rightarrow> PersistentVolumeClaim" where
  "example_claim q =
     \<lparr>pvc_Name = ''music-data-demo-0'', pvc_Namespace = ''default'',
      pvc_AccessModes = [''ReadWriteOnce''], pvc_Requests = [ResourceStorage \<mapsto> q],
      pvc_Phase = ClaimBound\<rparr>"

definition withStorageSize :: "string \<Rightarrow> MusicService \<Rightarrow> MusicService" where
  "withStorageSize sz ms =
     ms\<lparr>ms_Spec := (ms_Spec ms)\<lparr>spec_Storage := (spec_Storage (ms_Spec ms))\<lparr>Size := sz\<rparr>\<rparr>\<rparr>"

definition example_created_sts :: StatefulSet where
  "example_created_sts =
     (case BuildAppStatefulSet example_env example_ms of
        Inr sts \<Rightarrow> sts\<lparr>sts_ReadyReplicas := 3\<rparr>
      | Inl p \<Rightarrow> example_sts)"

definition example_world_claim :: "string \<Rightarrow> Quantity \<Rightarrow> World" where
  "example_world_claim sz q =
     example_world
       \<lparr>musicservices := [(''default'', ''demo'') \<mapsto> withStorageSize sz example_ms],
        statefulsets := [(''default'', ''demo'') \<mapsto> example_created_sts],
        pvcs := [example_claim q]\<rparr>"

text \<open>
  A service with a high-availability database of two replicas and a database autoscaling
  spec; nothing of it exists yet.
\<close>

definition example_ha_ms :: MusicService where
  "example_ha_ms =
     example_ms\<lparr>ms_Spec := (ms_Spec example_ms)\<lparr>spec_Database := Some (example_db
       \<lparr>db_HighAvailability := Some \<lparr>ha_Enabled = True\<rparr>,
        db_Autoscaling := Some example_autoscaling\<rparr>)\<rparr>\<rparr>"

definition example_world_ha :: World where
  "example_world_ha =
     example_world\<lparr>musicservices := [(''default'', ''demo'') \<mapsto> example_ha_ms]\<rparr>"

definition example_replica_hpa :: HorizontalPodAutoscaler where
  "example_replica_hpa =
     (case BuildDatabaseReplicaAutoscaler example_ha_ms of
        Inr hpa \<Rightarrow> hpa
      | Inl p \<Rightarrow> example_hpa)"

text \<open>
  The scaled StatefulSet of the autoscaled service with one claim of ten, and the service
  declaring a size of twenty: under the policy Recreate, and under the unset policy.
\<close>

definition example_recreate_ms :: MusicService where
  "example_recreate_ms =
     example_hpa_ms\<lparr>ms_Spec := (ms_Spec example_hpa_ms)
       \<lparr>spec_Storage := \<lparr>Size = ''20Gi'', UpdatePolicy = StorageUpdatePolicyRecreate\<rparr>\<rparr>\<rparr>"

definition example_recreate_desired :: StatefulSet where
  "example_recreate_desired =
     (case BuildAppStatefulSet example_env example_recreate_ms of
        Inr sts \<Rightarrow> sts
      | Inl p \<Rightarrow> example_sts)"

definition example_world_recreate :: World where
  "example_world_recreate =
     example_world_scaled
       \<lparr>musicservices := [(''default'', ''demo'') \<mapsto> example_recreate_ms],
        pvcs := [example_claim 10]\<rparr>"

definition example_resize_ms :: MusicService where
  "example_resize_ms = withStorageSize ''20Gi'' example_hpa_ms"

definition example_resize_desired :: StatefulSet where
  "example_resize_desired =
     (case BuildAppStatefulSet example_env example_resize_ms of
        Inr sts \<Rightarrow> sts
      | Inl p \<Rightarrow> example_sts)"

definition example_world_resize :: World where
  "example_world_resize =
     example_world_scaled
       \<lparr>musicservices := [(''default'', ''demo'') \<mapsto> example_resize_ms],
        pvcs := [example_claim 10]\<rparr>"

section \<open>Properties of the condition set\<close>

lemma setCondition_range_types:
  "map cond_Type (setCondition_range now c cs) =
     (if cond_Type c \<in> set (map cond_Type cs) then map cond_Type cs
      else map cond_Type cs @ [cond_Type c])"
  by (induction cs) auto

lemma setCondition_types:
  "map cond_Type (setCondition t cs c) =
     (if cond_Type c \<in> set (map cond_Type cs) then map cond_Type cs
      else map cond_Type cs @ [cond_Type c])"
  by (simp add: setCondition_def Let_def setCondition_range_types)

lemma setCondition_distinct:
  "distinct (map cond_Type cs) \<Longrightarrow> distinct (map cond_Type (setCondition t cs c))"
  by (simp add: setCondition_types)

lemma find_setCondition_range_same:
  "find (\<lambda>x. cond_Type x = cond_Type c) (setCondition_range now c cs) =
     Some (case find (\<lambda>x. cond_Type x = cond_Type c) cs of
             None \<Rightarrow> c
           | Some old \<Rightarrow> c\<lparr>cond_LastTransitionTime :=
                 (if cond_Status old \<noteq> cond_Status c then now else cond_LastTransitionTime old)\<rparr>)"
  by (induction cs) auto

lemma find_setCondition_range_other:
  "ty \<noteq> cond_Type c \<Longrightarrow>
   find (\<lambda>x. cond_Type x = ty) (setCondition_range now c cs) = find (\<lambda>x. cond_Type x = ty) cs"
  by (induction cs) auto

lemma findCondition_setCondition_other:
  "ty \<noteq> cond_Type c \<Longrightarrow> findCondition (setCondition t cs c) ty = findCondition cs ty"
  by (simp add: findCondition_def setCondition_def Let_def find_setCondition_range_other)

lemma findCondition_setCondition_same:
  "findCondition (setCondition t cs c) (cond_Type c) =
     Some (case findCondition cs (cond_Type c) of
             None \<Rightarrow> (if IsZero (cond_LastTransitionTime c)
                       then c\<lparr>cond_LastTransitionTime := Some t\<rparr> else c)
           | Some old \<Rightarrow> c\<lparr>cond_LastTransitionTime :=
                 (if cond_Status old \<noteq> cond_Status c then Some t
                  else cond_LastTransitionTime old)\<rparr>)"
  using find_setCondition_range_same
    [of "if IsZero (cond_LastTransitionTime c) then c\<lparr>cond_LastTransitionTime := Some t\<rparr> else c"
        "Some t" cs]
  by (auto simp: findCondition_def setCondition_def Let_def split: option.splits)


section \<open>Helper lemmas\<close>

lemma setCondition_absent:
  "cond_Type c \<notin> set (map cond_Type cs) \<Longrightarrow>
   setCondition t cs c = cs @ [if IsZero (cond_LastTransitionTime c) then c\<lparr>cond_LastTransitionTime := Some t\<rparr> else c]"
  unfolding setCondition_def Let_def
  by (induction cs) auto

lemma setCondition_range_length:
  "cond_Type c \<in> set (map cond_Type cs) \<Longrightarrow> length (setCondition_range now c cs) = length cs"
  by (induction cs) auto

lemma setCondition_range_nth_other:
  "i < length cs \<Longrightarrow> cond_Type (cs ! i) \<noteq> cond_Type c \<Longrightarrow> setCondition_range now c cs ! i = cs ! i"
  by (induction cs arbitrary: i) (auto simp: nth_Cons split: nat.splits)

lemma showInt_2: "showInt 2 = ''2''"
  by (simp add: showInt_def showNat.simps digit_def)

lemma showInt_3: "showInt 3 = ''3''"
  by (simp add: showInt_def showNat.simps digit_def)

lemma findCondition_set_fields:
  "\<exists>c'. findCondition (setCondition t cs c) (cond_Type c) = Some c'
        \<and> cond_Type c' = cond_Type c \<and> cond_Status c' = cond_Status c
        \<and> cond_Reason c' = cond_Reason c \<and> cond_Message c' = cond_Message c
        \<and> cond_ObservedGeneration c' = cond_ObservedGeneration c"
  by (simp add: findCondition_setCondition_same split: option.splits)

lemma updateStorageWarnings_shape:
  "\<exists>c w'. updateStorageWarnings env ms sts cn an ds ct w = (setStatusCondition env ms c, w')
         \<and> cond_Type c = ct"
  unfolding updateStorageWarnings_def
  by (auto simp: newCondition_def split: option.splits prod.splits sum.splits)

lemma Status_Update_trace:
  "trace (snd (Status_Update env ms w)) = trace w @ [CStatusUpdate ms]"
  by (simp add: Status_Update_def api_call_def split: option.splits prod.splits)

section \<open>C5: the condition set\<close>

text \<open>
  C5. For every condition list and every condition written through \<open>setCondition\<close>:
  distinct condition types stay distinct; a condition of a new type is appended at the end
  (with the current time when it carries none); a condition of a stored type replaces the
  stored one in place, the order of the types and every condition of another type stay as
  they are; and the new \<open>lastTransitionTime\<close> of a stored type is the stored one when the
  status is the same (whatever the reason and message are) and the current time when the
  status differs.
\<close>

theorem setCondition_unique_ordered_stable:
  "(distinct (map cond_Type cs) \<longrightarrow> distinct (map cond_Type (setCondition t cs c)))
   \<and> (cond_Type c \<notin> set (map cond_Type cs) \<longrightarrow>
        setCondition t cs c =
          cs @ [if IsZero (cond_LastTransitionTime c)
                then c\<lparr>cond_LastTransitionTime := Some t\<rparr> else c])
   \<and> (cond_Type c \<in> set (map cond_Type cs) \<longrightarrow>
        map cond_Type (setCondition t cs c) = map cond_Type cs
        \<and> (\<forall>i < length cs. cond_Type (cs ! i) \<noteq> cond_Type c \<longrightarrow>
               setCondition t cs c ! i = cs ! i))
   \<and> (\<forall>old. findCondition cs (cond_Type c) = Some old \<longrightarrow>
        findCondition (setCondition t cs c) (cond_Type c) =
          Some (c\<lparr>cond_LastTransitionTime :=
                  (if cond_Status old = cond_Status c then cond_LastTransitionTime old
                   else Some t)\<rparr>))"
proof (intro conjI impI allI)
  assume "distinct (map cond_Type cs)"
  then show "distinct (map cond_Type (setCondition t cs c))"
    by (rule setCondition_distinct)
next
  assume "cond_Type c \<notin> set (map cond_Type cs)"
  then show "setCondition t cs c =
          cs @ [if IsZero (cond_LastTransitionTime c)
                then c\<lparr>cond_LastTransitionTime := Some t\<rparr> else c]"
    by (rule setCondition_absent)
next
  assume "cond_Type c \<in> set (map cond_Type cs)"
  then show "map cond_Type (setCondition t cs c) = map cond_Type cs"
    by (simp add: setCondition_types)
next
  fix i
  assume "cond_Type c \<in> set (map cond_Type cs)" "i < length cs"
     "cond_Type (cs ! i) \<noteq> cond_Type c"
  then show "setCondition t cs c ! i = cs ! i"
    by (simp add: setCondition_def Let_def setCondition_range_nth_other)
next
  fix old
  assume "findCondition cs (cond_Type c) = Some old"
  then show "findCondition (setCondition t cs c) (cond_Type c) =
          Some (c\<lparr>cond_LastTransitionTime :=
                  (if cond_Status old = cond_Status c then cond_LastTransitionTime old
                   else Some t)\<rparr>)"
    by (simp add: findCondition_setCondition_same)
qed

theorem setCondition_unique_ordered_stable_witness:
  "distinct (map cond_Type example_conditions)
   \<and> cond_Type example_progressing \<in> set (map cond_Type example_conditions)
   \<and> findCondition example_conditions ''Available'' = Some (example_conditions ! 0)
   \<and> distinct (map cond_Type (setCondition 9 example_conditions example_progressing))
   \<and> map cond_Type (setCondition 9 example_conditions example_progressing) = [''Available'', ''Reconciled'']
   \<and> setCondition 9 example_conditions example_progressing ! 1 = example_conditions ! 1
   \<and> findCondition (setCondition 9 example_conditions example_progressing) ''Available''
        = Some (example_progressing\<lparr>cond_LastTransitionTime := Some 5\<rparr>)
   \<and> findCondition
        (setCondition 9 example_conditions (example_progressing\<lparr>cond_Status := ConditionTrue\<rparr>))
        ''Available''
        = Some (example_progressing\<lparr>cond_Status := ConditionTrue, cond_LastTransitionTime := Some 9\<rparr>)"
proof -
  have d: "distinct (map cond_Type example_conditions)"
    by (simp add: example_conditions_def)
  have m: "cond_Type example_progressing \<in> set (map cond_Type example_conditions)"
    by (simp add: example_conditions_def example_progressing_def)
  have f: "findCondition example_conditions (cond_Type example_progressing) = Some (example_conditions ! 0)"
    by (simp add: example_conditions_def example_progressing_def findCondition_def)
  have f': "findCondition example_conditions (cond_Type (example_progressing\<lparr>cond_Status := ConditionTrue\<rparr>))
      = Some (example_conditions ! 0)"
    by (simp add: example_conditions_def example_progressing_def findCondition_def)
  show ?thesis
    using d m f f'
      setCondition_unique_ordered_stable [of example_conditions 9 example_progressing]
      setCondition_unique_ordered_stable
        [of example_conditions 9 "example_progressing\<lparr>cond_Status := ConditionTrue\<rparr>"]
    by (simp add: example_conditions_def example_progressing_def)
qed

section \<open>C4: phases from the application StatefulSet\<close>

text \<open>
  C4. For every MusicService and every application StatefulSet with three declared
  replicas, \<open>UpdateFromAppStatefulSet\<close> returns (it does not panic), ends with the status
  write of the object it returns, and: zero ready replicas give phase Pending and the
  Available condition False with reason PodsNotReady; two ready replicas give phase
  Progressing and Available False with the message "Waiting for pods: 2/3 ready"; three
  ready replicas give phase Available and Available True with reason PodsReady.
\<close>

theorem UpdateFromAppStatefulSet_phases:
  assumes "sts_Replicas (sts_Spec sts) = Some 3"
  shows "\<exists>err ms' w'.
     UpdateFromAppStatefulSet env ms sts w = (Inr (err, ms'), w')
     \<and> last (trace w') = CStatusUpdate ms'
     \<and> DesiredReplicas (ms_Status ms') = 3
     \<and> ReadyReplicas (ms_Status ms') = sts_ReadyReplicas sts
     \<and> (sts_ReadyReplicas sts = 0 \<longrightarrow>
          Phase (ms_Status ms') = ''Pending''
          \<and> (\<exists>c. findCondition (Conditions (ms_Status ms')) ''Available'' = Some c
                 \<and> cond_Status c = ConditionFalse \<and> cond_Reason c = ''PodsNotReady''))
     \<and> (sts_ReadyReplicas sts = 2 \<longrightarrow>
          Phase (ms_Status ms') = ''Progressing''
          \<and> (\<exists>c. findCondition (Conditions (ms_Status ms')) ''Available'' = Some c
                 \<and> cond_Status c = ConditionFalse
                 \<and> cond_Message c = ''Waiting for pods: '' @ ''2/3 ready''))
     \<and> (sts_ReadyReplicas sts = 3 \<longrightarrow>
          Phase (ms_Status ms') = ''Available''
          \<and> (\<exists>c. findCondition (Conditions (ms_Status ms')) ''Available'' = Some c
                 \<and> cond_Status c = ConditionTrue \<and> cond_Reason c = ''PodsReady''))"
proof -
  define ms0 where "ms0 = ms\<lparr>ms_Status := (ms_Status ms)
     \<lparr>ReadyReplicas := sts_ReadyReplicas sts, DesiredReplicas := 3,
      ObservedGeneration := ms_Generation ms\<rparr>\<rparr>"
  define ms1 where "ms1 = availability env ms0 (sts_ReadyReplicas sts) 3"
  obtain c2 w1 where usw: "updateStorageWarnings env ms1 sts ''music-data'' (ms_Name ms1)
        (Size (spec_Storage (ms_Spec ms1))) ''StorageWarningApp'' w
      = (setStatusCondition env ms1 c2, w1)" and c2: "cond_Type c2 = ''StorageWarningApp''"
    using updateStorageWarnings_shape by blast
  define ms2 where "ms2 = setStatusCondition env ms1 c2"
  have run: "UpdateFromAppStatefulSet env ms sts w
      = (Inr (fst (Status_Update env ms2 w1), ms2), snd (Status_Update env ms2 w1))"
    using usw
    by (simp add: UpdateFromAppStatefulSet_def assms ms2_def ms1_def ms0_def Let_def split: prod.splits)
  have other: "findCondition (Conditions (ms_Status ms2)) ''Available''
      = findCondition (Conditions (ms_Status ms1)) ''Available''"
    using c2 by (simp add: ms2_def setStatusCondition_def findCondition_setCondition_other)
  have rest: "Phase (ms_Status ms2) = Phase (ms_Status ms1)"
      "DesiredReplicas (ms_Status ms2) = DesiredReplicas (ms_Status ms1)"
      "ReadyReplicas (ms_Status ms2) = ReadyReplicas (ms_Status ms1)"
    by (simp_all add: ms2_def setStatusCondition_def)
  have counts: "DesiredReplicas (ms_Status ms1) = 3"
      "ReadyReplicas (ms_Status ms1) = sts_ReadyReplicas sts"
    by (simp_all add: ms1_def ms0_def availability_def setStatusCondition_def)
  have tr: "last (trace (snd (Status_Update env ms2 w1))) = CStatusUpdate ms2"
    by (simp add: Status_Update_trace)
  have p0: "sts_ReadyReplicas sts = 0 \<longrightarrow>
          Phase (ms_Status ms1) = ''Pending''
          \<and> (\<exists>c. findCondition (Conditions (ms_Status ms1)) ''Available'' = Some c
                 \<and> cond_Status c = ConditionFalse \<and> cond_Reason c = ''PodsNotReady'')"
    using findCondition_set_fields [of "clock env" "Conditions (ms_Status ms)"
        "newCondition ms ''Available'' ConditionFalse ''PodsNotReady'' ''Waiting for pods to be ready''"]
    by (auto simp: ms1_def ms0_def availability_def setStatusCondition_def newCondition_def)
  have p2: "sts_ReadyReplicas sts = 2 \<longrightarrow>
          Phase (ms_Status ms1) = ''Progressing''
          \<and> (\<exists>c. findCondition (Conditions (ms_Status ms1)) ''Available'' = Some c
                 \<and> cond_Status c = ConditionFalse
                 \<and> cond_Message c = ''Waiting for pods: '' @ ''2/3 ready'')"
    using findCondition_set_fields [of "clock env" "Conditions (ms_Status ms)"
        "newCondition ms ''Available'' ConditionFalse ''PodsProgressing''
           (''Waiting for pods: '' @ showInt 2 @ ''/'' @ showInt 3 @ '' ready'')"]
    by (auto simp: ms1_def ms0_def availability_def setStatusCondition_def newCondition_def
        showInt_2 showInt_3)
  have p3: "sts_ReadyReplicas sts = 3 \<longrightarrow>
          Phase (ms_Status ms1) = ''Available''
          \<and> (\<exists>c. findCondition (Conditions (ms_Status ms1)) ''Available'' = Some c
                 \<and> cond_Status c = ConditionTrue \<and> cond_Reason c = ''PodsReady'')"
    using findCondition_set_fields [of "clock env" "Conditions (ms_Status ms)"
        "newCondition ms ''Available'' ConditionTrue ''PodsReady'' ''All replicas are ready''"]
    by (auto simp: ms1_def ms0_def availability_def setStatusCondition_def newCondition_def)
  show ?thesis
    apply (rule exI [of _ "fst (Status_Update env ms2 w1)"])
    apply (rule exI [of _ ms2])
    apply (rule exI [of _ "snd (Status_Update env ms2 w1)"])
    using run tr p0 p2 p3 counts by (simp add: other rest)
qed

theorem UpdateFromAppStatefulSet_phases_witness:
  "sts_Replicas (sts_Spec example_sts) = Some 3
   \<and> sts_ReadyReplicas example_sts = 2
   \<and> (\<exists>err ms' w'.
         UpdateFromAppStatefulSet example_env example_ms example_sts example_world
           = (Inr (err, ms'), w')
         \<and> Phase (ms_Status ms') = ''Progressing''
         \<and> (\<exists>c. findCondition (Conditions (ms_Status ms')) ''Available'' = Some c
                \<and> cond_Status c = ConditionFalse
                \<and> cond_Message c = ''Waiting for pods: 2/3 ready''))"
proof -
  have h: "sts_Replicas (sts_Spec example_sts) = Some 3"
    by (simp add: example_sts_def)
  have r: "sts_ReadyReplicas example_sts = 2"
    by (simp add: example_sts_def)
  show ?thesis
    using h r UpdateFromAppStatefulSet_phases [OF h, of example_env example_ms example_world]
    by auto
qed

lemma api_call_trace: "trace (snd (api_call env c w)) = trace w @ [c]"
  by (simp add: api_call_def)

lemma api_call_fst: "fst (api_call env c w) = fault env (length (trace w))"
  by (simp add: api_call_def)

lemma Get_StatefulSet_tables:
  "statefulsets (snd (Get_StatefulSet env ns n w)) = statefulsets w"
  by (simp add: Get_StatefulSet_def client_Get_def api_call_def split: option.splits)

lemma Get_StatefulSet_trace:
  "trace (snd (Get_StatefulSet env ns n w)) = trace w @ [CGet KStatefulSet ns n]"
  by (simp add: Get_StatefulSet_def client_Get_def api_call_def split: option.splits)

lemma Get_StatefulSet_Inr:
  "fst (Get_StatefulSet env ns n w) = Inr s \<Longrightarrow> statefulsets w (ns, n) = Some s"
  by (simp add: Get_StatefulSet_def client_Get_def api_call_def split: option.splits)

lemma Get_StatefulSet_absent:
  "statefulsets w (ns, n) = None \<Longrightarrow> \<exists>e. fst (Get_StatefulSet env ns n w) = Inl e"
  by (simp add: Get_StatefulSet_def client_Get_def api_call_def split: option.splits)

lemma Get_StatefulSet_nofault:
  "fault env (length (trace w)) = None \<Longrightarrow>
   fst (Get_StatefulSet env ns n w) =
     (case statefulsets w (ns, n) of None \<Rightarrow> Inl (NotFound n) | Some s \<Rightarrow> Inr s)"
  by (simp add: Get_StatefulSet_def client_Get_def api_call_def split: option.splits)

lemma updateStorageWarnings_tables:
  "statefulsets (snd (updateStorageWarnings env ms sts cn an ds ct w)) = statefulsets w"
  by (simp add: updateStorageWarnings_def status_listPVCsByPrefix_def
      List_PersistentVolumeClaim_def api_call_def Let_def split: option.splits)

lemma databaseStatus_setStatusCondition [simp]:
  "databaseStatus (setStatusCondition env ms c) = databaseStatus ms"
  by (simp add: databaseStatus_def setStatusCondition_def)

lemma databaseStatus_setDatabaseStatus [simp]:
  "databaseStatus (setDatabaseStatus ms d) = d"
  by (simp add: databaseStatus_def setDatabaseStatus_def)

lemma databaseStatus_init [simp]:
  "databaseStatus (initDatabaseStatus ms) = databaseStatus ms"
  by (simp add: databaseStatus_def initDatabaseStatus_def)

lemma setDatabaseStatus_fields [simp]:
  "ms_Name (setDatabaseStatus ms d) = ms_Name ms"
  "ms_Namespace (setDatabaseStatus ms d) = ms_Namespace ms"
  "ms_Spec (setDatabaseStatus ms d) = ms_Spec ms"
  "ms_Generation (setDatabaseStatus ms d) = ms_Generation ms"
  "Conditions (ms_Status (setDatabaseStatus ms d)) = Conditions (ms_Status ms)"
  by (simp_all add: setDatabaseStatus_def)

lemma setStatusCondition_fields [simp]:
  "ms_Name (setStatusCondition env ms c) = ms_Name ms"
  "ms_Namespace (setStatusCondition env ms c) = ms_Namespace ms"
  "ms_Spec (setStatusCondition env ms c) = ms_Spec ms"
  "ms_Generation (setStatusCondition env ms c) = ms_Generation ms"
  "Phase (ms_Status (setStatusCondition env ms c)) = Phase (ms_Status ms)"
  "LastError (ms_Status (setStatusCondition env ms c)) = LastError (ms_Status ms)"
  "ReadyReplicas (ms_Status (setStatusCondition env ms c)) = ReadyReplicas (ms_Status ms)"
  "DesiredReplicas (ms_Status (setStatusCondition env ms c)) = DesiredReplicas (ms_Status ms)"
  "Conditions (ms_Status (setStatusCondition env ms c))
     = setCondition (clock env) (Conditions (ms_Status ms)) c"
  by (simp_all add: setStatusCondition_def)

lemma updateStorageWarnings_fields [simp]:
  "databaseStatus (fst (updateStorageWarnings env m sts cn an ds ct w)) = databaseStatus m"
  "ms_Name (fst (updateStorageWarnings env m sts cn an ds ct w)) = ms_Name m"
  "ms_Namespace (fst (updateStorageWarnings env m sts cn an ds ct w)) = ms_Namespace m"
  "ms_Spec (fst (updateStorageWarnings env m sts cn an ds ct w)) = ms_Spec m"
  "ms_Generation (fst (updateStorageWarnings env m sts cn an ds ct w)) = ms_Generation m"
  "Phase (ms_Status (fst (updateStorageWarnings env m sts cn an ds ct w))) = Phase (ms_Status m)"
  "LastError (ms_Status (fst (updateStorageWarnings env m sts cn an ds ct w)))
     = LastError (ms_Status m)"
  "ReadyReplicas (ms_Status (fst (updateStorageWarnings env m sts cn an ds ct w)))
     = ReadyReplicas (ms_Status m)"
  "DesiredReplicas (ms_Status (fst (updateStorageWarnings env m sts cn an ds ct w)))
     = DesiredReplicas (ms_Status m)"
  using updateStorageWarnings_shape [of env m sts cn an ds ct w] by auto

lemma updateStorageWarnings_other_condition:
  "ty \<noteq> ct \<Longrightarrow>
   findCondition (Conditions (ms_Status (fst (updateStorageWarnings env m sts cn an ds ct w)))) ty
     = findCondition (Conditions (ms_Status m)) ty"
  using updateStorageWarnings_shape [of env m sts cn an ds ct w]
  by (auto simp: findCondition_setCondition_other)

lemma masterObserved_flags:
  "ReplicaEverCreated (databaseStatus (fst (masterObserved env ms db s w)))
     = ReplicaEverCreated (databaseStatus ms)
   \<and> ReplicaDeletionDetected (databaseStatus (fst (masterObserved env ms db s w)))
     = ReplicaDeletionDetected (databaseStatus ms)
   \<and> statefulsets (snd (masterObserved env ms db s w)) = statefulsets w
   \<and> ms_Namespace (fst (masterObserved env ms db s w)) = ms_Namespace ms
   \<and> ms_Name (fst (masterObserved env ms db s w)) = ms_Name ms"
  by (cases "db_Storage db")
    (simp_all add: masterObserved_def Let_def updateStorageWarnings_tables)

section \<open>C7: the history of the replica tier\<close>

text \<open>
  C7. For every MusicService with a database spec and declared replicas > 0,
  \<open>UpdateDatabase\<close> returns and ends with the status write of the object it returns, and:
  \<open>replicaEverCreated\<close>, once true, is true afterwards (no pass clears it); while it is
  false and the replica StatefulSet is absent, it stays false and
  \<open>replicaDeletionDetected\<close> keeps its value; when the replica StatefulSet is fetched,
  \<open>replicaEverCreated\<close> is set and \<open>replicaDeletionDetected\<close> is false; when
  \<open>replicaEverCreated\<close> is true and the replica StatefulSet is not found,
  \<open>replicaDeletionDetected\<close> is set and the DatabaseReplicaHistory condition is False
  with reason ReplicaDeleted.
\<close>

theorem UpdateDatabase_replica_history:
  assumes db: "spec_Database (ms_Spec ms) = Some db" and reps: "db_Replicas db > 0"
  shows "\<exists>err ms' w'.
     UpdateDatabase env ms w = (Inr (err, ms'), w')
     \<and> last (trace w') = CStatusUpdate ms'
     \<and> (ReplicaEverCreated (databaseStatus ms) \<longrightarrow> ReplicaEverCreated (databaseStatus ms'))
     \<and> (statefulsets w (ms_Namespace ms, ms_Name ms @ ''-db-replica'') = None
          \<and> \<not> ReplicaEverCreated (databaseStatus ms) \<longrightarrow>
          \<not> ReplicaEverCreated (databaseStatus ms')
          \<and> ReplicaDeletionDetected (databaseStatus ms')
              = ReplicaDeletionDetected (databaseStatus ms))
     \<and> ((\<forall>n. fault env n = None)
          \<and> statefulsets w (ms_Namespace ms, ms_Name ms @ ''-db-replica'') \<noteq> None \<longrightarrow>
          ReplicaEverCreated (databaseStatus ms')
          \<and> \<not> ReplicaDeletionDetected (databaseStatus ms'))
     \<and> ((\<forall>n. fault env n = None)
          \<and> statefulsets w (ms_Namespace ms, ms_Name ms @ ''-db-replica'') = None
          \<and> ReplicaEverCreated (databaseStatus ms) \<longrightarrow>
          ReplicaDeletionDetected (databaseStatus ms')
          \<and> (\<exists>c. findCondition (Conditions (ms_Status ms')) ''DatabaseReplicaHistory'' = Some c
                 \<and> cond_Status c = ConditionFalse \<and> cond_Reason c = ''ReplicaDeleted''))"
proof -
  let ?ns = "ms_Namespace ms"
  let ?rn = "ms_Name ms @ ''-db-replica''"
  define ms0 where "ms0 = initDatabaseStatus ms"
  have names: "ms_Namespace ms0 = ?ns" "ms_Name ms0 = ms_Name ms" "ms_Spec ms0 = ms_Spec ms"
    by (simp_all add: ms0_def initDatabaseStatus_def)
  have ds0: "databaseStatus ms0 = databaseStatus ms"
    by (simp add: ms0_def)
  obtain r1 w1 where g1: "Get_StatefulSet env ?ns (ms_Name ms @ ''-db-master'') w = (r1, w1)"
    by fastforce
  have w1: "statefulsets w1 = statefulsets w"
    using Get_StatefulSet_tables [of env ?ns "ms_Name ms @ ''-db-master''" w] g1 by simp
  obtain ms2 w2 where mw2: "(case r1 of Inl err \<Rightarrow> (ms0, w1)
     | Inr masterSts \<Rightarrow> masterObserved env ms0 db masterSts w1) = (ms2, w2)"
    by fastforce
  have ms2: "ms_Namespace ms2 = ?ns \<and> ms_Name ms2 = ms_Name ms
      \<and> ReplicaEverCreated (databaseStatus ms2) = ReplicaEverCreated (databaseStatus ms)
      \<and> ReplicaDeletionDetected (databaseStatus ms2) = ReplicaDeletionDetected (databaseStatus ms)
      \<and> statefulsets w2 = statefulsets w"
  proof (cases r1)
    case (Inl e)
    then show ?thesis using mw2 w1 names ds0 by auto

  next
    case (Inr s)
    then have m: "masterObserved env ms0 db s w1 = (ms2, w2)"
      using mw2 by simp
    show ?thesis
      using masterObserved_flags [of env ms0 db s w1] m w1 names ds0 by simp

  qed
  obtain r3 w3 where g3: "Get_StatefulSet env ?ns ?rn w2 = (r3, w3)"
    by fastforce
  define ms4 where "ms4 =
    (case r3 of Inr replicaSts \<Rightarrow> replicaObserved env ms2 replicaSts
     | Inl err \<Rightarrow> if IsNotFound err then replicaNotFound env ms2 else ms2)"
  have blk: "(case r3 of
        Inl err \<Rightarrow> if IsNotFound err then (replicaNotFound env ms2, w3) else (ms2, w3)
      | Inr replicaSts \<Rightarrow> (replicaObserved env ms2 replicaSts, w3)) = (ms4, w3)"
    by (cases r3) (simp_all add: ms4_def)
  obtain e5 w5 where su: "Status_Update env ms4 w3 = (e5, w5)"
    by fastforce
  have run: "UpdateDatabase env ms w = (Inr (e5, ms4), w5)"
    using reps
    by (simp add: UpdateDatabase_def Let_def ms0_def [symmetric] names g1 db mw2 ms2 g3 blk su)
  have tr: "last (trace w5) = CStatusUpdate ms4"
    using Status_Update_trace [of env ms4 w3] su by simp
  have mono: "ReplicaEverCreated (databaseStatus ms) \<longrightarrow> ReplicaEverCreated (databaseStatus ms4)"
    using ms2
    by (cases r3) (auto simp: ms4_def replicaObserved_def replicaNotFound_def Let_def)
  have absent: "statefulsets w (?ns, ?rn) = None \<and> \<not> ReplicaEverCreated (databaseStatus ms) \<longrightarrow>
      \<not> ReplicaEverCreated (databaseStatus ms4)
      \<and> ReplicaDeletionDetected (databaseStatus ms4) = ReplicaDeletionDetected (databaseStatus ms)"
  proof (cases r3)
    case (Inl e)
    then show ?thesis using ms2 by (simp add: ms4_def replicaNotFound_def)
  next
    case (Inr s)
    then have "statefulsets w2 (?ns, ?rn) = Some s"
      using Get_StatefulSet_Inr [of env ?ns ?rn w2 s] g3 by simp
    then show ?thesis using ms2 by simp
  qed
  have present: "(\<forall>n. fault env n = None) \<and> statefulsets w (?ns, ?rn) \<noteq> None \<longrightarrow>
      ReplicaEverCreated (databaseStatus ms4) \<and> \<not> ReplicaDeletionDetected (databaseStatus ms4)"
  proof (intro impI, elim conjE)
    assume nf: "\<forall>n. fault env n = None" and ex: "statefulsets w (?ns, ?rn) \<noteq> None"
    then obtain s where "statefulsets w2 (?ns, ?rn) = Some s"
      using ms2 by auto
    then have "r3 = Inr s"
      using Get_StatefulSet_nofault [of env w2 ?ns ?rn] nf g3 by simp
    then show "ReplicaEverCreated (databaseStatus ms4) \<and> \<not> ReplicaDeletionDetected (databaseStatus ms4)"
      by (simp add: ms4_def replicaObserved_def Let_def)
  qed
  have deleted: "(\<forall>n. fault env n = None) \<and> statefulsets w (?ns, ?rn) = None
      \<and> ReplicaEverCreated (databaseStatus ms) \<longrightarrow>
      ReplicaDeletionDetected (databaseStatus ms4)
      \<and> (\<exists>c. findCondition (Conditions (ms_Status ms4)) ''DatabaseReplicaHistory'' = Some c
             \<and> cond_Status c = ConditionFalse \<and> cond_Reason c = ''ReplicaDeleted'')"
  proof (intro impI, elim conjE)
    assume nf: "\<forall>n. fault env n = None" and ab: "statefulsets w (?ns, ?rn) = None"
      and ever: "ReplicaEverCreated (databaseStatus ms)"
    have "r3 = Inl (NotFound ?rn)"
      using Get_StatefulSet_nofault [of env w2 ?ns ?rn] nf g3 ab ms2 by simp
    then have m4: "ms4 = replicaNotFound env ms2"
      by (simp add: ms4_def)
    let ?m = "setDatabaseStatus ms2 ((databaseStatus ms2)\<lparr>ReplicaDeletionDetected := True\<rparr>)"
    let ?c = "newCondition ?m ''DatabaseReplicaHistory'' ConditionFalse ''ReplicaDeleted''
        ''Replica StatefulSet was deleted after previously existing''"
    have m4': "ms4 = setStatusCondition env ?m ?c"
      using ever ms2 by (simp add: m4 replicaNotFound_def Let_def)
    have "\<exists>c. findCondition (Conditions (ms_Status ms4)) ''DatabaseReplicaHistory'' = Some c
             \<and> cond_Status c = ConditionFalse \<and> cond_Reason c = ''ReplicaDeleted''"
      using findCondition_set_fields [of "clock env" "Conditions (ms_Status ?m)" ?c]
      by (auto simp: m4' setStatusCondition_def newCondition_def)
    then show "ReplicaDeletionDetected (databaseStatus ms4)
      \<and> (\<exists>c. findCondition (Conditions (ms_Status ms4)) ''DatabaseReplicaHistory'' = Some c
             \<and> cond_Status c = ConditionFalse \<and> cond_Reason c = ''ReplicaDeleted'')"
      by (simp add: m4')
  qed
  show ?thesis
    apply (rule exI [of _ e5])
    apply (rule exI [of _ ms4])
    apply (rule exI [of _ w5])
    using run tr mono absent present deleted by simp
qed

theorem UpdateDatabase_replica_history_witness:
  "spec_Database (ms_Spec example_db_ms) = Some example_db
   \<and> db_Replicas example_db > 0
   \<and> ReplicaEverCreated (databaseStatus example_db_ms)
   \<and> statefulsets example_world (ms_Namespace example_db_ms, ms_Name example_db_ms @ ''-db-replica'')
        = None
   \<and> (\<exists>err ms' w'.
         UpdateDatabase example_env example_db_ms example_world = (Inr (err, ms'), w')
         \<and> ReplicaEverCreated (databaseStatus ms')
         \<and> ReplicaDeletionDetected (databaseStatus ms')
         \<and> (\<exists>c. findCondition (Conditions (ms_Status ms')) ''DatabaseReplicaHistory'' = Some c
                \<and> cond_Status c = ConditionFalse \<and> cond_Reason c = ''ReplicaDeleted''))"
proof -
  have db: "spec_Database (ms_Spec example_db_ms) = Some example_db"
    by (simp add: example_db_ms_def)
  have reps: "db_Replicas example_db > 0"
    by (simp add: example_db_def)
  have ever: "ReplicaEverCreated (databaseStatus example_db_ms)"
    by (simp add: example_db_ms_def databaseStatus_def example_status_def)
  have ab: "statefulsets example_world
      (ms_Namespace example_db_ms, ms_Name example_db_ms @ ''-db-replica'') = None"
    by (simp add: example_world_def)
  have nf: "\<forall>n. fault example_env n = None"
    by (simp add: example_env_def)
  show ?thesis
    using db reps ever ab nf
      UpdateDatabase_replica_history [OF db reps, of example_env example_world]
    by auto
qed

lemma length_EncodeToString: "length (EncodeToString buf) = 2 * length buf"
  by (induction buf) (simp_all add: EncodeToString_def)

lemma generatePassword_Inr:
  "rand_fault env = None \<Longrightarrow>
   generatePassword env n = Inr (EncodeToString (map (rand_bytes env) [0..<n]))"
  by (simp add: generatePassword_def rand_Read_def)

lemma generatePassword_length:
  "generatePassword env n = Inr pw \<Longrightarrow> length pw = 2 * n"
  by (auto simp: generatePassword_def rand_Read_def length_EncodeToString split: option.splits)

lemma Get_Secret_eq:
  "Get_Secret env ns n w =
     ((case fault env (length (trace w)) of
         Some m \<Rightarrow> Inl (OtherError m)
       | None \<Rightarrow> (case secrets w (ns, n) of None \<Rightarrow> Inl (NotFound n) | Some s \<Rightarrow> Inr s)),
      w\<lparr>trace := trace w @ [CGet KSecret ns n]\<rparr>)"
  by (simp add: Get_Secret_def client_Get_def api_call_def split: option.splits)

lemma Create_Secret_eq:
  "Create_Secret env s w =
     (case fault env (length (trace w)) of
        Some m \<Rightarrow> (Some (OtherError m), w\<lparr>trace := trace w @ [CCreate (OSecret s)]\<rparr>)
      | None \<Rightarrow>
          (if secrets w (secret_Namespace s, secret_Name s) \<noteq> None
           then (Some (AlreadyExists (secret_Name s)), w\<lparr>trace := trace w @ [CCreate (OSecret s)]\<rparr>)
           else (None, w\<lparr>trace := trace w @ [CCreate (OSecret s)],
                          secrets := (secrets w)((secret_Namespace s, secret_Name s) \<mapsto> s)\<rparr>)))"
  by (simp add: Create_Secret_def client_Create_def api_call_def split: option.splits)

lemma Update_Secret_eq:
  "Update_Secret env s w =
     (case fault env (length (trace w)) of
        Some m \<Rightarrow> (Some (OtherError m), w\<lparr>trace := trace w @ [CUpdate (OSecret s)]\<rparr>)
      | None \<Rightarrow>
          (if secrets w (secret_Namespace s, secret_Name s) = None
           then (Some (NotFound (secret_Name s)), w\<lparr>trace := trace w @ [CUpdate (OSecret s)]\<rparr>)
           else (None, w\<lparr>trace := trace w @ [CUpdate (OSecret s)],
                          secrets := (secrets w)((secret_Namespace s, secret_Name s) \<mapsto> s)\<rparr>)))"
  by (simp add: Update_Secret_def client_Update_def api_call_def split: option.splits)

text \<open>The secret of the first pass.\<close>

lemma ensureReplicationSecret_absent:
  assumes en: "replicationEnabled_ms ms" and db: "spec_Database (ms_Spec ms) = Some db"
    and reps: "db_Replicas db \<noteq> 0"
    and ab: "secrets w (ms_Namespace ms, ms_Name ms @ ''-db-replication'') = None"
    and g: "fault env (length (trace w)) = None" and r: "rand_fault env = None"
  shows "ensureReplicationSecret env ms w =
     (let secret = \<lparr>secret_Name = ms_Name ms @ ''-db-replication'',
                     secret_Namespace = ms_Namespace ms,
                     secret_OwnerReferences = [NewControllerRef ms],
                     secret_Type = ''Opaque'',
                     secret_Data = [''username'' \<mapsto> ''repl'',
                        ''password'' \<mapsto> EncodeToString (map (rand_bytes env) [0..<16])]\<rparr>;
          w1 = w\<lparr>trace := trace w @ [CGet KSecret (ms_Namespace ms) (ms_Name ms @ ''-db-replication''),
                                       CCreate (OSecret secret)]\<rparr>
      in (case fault env (Suc (length (trace w))) of
            Some m \<Rightarrow> (Inl (OtherError m), w1)
          | None \<Rightarrow> (Inr (Some secret),
               w1\<lparr>secrets := (secrets w)((ms_Namespace ms, ms_Name ms @ ''-db-replication'') \<mapsto> secret)\<rparr>)))"
  using assms
  by (simp add: ensureReplicationSecret_def Get_Secret_eq Create_Secret_eq generatePassword_Inr
      Let_def split: option.splits)


lemma backfillSecret_Inr:
  assumes "backfillSecret env s = Inr (s', u)"
  shows "secret_Data s \<subseteq>\<^sub>m secret_Data s'"
    and "dom (secret_Data s') \<subseteq> dom (secret_Data s) \<union> {''username'', ''password''}"
    and "secret_Namespace s' = secret_Namespace s" and "secret_Name s' = secret_Name s"
    and "secret_OwnerReferences s' = secret_OwnerReferences s"
    and "u \<longleftrightarrow> secret_Data s ''username'' = None \<or> secret_Data s ''password'' = None"
    and "\<not> u \<longrightarrow> s' = s"
    and "secret_Data s' ''username'' \<noteq> None" and "secret_Data s' ''password'' \<noteq> None"
  using assms
  by (auto simp: backfillSecret_def Let_def map_le_def split: if_splits sum.splits)

lemma ensureReplicationSecret_present:
  assumes en: "replicationEnabled_ms ms" and db: "spec_Database (ms_Spec ms) = Some db"
    and reps: "db_Replicas db \<noteq> 0"
    and pr: "secrets w (ms_Namespace ms, ms_Name ms @ ''-db-replication'') = Some s"
    and wf: "secret_Namespace s = ms_Namespace ms" "secret_Name s = ms_Name ms @ ''-db-replication''"
  shows "\<exists>s'. secrets (snd (ensureReplicationSecret env ms w))
                 (ms_Namespace ms, ms_Name ms @ ''-db-replication'') = Some s'
            \<and> secret_Data s \<subseteq>\<^sub>m secret_Data s'
            \<and> dom (secret_Data s') \<subseteq> dom (secret_Data s) \<union> {''username'', ''password''}"
    and "filter isWrite (trace (snd (ensureReplicationSecret env ms w))) = filter isWrite (trace w)
         \<or> (\<exists>s'. filter isWrite (trace (snd (ensureReplicationSecret env ms w)))
                     = filter isWrite (trace w) @ [CUpdate (OSecret s')]
                 \<and> secret_Data s \<subseteq>\<^sub>m secret_Data s'
                 \<and> dom (secret_Data s') \<subseteq> dom (secret_Data s) \<union> {''username'', ''password''})"
    and "secret_Data s ''username'' \<noteq> None \<and> secret_Data s ''password'' \<noteq> None \<longrightarrow>
         filter isWrite (trace (snd (ensureReplicationSecret env ms w))) = filter isWrite (trace w)
         \<and> secrets (snd (ensureReplicationSecret env ms w)) = secrets w"
proof -
  let ?R = "ensureReplicationSecret env ms w"
  let ?key = "(ms_Namespace ms, ms_Name ms @ ''-db-replication'')"
  let ?wG = "w\<lparr>trace := trace w @ [CGet KSecret (ms_Namespace ms) (ms_Name ms @ ''-db-replication'')]\<rparr>"
  have goal: "(\<exists>s'. secrets (snd ?R) ?key = Some s'
            \<and> secret_Data s \<subseteq>\<^sub>m secret_Data s'
            \<and> dom (secret_Data s') \<subseteq> dom (secret_Data s) \<union> {''username'', ''password''})
    \<and> (filter isWrite (trace (snd ?R)) = filter isWrite (trace w)
         \<or> (\<exists>s'. filter isWrite (trace (snd ?R)) = filter isWrite (trace w) @ [CUpdate (OSecret s')]
                 \<and> secret_Data s \<subseteq>\<^sub>m secret_Data s'
                 \<and> dom (secret_Data s') \<subseteq> dom (secret_Data s) \<union> {''username'', ''password''}))
    \<and> (secret_Data s ''username'' \<noteq> None \<and> secret_Data s ''password'' \<noteq> None \<longrightarrow>
         filter isWrite (trace (snd ?R)) = filter isWrite (trace w)
         \<and> secrets (snd ?R) = secrets w)"
  proof (cases "fault env (length (trace w))")
    case (Some m)
    then have "?R = (Inl (OtherError m), ?wG)"
      using en db reps by (simp add: ensureReplicationSecret_def Get_Secret_eq)
    then show ?thesis using pr by auto
  next
    case None
    show ?thesis
    proof (cases "backfillSecret env s")
      case (Inl err)
      then have "?R = (Inl err, ?wG)"
        using en db reps pr None by (simp add: ensureReplicationSecret_def Get_Secret_eq)
      moreover have "secret_Data s ''username'' = None \<or> secret_Data s ''password'' = None"
        using Inl by (auto simp: backfillSecret_def Let_def split: if_splits)
      ultimately show ?thesis using pr by auto
    next
      case (Inr p)
      obtain s' u where p: "p = (s', u)" by (cases p)
      note bf = backfillSecret_Inr [OF Inr [unfolded p]]
      show ?thesis
      proof (cases u)
        case False
        then have "?R = (Inr (Some s'), ?wG)"
          using en db reps pr None Inr p by (simp add: ensureReplicationSecret_def Get_Secret_eq)
        then show ?thesis using pr bf False by auto
      next
        case True
        have up: "Update_Secret env s' ?wG =
            (case fault env (Suc (length (trace w))) of
               Some m \<Rightarrow> (Some (OtherError m), ?wG\<lparr>trace := trace ?wG @ [CUpdate (OSecret s')]\<rparr>)
             | None \<Rightarrow> (None, ?wG\<lparr>trace := trace ?wG @ [CUpdate (OSecret s')],
                                 secrets := (secrets w)(?key \<mapsto> s')\<rparr>))"
          using pr bf wf by (simp add: Update_Secret_eq split: option.splits)
        have R: "?R = (case Update_Secret env s' ?wG of
                        (Some err, w'') \<Rightarrow> (Inl err, w'')
                      | (None, w'') \<Rightarrow> (Inr (Some s'), w''))"
          using en db reps pr None Inr p True
          by (simp add: ensureReplicationSecret_def Get_Secret_eq)
        show ?thesis
          unfolding R up using pr bf True
          by (cases "fault env (Suc (length (trace w)))") auto
      qed
    qed
  qed
  show "\<exists>s'. secrets (snd ?R) ?key = Some s'
            \<and> secret_Data s \<subseteq>\<^sub>m secret_Data s'
            \<and> dom (secret_Data s') \<subseteq> dom (secret_Data s) \<union> {''username'', ''password''}"
    using goal by blast
  show "filter isWrite (trace (snd ?R)) = filter isWrite (trace w)
         \<or> (\<exists>s'. filter isWrite (trace (snd ?R)) = filter isWrite (trace w) @ [CUpdate (OSecret s')]
                 \<and> secret_Data s \<subseteq>\<^sub>m secret_Data s'
                 \<and> dom (secret_Data s') \<subseteq> dom (secret_Data s) \<union> {''username'', ''password''})"
    using goal by blast
  show "secret_Data s ''username'' \<noteq> None \<and> secret_Data s ''password'' \<noteq> None \<longrightarrow>
         filter isWrite (trace (snd ?R)) = filter isWrite (trace w)
         \<and> secrets (snd ?R) = secrets w"
    using goal by blast
qed

lemma backfillSecret_values:
  assumes "backfillSecret env s = Inr (s', u)"
  shows "secret_Data s' =
     (\<lambda>k. if k = ''username'' \<and> secret_Data s ''username'' = None then Some ''repl''
          else if k = ''password'' \<and> secret_Data s ''password'' = None
            then Some (EncodeToString (map (rand_bytes env) [0..<16]))
          else secret_Data s k)"
  using assms
  by (auto simp: backfillSecret_def generatePassword_def rand_Read_def Let_def fun_eq_iff
      split: if_splits sum.splits option.splits)

lemma ensureReplicationSecret_backfilled:
  assumes en: "replicationEnabled_ms ms" and db: "spec_Database (ms_Spec ms) = Some db"
    and reps: "db_Replicas db \<noteq> 0"
    and pr: "secrets w (ms_Namespace ms, ms_Name ms @ ''-db-replication'') = Some s"
    and up: "filter isWrite (trace (snd (ensureReplicationSecret env ms w)))
               = filter isWrite (trace w) @ [CUpdate (OSecret s')]"
  shows "secret_Data s' =
     (\<lambda>k. if k = ''username'' \<and> secret_Data s ''username'' = None then Some ''repl''
          else if k = ''password'' \<and> secret_Data s ''password'' = None
            then Some (EncodeToString (map (rand_bytes env) [0..<16]))
          else secret_Data s k)"
proof -
  let ?R = "ensureReplicationSecret env ms w"
  let ?wG = "w\<lparr>trace := trace w @ [CGet KSecret (ms_Namespace ms) (ms_Name ms @ ''-db-replication'')]\<rparr>"
  show ?thesis
  proof (cases "fault env (length (trace w))")
    case (Some m)
    then have "?R = (Inl (OtherError m), ?wG)"
      using en db reps by (simp add: ensureReplicationSecret_def Get_Secret_eq)
    then show ?thesis using up by simp
  next
    case None
    show ?thesis
    proof (cases "backfillSecret env s")
      case (Inl err)
      then have "?R = (Inl err, ?wG)"
        using en db reps pr None by (simp add: ensureReplicationSecret_def Get_Secret_eq)
      then show ?thesis using up by simp
    next
      case (Inr p)
      obtain s2 u where p: "p = (s2, u)" by (cases p)
      note v = backfillSecret_values [OF Inr [unfolded p]]
      show ?thesis
      proof (cases u)
        case False
        then have "?R = (Inr (Some s2), ?wG)"
          using en db reps pr None Inr p by (simp add: ensureReplicationSecret_def Get_Secret_eq)
        then show ?thesis using up by simp
      next
        case True
        have R: "?R = (case Update_Secret env s2 ?wG of
                        (Some err, w'') \<Rightarrow> (Inl err, w'')
                      | (None, w'') \<Rightarrow> (Inr (Some s2), w''))"
          using en db reps pr None Inr p True
          by (simp add: ensureReplicationSecret_def Get_Secret_eq)
        have "trace (snd ?R) = trace ?wG @ [CUpdate (OSecret s2)]"
          unfolding R by (simp add: Update_Secret_eq split: option.splits)
        then have "s' = s2" using up by simp
        then show ?thesis using v by simp
      qed
    qed
  qed
qed

lemma example_password:
  "EncodeToString (map (rand_bytes example_env) [0..<16]) = ''031425364758697a8b9cadbecfe0f102''"
  by (simp add: EncodeToString_def hexdigit_def example_env_def upt_rec)

section \<open>C6: the replication secret is created once and only backfilled\<close>

text \<open>
  C6. For every MusicService with replication enabled and declared database replicas > 0:
  when the replication secret is absent (and the read and the random source do not fail),
  \<open>ensureReplicationSecret\<close> makes exactly one write, the creation of a secret named after
  the parent, owned by the parent, with the user name "repl" and the password that
  \<open>generatePassword\<close> returns, the hexadecimal text, 32 characters long, of the 16 bytes
  read from the random source; the secret is stored when the creation does not fail. When
  the secret exists, every key it holds keeps its value, only the keys "username" and
  "password" can be added, the pass makes no write or one update of that secret, an update
  writes the held values with "repl" for a missing user name and the text of 16 random
  bytes for a missing password, and a secret that holds both keys causes no write at all.
\<close>

theorem ensureReplicationSecret_create_once_backfill_only:
  assumes en: "replicationEnabled_ms ms" and db: "spec_Database (ms_Spec ms) = Some db"
    and reps: "db_Replicas db > 0"
  shows
   "(secrets w (ms_Namespace ms, ms_Name ms @ ''-db-replication'') = None
       \<and> fault env (length (trace w)) = None \<and> rand_fault env = None \<longrightarrow>
       generatePassword env 16 = Inr (EncodeToString (map (rand_bytes env) [0..<16]))
       \<and> length (EncodeToString (map (rand_bytes env) [0..<16])) = 32
       \<and> trace (snd (ensureReplicationSecret env ms w))
            = trace w @ [CGet KSecret (ms_Namespace ms) (ms_Name ms @ ''-db-replication''),
                         CCreate (OSecret
                           \<lparr>secret_Name = ms_Name ms @ ''-db-replication'',
                            secret_Namespace = ms_Namespace ms,
                            secret_OwnerReferences = [NewControllerRef ms],
                            secret_Type = ''Opaque'',
                            secret_Data = [''username'' \<mapsto> ''repl'',
                              ''password'' \<mapsto> EncodeToString (map (rand_bytes env) [0..<16])]\<rparr>)]
       \<and> (fault env (Suc (length (trace w))) = None \<longrightarrow>
             fst (ensureReplicationSecret env ms w)
               = Inr (Some \<lparr>secret_Name = ms_Name ms @ ''-db-replication'',
                            secret_Namespace = ms_Namespace ms,
                            secret_OwnerReferences = [NewControllerRef ms],
                            secret_Type = ''Opaque'',
                            secret_Data = [''username'' \<mapsto> ''repl'',
                              ''password'' \<mapsto> EncodeToString (map (rand_bytes env) [0..<16])]\<rparr>)
             \<and> secrets (snd (ensureReplicationSecret env ms w))
                 = (secrets w)((ms_Namespace ms, ms_Name ms @ ''-db-replication'') \<mapsto>
                      \<lparr>secret_Name = ms_Name ms @ ''-db-replication'',
                       secret_Namespace = ms_Namespace ms,
                       secret_OwnerReferences = [NewControllerRef ms],
                       secret_Type = ''Opaque'',
                       secret_Data = [''username'' \<mapsto> ''repl'',
                         ''password'' \<mapsto> EncodeToString (map (rand_bytes env) [0..<16])]\<rparr>)))
    \<and> (\<forall>s. secrets w (ms_Namespace ms, ms_Name ms @ ''-db-replication'') = Some s
            \<and> secret_Namespace s = ms_Namespace ms
            \<and> secret_Name s = ms_Name ms @ ''-db-replication'' \<longrightarrow>
         (\<exists>s'. secrets (snd (ensureReplicationSecret env ms w))
                  (ms_Namespace ms, ms_Name ms @ ''-db-replication'') = Some s'
              \<and> secret_Data s \<subseteq>\<^sub>m secret_Data s'
              \<and> dom (secret_Data s') \<subseteq> dom (secret_Data s) \<union> {''username'', ''password''})
         \<and> (filter isWrite (trace (snd (ensureReplicationSecret env ms w))) = filter isWrite (trace w)
             \<or> (\<exists>s'. filter isWrite (trace (snd (ensureReplicationSecret env ms w)))
                         = filter isWrite (trace w) @ [CUpdate (OSecret s')]
                     \<and> secret_Data s \<subseteq>\<^sub>m secret_Data s'
                     \<and> dom (secret_Data s') \<subseteq> dom (secret_Data s) \<union> {''username'', ''password''}))
         \<and> (\<forall>s'. filter isWrite (trace (snd (ensureReplicationSecret env ms w)))
                     = filter isWrite (trace w) @ [CUpdate (OSecret s')] \<longrightarrow>
                 secret_Data s' =
                   (\<lambda>k. if k = ''username'' \<and> secret_Data s ''username'' = None then Some ''repl''
                        else if k = ''password'' \<and> secret_Data s ''password'' = None
                          then Some (EncodeToString (map (rand_bytes env) [0..<16]))
                        else secret_Data s k))
         \<and> (secret_Data s ''username'' \<noteq> None \<and> secret_Data s ''password'' \<noteq> None \<longrightarrow>
               filter isWrite (trace (snd (ensureReplicationSecret env ms w)))
                 = filter isWrite (trace w)
               \<and> secrets (snd (ensureReplicationSecret env ms w)) = secrets w))"
proof (intro conjI impI allI)
  assume a: "secrets w (ms_Namespace ms, ms_Name ms @ ''-db-replication'') = None
       \<and> fault env (length (trace w)) = None \<and> rand_fault env = None"
  have r0: "db_Replicas db \<noteq> 0" using reps by simp
  note eq = ensureReplicationSecret_absent [OF en db r0, of w env]
  show "generatePassword env 16 = Inr (EncodeToString (map (rand_bytes env) [0..<16]))"
    using a by (simp add: generatePassword_Inr)
  show "length (EncodeToString (map (rand_bytes env) [0..<16])) = 32"
    by (simp add: length_EncodeToString)
  show "trace (snd (ensureReplicationSecret env ms w))
            = trace w @ [CGet KSecret (ms_Namespace ms) (ms_Name ms @ ''-db-replication''),
                         CCreate (OSecret
                           \<lparr>secret_Name = ms_Name ms @ ''-db-replication'',
                            secret_Namespace = ms_Namespace ms,
                            secret_OwnerReferences = [NewControllerRef ms],
                            secret_Type = ''Opaque'',
                            secret_Data = [''username'' \<mapsto> ''repl'',
                              ''password'' \<mapsto> EncodeToString (map (rand_bytes env) [0..<16])]\<rparr>)]"
    using a by (simp add: eq Let_def split: option.splits)
  assume f: "fault env (Suc (length (trace w))) = None"
  show "fst (ensureReplicationSecret env ms w)
               = Inr (Some \<lparr>secret_Name = ms_Name ms @ ''-db-replication'',
                            secret_Namespace = ms_Namespace ms,
                            secret_OwnerReferences = [NewControllerRef ms],
                            secret_Type = ''Opaque'',
                            secret_Data = [''username'' \<mapsto> ''repl'',
                              ''password'' \<mapsto> EncodeToString (map (rand_bytes env) [0..<16])]\<rparr>)"
    using a f by (simp add: eq Let_def)
  show "secrets (snd (ensureReplicationSecret env ms w))
                 = (secrets w)((ms_Namespace ms, ms_Name ms @ ''-db-replication'') \<mapsto>
                      \<lparr>secret_Name = ms_Name ms @ ''-db-replication'',
                       secret_Namespace = ms_Namespace ms,
                       secret_OwnerReferences = [NewControllerRef ms],
                       secret_Type = ''Opaque'',
                       secret_Data = [''username'' \<mapsto> ''repl'',
                         ''password'' \<mapsto> EncodeToString (map (rand_bytes env) [0..<16])]\<rparr>)"
    using a f by (simp add: eq Let_def)
next
  fix s
  assume a: "secrets w (ms_Namespace ms, ms_Name ms @ ''-db-replication'') = Some s
            \<and> secret_Namespace s = ms_Namespace ms
            \<and> secret_Name s = ms_Name ms @ ''-db-replication''"
  have r0: "db_Replicas db \<noteq> 0" using reps by simp
  note p = ensureReplicationSecret_present [OF en db r0, of w s env]
  show "\<exists>s'. secrets (snd (ensureReplicationSecret env ms w))
                  (ms_Namespace ms, ms_Name ms @ ''-db-replication'') = Some s'
              \<and> secret_Data s \<subseteq>\<^sub>m secret_Data s'
              \<and> dom (secret_Data s') \<subseteq> dom (secret_Data s) \<union> {''username'', ''password''}"
    using p(1) a by blast
  show "filter isWrite (trace (snd (ensureReplicationSecret env ms w))) = filter isWrite (trace w)
             \<or> (\<exists>s'. filter isWrite (trace (snd (ensureReplicationSecret env ms w)))
                         = filter isWrite (trace w) @ [CUpdate (OSecret s')]
                     \<and> secret_Data s \<subseteq>\<^sub>m secret_Data s'
                     \<and> dom (secret_Data s') \<subseteq> dom (secret_Data s) \<union> {''username'', ''password''})"
    using p(2) a by blast
  {
    assume "secret_Data s ''username'' \<noteq> None \<and> secret_Data s ''password'' \<noteq> None"
    then show "filter isWrite (trace (snd (ensureReplicationSecret env ms w)))
                   = filter isWrite (trace w)"
        "secrets (snd (ensureReplicationSecret env ms w)) = secrets w"
      using p(3) a by blast+
  }
  fix s'
  assume "filter isWrite (trace (snd (ensureReplicationSecret env ms w)))
                     = filter isWrite (trace w) @ [CUpdate (OSecret s')]"
  then show "secret_Data s' =
                   (\<lambda>k. if k = ''username'' \<and> secret_Data s ''username'' = None then Some ''repl''
                        else if k = ''password'' \<and> secret_Data s ''password'' = None
                          then Some (EncodeToString (map (rand_bytes env) [0..<16]))
                        else secret_Data s k)"
    using ensureReplicationSecret_backfilled [OF en db r0] a by blast
qed

theorem ensureReplicationSecret_create_once_backfill_only_witness:
  "replicationEnabled_ms example_db_ms
   \<and> spec_Database (ms_Spec example_db_ms) = Some example_db
   \<and> db_Replicas example_db > 0
   \<and> secrets example_world (''default'', ''demo-db-replication'') = None
   \<and> generatePassword example_env 16 = Inr ''031425364758697a8b9cadbecfe0f102''
   \<and> trace (snd (ensureReplicationSecret example_env example_db_ms example_world))
        = [CGet KSecret ''default'' ''demo-db-replication'',
           CCreate (OSecret
             \<lparr>secret_Name = ''demo-db-replication'', secret_Namespace = ''default'',
              secret_OwnerReferences = [NewControllerRef example_db_ms],
              secret_Type = ''Opaque'',
              secret_Data = [''username'' \<mapsto> ''repl'',
                             ''password'' \<mapsto> ''031425364758697a8b9cadbecfe0f102'']\<rparr>)]
   \<and> secrets (snd (ensureReplicationSecret example_env example_db_ms example_world))
        (''default'', ''demo-db-replication'')
        = Some \<lparr>secret_Name = ''demo-db-replication'', secret_Namespace = ''default'',
                secret_OwnerReferences = [NewControllerRef example_db_ms],
                secret_Type = ''Opaque'',
                secret_Data = [''username'' \<mapsto> ''repl'',
                               ''password'' \<mapsto> ''031425364758697a8b9cadbecfe0f102'']\<rparr>
   \<and> secrets example_world_secret (''default'', ''demo-db-replication'') = Some example_secret
   \<and> filter isWrite (trace (snd (ensureReplicationSecret example_env example_db_ms example_world_secret)))
        = []
   \<and> secrets (snd (ensureReplicationSecret example_env example_db_ms example_world_secret))
        = secrets example_world_secret"
proof -
  have en: "replicationEnabled_ms example_db_ms"
    by (simp add: replicationEnabled_ms_def example_db_ms_def example_db_def)
  have db: "spec_Database (ms_Spec example_db_ms) = Some example_db"
    by (simp add: example_db_ms_def)
  have reps: "db_Replicas example_db > 0"
    by (simp add: example_db_def)
  have nm: "ms_Namespace example_db_ms = ''default''" "ms_Name example_db_ms = ''demo''"
    by (simp_all add: example_db_ms_def example_ms_def)
  have ab: "secrets example_world (''default'', ''demo-db-replication'') = None"
    by (simp add: example_world_def)
  have pr: "secrets example_world_secret (''default'', ''demo-db-replication'') = Some example_secret"
    by (simp add: example_world_secret_def)
  have full: "secret_Data example_secret ''username'' \<noteq> None"
      "secret_Data example_secret ''password'' \<noteq> None"
      "secret_Namespace example_secret = ''default''"
      "secret_Name example_secret = ''demo-db-replication''"
    by (simp_all add: example_secret_def)
  have e: "fault example_env 0 = None" "fault example_env (Suc 0) = None"
      "rand_fault example_env = None"
    by (simp_all add: example_env_def)
  have t: "trace example_world = []" "trace example_world_secret = []"
    by (simp_all add: example_world_def example_world_secret_def)
  note T1 = ensureReplicationSecret_create_once_backfill_only [OF en db reps, of example_world example_env, THEN conjunct1, rule_format]
  note T2 = ensureReplicationSecret_create_once_backfill_only [OF en db reps, of example_world_secret example_env, THEN conjunct2,
      rule_format, of example_secret]
  have c: "generatePassword example_env 16 = Inr ''031425364758697a8b9cadbecfe0f102''"
      "trace (snd (ensureReplicationSecret example_env example_db_ms example_world))
        = [CGet KSecret ''default'' ''demo-db-replication'',
           CCreate (OSecret
             \<lparr>secret_Name = ''demo-db-replication'', secret_Namespace = ''default'',
              secret_OwnerReferences = [NewControllerRef example_db_ms],
              secret_Type = ''Opaque'',
              secret_Data = [''username'' \<mapsto> ''repl'',
                             ''password'' \<mapsto> ''031425364758697a8b9cadbecfe0f102'']\<rparr>)]"
      "secrets (snd (ensureReplicationSecret example_env example_db_ms example_world))
        (''default'', ''demo-db-replication'')
        = Some \<lparr>secret_Name = ''demo-db-replication'', secret_Namespace = ''default'',
                secret_OwnerReferences = [NewControllerRef example_db_ms],
                secret_Type = ''Opaque'',
                secret_Data = [''username'' \<mapsto> ''repl'',
                               ''password'' \<mapsto> ''031425364758697a8b9cadbecfe0f102'']\<rparr>"
    using T1 ab e t nm by (simp_all add: example_password)
  from T2 pr full nm t have
    z: "filter isWrite (trace (snd (ensureReplicationSecret example_env example_db_ms
          example_world_secret))) = []"
      "secrets (snd (ensureReplicationSecret example_env example_db_ms example_world_secret))
        = secrets example_world_secret"
    by auto
  show ?thesis
    using en db reps ab pr z c by blast
qed

lemma withReplicationEnabled_fields:
  "ms_Name (withReplicationEnabled ms) = ms_Name ms"
  "ms_Namespace (withReplicationEnabled ms) = ms_Namespace ms"
  "ms_UID (withReplicationEnabled ms) = ms_UID ms"
  "NewControllerRef (withReplicationEnabled ms) = NewControllerRef ms"
  "getLabels (withReplicationEnabled ms) c = getLabels ms c"
  "replicationSecretName (withReplicationEnabled ms) = replicationSecretName ms"
  "databaseStorageSpec (withReplicationEnabled ms) = databaseStorageSpec ms"
  by (simp_all add: withReplicationEnabled_def NewControllerRef_def getLabels_def
      replicationSecretName_def databaseStorageSpec_def split: option.splits)

lemma replicationUnset_enabled:
  "replicationUnset ms \<Longrightarrow> replicationEnabled_ms ms"
  "replicationUnset ms \<Longrightarrow> replicationEnabled_ms (withReplicationEnabled ms)"
  by (auto simp: replicationUnset_def replicationEnabled_ms_def withReplicationEnabled_def
      split: option.splits)

lemma buildDatabaseConfig_Some:
  "spec_Database (ms_Spec ms) = Some db \<Longrightarrow>
   buildDatabaseConfig env ms =
     (case MustParse env ''10Gi'' of
        Inl p \<Rightarrow> Inl p
      | Inr defaultSize \<Rightarrow>
          (case (case db_Storage db of None \<Rightarrow> Inr defaultSize
                 | Some st \<Rightarrow> MustParse env (Size st)) of
             Inl p \<Rightarrow> Inl p
           | Inr sz \<Rightarrow> Inr
               \<lparr>image = (if db_Image db \<noteq> [] then db_Image db else ''mariadb:10.11''),
                storageSize = sz,
                rootPassword = (if db_RootPassword db \<noteq> [] then db_RootPassword db
                                else ''rootpass''),
                replicas = db_Replicas db,
                masterHost = ms_Name ms @ ''-db-master'',
                replicationEnabled =
                  (case db_Replication db of None \<Rightarrow> True
                   | Some r \<Rightarrow> (case repl_Enabled r of None \<Rightarrow> True | Some b \<Rightarrow> b)),
                replicationGTID =
                  (case db_Replication db of None \<Rightarrow> True
                   | Some r \<Rightarrow> (case repl_GTID r of None \<Rightarrow> True | Some b \<Rightarrow> b)),
                replicationSecret = ms_Name ms @ ''-db-replication''\<rparr>))"
  by (cases "MustParse env ''10Gi''"; cases "db_Storage db"; cases "db_Replication db")
    (simp_all add: buildDatabaseConfig_def replicationSecretName_def Let_def
      split: sum.splits option.splits)

lemma buildDatabaseConfig_default:
  assumes "replicationUnset ms"
  shows "buildDatabaseConfig env (withReplicationEnabled ms) = buildDatabaseConfig env ms"
proof -
  obtain db where db: "spec_Database (ms_Spec ms) = Some db"
    using assms by (auto simp: replicationUnset_def split: option.splits)
  let ?db' = "db\<lparr>db_Replication := Some \<lparr>repl_Enabled = Some True,
       repl_GTID = (case db_Replication db of None \<Rightarrow> None | Some r \<Rightarrow> repl_GTID r)\<rparr>\<rparr>"
  have db': "spec_Database (ms_Spec (withReplicationEnabled ms)) = Some ?db'"
    using db by (simp add: withReplicationEnabled_def)
  have un: "db_Replication db = None \<or> (\<exists>r. db_Replication db = Some r \<and> repl_Enabled r = None)"
    using assms db by (auto simp: replicationUnset_def split: option.splits)
  show ?thesis
    unfolding buildDatabaseConfig_Some [OF db] buildDatabaseConfig_Some [OF db']
      withReplicationEnabled_fields
    using un by (auto split: sum.splits option.splits)
qed

lemma buildDatabaseConfig_enabled:
  assumes "replicationUnset ms" "buildDatabaseConfig env ms = Inr config"
  shows "replicationEnabled config" "replicationSecret config = ms_Name ms @ ''-db-replication''"
proof -
  obtain db where db: "spec_Database (ms_Spec ms) = Some db"
    using assms by (auto simp: replicationUnset_def split: option.splits)
  have un: "db_Replication db = None \<or> (\<exists>r. db_Replication db = Some r \<and> repl_Enabled r = None)"
    using assms db by (auto simp: replicationUnset_def split: option.splits)
  show "replicationEnabled config" "replicationSecret config = ms_Name ms @ ''-db-replication''"
    using assms(2) un unfolding buildDatabaseConfig_Some [OF db]
    by (auto split: sum.splits option.splits)
qed

lemma BuildDatabaseReplicaStatefulSet_default:
  assumes "replicationUnset ms"
  shows "BuildDatabaseReplicaStatefulSet env (withReplicationEnabled ms)
     = BuildDatabaseReplicaStatefulSet env ms"
  unfolding BuildDatabaseReplicaStatefulSet_def buildDatabaseConfig_default [OF assms]
    withReplicationEnabled_fields
  by (rule refl)

lemma ensureReplicationSecret_default:
  assumes "replicationUnset ms"
  shows "ensureReplicationSecret env (withReplicationEnabled ms) w = ensureReplicationSecret env ms w"
proof -
  have "(case spec_Database (ms_Spec (withReplicationEnabled ms)) of None \<Rightarrow> True
          | Some db \<Rightarrow> db_Replicas db = 0)
      = (case spec_Database (ms_Spec ms) of None \<Rightarrow> True | Some db \<Rightarrow> db_Replicas db = 0)"
    by (simp add: withReplicationEnabled_def split: option.splits)
  then show ?thesis
    unfolding ensureReplicationSecret_def withReplicationEnabled_fields
    using replicationUnset_enabled [OF assms] by simp
qed

lemma ReconcileReplicas_default:
  assumes "replicationUnset ms"
  shows "ReconcileReplicas env (withReplicationEnabled ms) w = ReconcileReplicas env ms w"
proof (cases "spec_Database (ms_Spec ms)")
  case None
  then show ?thesis using assms by (simp add: replicationUnset_def)
next
  case (Some db)
  then obtain db' where d: "spec_Database (ms_Spec (withReplicationEnabled ms)) = Some db'"
      "db_Replicas db' = db_Replicas db"
    by (simp add: withReplicationEnabled_def)
  show ?thesis
    unfolding ReconcileReplicas_def ensureReplicationSecret_default [OF assms]
        BuildDatabaseReplicaStatefulSet_default [OF assms] withReplicationEnabled_fields
    using Some d by simp
qed

section \<open>C10: replication is enabled when the spec leaves it out\<close>

text \<open>
  C10. For every MusicService with a database spec whose \<open>Replication\<close> field, or its
  \<open>Enabled\<close> sub-field, is absent: \<open>replicationEnabled\<close> is true; the database
  configuration, the replica StatefulSet, the handling of the replication secret and the
  whole replica reconciliation are equal to those of the same service with
  \<open>Replication.Enabled\<close> set to true; the replica pod has the containers "mariadb" and
  "replication-setup", both with the replication user and password taken from the
  replication secret; and with declared replicas > 0, no secret yet and no failure, the
  replication secret is created.
\<close>

theorem replication_enabled_by_default:
  assumes un: "replicationUnset ms"
  shows "replicationEnabled_ms ms
     \<and> buildDatabaseConfig env ms = buildDatabaseConfig env (withReplicationEnabled ms)
     \<and> BuildDatabaseReplicaStatefulSet env ms
          = BuildDatabaseReplicaStatefulSet env (withReplicationEnabled ms)
     \<and> ensureReplicationSecret env ms w = ensureReplicationSecret env (withReplicationEnabled ms) w
     \<and> ReconcileReplicas env ms w = ReconcileReplicas env (withReplicationEnabled ms) w
     \<and> (\<forall>config. buildDatabaseConfig env ms = Inr config \<longrightarrow>
          replicationEnabled config
          \<and> (\<exists>sts mariadb setup.
                BuildDatabaseReplicaStatefulSet env ms = Inr sts
                \<and> tmpl_Containers (sts_Spec sts) = [mariadb, setup]
                \<and> c_Name mariadb = ''mariadb''
                \<and> c_Name setup = ''replication-setup''
                \<and> [setup] = buildReplicaSetupContainer config
                               (buildReplicaSetupScript (masterHost config))
                \<and> secretEnv ''REPLICATION_USER'' (ms_Name ms @ ''-db-replication'') ''username''
                     \<in> set (c_Env mariadb) \<inter> set (c_Env setup)
                \<and> secretEnv ''REPLICATION_PASSWORD'' (ms_Name ms @ ''-db-replication'') ''password''
                     \<in> set (c_Env mariadb) \<inter> set (c_Env setup)))
     \<and> (\<forall>db. spec_Database (ms_Spec ms) = Some db \<and> db_Replicas db > 0
            \<and> secrets w (ms_Namespace ms, ms_Name ms @ ''-db-replication'') = None
            \<and> fault env (length (trace w)) = None
            \<and> fault env (Suc (length (trace w))) = None
            \<and> rand_fault env = None \<longrightarrow>
          (\<exists>secret. fst (ensureReplicationSecret env ms w) = Inr (Some secret)
               \<and> secrets (snd (ensureReplicationSecret env ms w))
                    (ms_Namespace ms, ms_Name ms @ ''-db-replication'') = Some secret
               \<and> secret_Data secret ''username'' = Some ''repl''
               \<and> secret_Data secret ''password'' \<noteq> None))"
proof (intro conjI allI impI)
  show "replicationEnabled_ms ms"
    by (rule replicationUnset_enabled (1) [OF un])
  show "buildDatabaseConfig env ms = buildDatabaseConfig env (withReplicationEnabled ms)"
    by (rule buildDatabaseConfig_default [OF un, symmetric])
  show "BuildDatabaseReplicaStatefulSet env ms
          = BuildDatabaseReplicaStatefulSet env (withReplicationEnabled ms)"
    by (rule BuildDatabaseReplicaStatefulSet_default [OF un, symmetric])
  show "ensureReplicationSecret env ms w = ensureReplicationSecret env (withReplicationEnabled ms) w"
    by (rule ensureReplicationSecret_default [OF un, symmetric])
  show "ReconcileReplicas env ms w = ReconcileReplicas env (withReplicationEnabled ms) w"
    by (rule ReconcileReplicas_default [OF un, symmetric])
next
  fix config
  assume c: "buildDatabaseConfig env ms = Inr config"
  note e = buildDatabaseConfig_enabled [OF un c]
  show "replicationEnabled config" by (rule e(1))
  show "\<exists>sts mariadb setup.
                BuildDatabaseReplicaStatefulSet env ms = Inr sts
                \<and> tmpl_Containers (sts_Spec sts) = [mariadb, setup]
                \<and> c_Name mariadb = ''mariadb''
                \<and> c_Name setup = ''replication-setup''
                \<and> [setup] = buildReplicaSetupContainer config
                               (buildReplicaSetupScript (masterHost config))
                \<and> secretEnv ''REPLICATION_USER'' (ms_Name ms @ ''-db-replication'') ''username''
                     \<in> set (c_Env mariadb) \<inter> set (c_Env setup)
                \<and> secretEnv ''REPLICATION_PASSWORD'' (ms_Name ms @ ''-db-replication'') ''password''
                     \<in> set (c_Env mariadb) \<inter> set (c_Env setup)"
    using e by (simp add: BuildDatabaseReplicaStatefulSet_def c Let_def buildReplicaSetupContainer_def)
next
  fix db
  assume a: "spec_Database (ms_Spec ms) = Some db \<and> db_Replicas db > 0
            \<and> secrets w (ms_Namespace ms, ms_Name ms @ ''-db-replication'') = None
            \<and> fault env (length (trace w)) = None
            \<and> fault env (Suc (length (trace w))) = None
            \<and> rand_fault env = None"
  then have r0: "db_Replicas db \<noteq> 0" by simp
  let ?s = "\<lparr>secret_Name = ms_Name ms @ ''-db-replication'',
         secret_Namespace = ms_Namespace ms,
         secret_OwnerReferences = [NewControllerRef ms],
         secret_Type = ''Opaque'',
         secret_Data = [''username'' \<mapsto> ''repl'',
            ''password'' \<mapsto> EncodeToString (map (rand_bytes env) [0..<16])]\<rparr>"
  have eq: "fst (ensureReplicationSecret env ms w) = Inr (Some ?s)
     \<and> secrets (snd (ensureReplicationSecret env ms w))
          (ms_Namespace ms, ms_Name ms @ ''-db-replication'') = Some ?s"
    using a r0 replicationUnset_enabled (1) [OF un]
      ensureReplicationSecret_absent [where ms = ms and db = db and w = w and env = env]
    by (simp add: Let_def)
  show "\<exists>secret. fst (ensureReplicationSecret env ms w) = Inr (Some secret)
               \<and> secrets (snd (ensureReplicationSecret env ms w))
                    (ms_Namespace ms, ms_Name ms @ ''-db-replication'') = Some secret
               \<and> secret_Data secret ''username'' = Some ''repl''
               \<and> secret_Data secret ''password'' \<noteq> None"
    apply (rule exI [of _ ?s])
    using eq by simp
qed

theorem replication_enabled_by_default_witness:
  "replicationUnset example_db_ms
   \<and> replicationEnabled_ms example_db_ms
   \<and> BuildDatabaseReplicaStatefulSet example_env example_db_ms
        = BuildDatabaseReplicaStatefulSet example_env (withReplicationEnabled example_db_ms)
   \<and> (\<exists>secret.
         secrets (snd (ensureReplicationSecret example_env example_db_ms example_world))
           (''default'', ''demo-db-replication'') = Some secret
         \<and> secret_Data secret ''username'' = Some ''repl'')"
proof -
  have un: "replicationUnset example_db_ms"
    by (simp add: replicationUnset_def example_db_ms_def example_db_def)
  have db: "spec_Database (ms_Spec example_db_ms) = Some example_db"
    by (simp add: example_db_ms_def)
  have reps: "db_Replicas example_db > 0"
    by (simp add: example_db_def)
  have nm: "ms_Namespace example_db_ms = ''default''" "ms_Name example_db_ms = ''demo''"
    by (simp_all add: example_db_ms_def example_ms_def)
  have ab: "secrets example_world (''default'', ''demo-db-replication'') = None"
    by (simp add: example_world_def)
  have e: "fault example_env 0 = None" "fault example_env (Suc 0) = None"
      "rand_fault example_env = None"
    by (simp_all add: example_env_def)
  have t: "trace example_world = []"
    by (simp add: example_world_def)
  note T = replication_enabled_by_default [OF un, of example_env example_world]
  from T db reps nm ab e t obtain secret where
    "secrets (snd (ensureReplicationSecret example_env example_db_ms example_world))
           (''default'', ''demo-db-replication'') = Some secret"
    "secret_Data secret ''username'' = Some ''repl''"
    by auto
  then have "\<exists>secret.
         secrets (snd (ensureReplicationSecret example_env example_db_ms example_world))
           (''default'', ''demo-db-replication'') = Some secret
         \<and> secret_Data secret ''username'' = Some ''repl''"
    by blast
  then show ?thesis
    using un T by blast
qed

lemma runSteps_append:
  "runSteps env ms (xs @ ys) w =
     (case runSteps env ms xs w of
        (Inr None, w') \<Rightarrow> runSteps env ms ys w'
      | r \<Rightarrow> r)"
  by (induction xs arbitrary: w) (auto split: prod.splits sum.splits option.splits)

lemma runSteps_first_failure:
  assumes "runSteps env ms pre w = (Inr None, wp)" and "st env ms wp = (Inr (Some err), w2)"
  shows "runSteps env ms (pre @ (reason, st) # post) w = (Inr (Some (reason, err)), w2)"
  using assms by (simp add: runSteps_append)

lemma runSteps_first_panic:
  assumes "runSteps env ms pre w = (Inr None, wp)" and "st env ms wp = (Inl p, w2)"
  shows "runSteps env ms (pre @ (reason, st) # post) w = (Inl p, w2)"
  using assms by (simp add: runSteps_append)

lemma UpdateError_written:
  "\<exists>e msF wF. UpdateError env ms reason message w = ((e, msF), wF)
     \<and> trace wF = trace w @ [CStatusUpdate msF]
     \<and> Phase (ms_Status msF) = ''Failed''
     \<and> LastError (ms_Status msF) = message
     \<and> (\<exists>c. findCondition (Conditions (ms_Status msF)) ''Reconciled'' = Some c
            \<and> cond_Status c = ConditionFalse \<and> cond_Reason c = reason
            \<and> cond_Message c = message)"
proof -
  let ?m = "ms\<lparr>ms_Status := (ms_Status ms)\<lparr>Phase := ''Failed'', LastError := message,
      LastReconcileTime := Some (clock env)\<rparr>\<rparr>"
  let ?c = "newCondition ?m ''Reconciled'' ConditionFalse reason message"
  let ?msF = "setStatusCondition env ?m ?c"
  have eq: "UpdateError env ms reason message w
      = ((fst (Status_Update env ?msF w), ?msF), snd (Status_Update env ?msF w))"
    by (simp add: UpdateError_def Let_def case_prod_beta)
  have c: "\<exists>c. findCondition (Conditions (ms_Status ?msF)) ''Reconciled'' = Some c
            \<and> cond_Status c = ConditionFalse \<and> cond_Reason c = reason
            \<and> cond_Message c = message"
    using findCondition_set_fields [of "clock env" "Conditions (ms_Status ?m)" ?c]
    by (auto simp: newCondition_def)
  show ?thesis
    apply (rule exI [of _ "fst (Status_Update env ?msF w)"])
    apply (rule exI [of _ ?msF])
    apply (rule exI [of _ "snd (Status_Update env ?msF w)"])
    using c by (simp add: eq Status_Update_trace)
qed

lemma UpdateReconciled_written:
  "\<exists>e msR wR. UpdateReconciled env ms w = ((e, msR), wR)
     \<and> trace wR = trace w @ [CStatusUpdate msR]
     \<and> LastError (ms_Status msR) = []
     \<and> ReadyReplicas (ms_Status msR) = ReadyReplicas (ms_Status ms)
     \<and> (\<exists>c. findCondition (Conditions (ms_Status msR)) ''Reconciled'' = Some c
            \<and> cond_Status c = ConditionTrue \<and> cond_Reason c = ''ReconcileSuccess'')"
proof -
  let ?c = "newCondition ms ''Reconciled'' ConditionTrue ''ReconcileSuccess''
      ''Successfully reconciled''"
  let ?m = "setStatusCondition env ms ?c"
  let ?msR = "?m\<lparr>ms_Status := (ms_Status ?m)\<lparr>LastReconcileTime := Some (clock env),
      LastError := []\<rparr>\<rparr>"
  have eq: "UpdateReconciled env ms w
      = ((fst (Status_Update env ?msR w), ?msR), snd (Status_Update env ?msR w))"
    by (simp add: UpdateReconciled_def Let_def case_prod_beta)
  have c: "\<exists>c. findCondition (Conditions (ms_Status ?msR)) ''Reconciled'' = Some c
            \<and> cond_Status c = ConditionTrue \<and> cond_Reason c = ''ReconcileSuccess''"
    using findCondition_set_fields [of "clock env" "Conditions (ms_Status ms)" ?c]
    by (auto simp: newCondition_def)
  show ?thesis
    apply (rule exI [of _ "fst (Status_Update env ?msR w)"])
    apply (rule exI [of _ ?msR])
    apply (rule exI [of _ "snd (Status_Update env ?msR w)"])
    using c by (simp add: eq Status_Update_trace)
qed

lemma failWith_written:
  "\<exists>e msF wF. failWith env ms reason err w = (Inr (\<lparr>RequeueAfter = 0\<rparr>, e), wF)
     \<and> trace wF = trace w @ [CStatusUpdate msF]
     \<and> Phase (ms_Status msF) = ''Failed''
     \<and> LastError (ms_Status msF) = Error err
     \<and> (\<exists>c. findCondition (Conditions (ms_Status msF)) ''Reconciled'' = Some c
            \<and> cond_Status c = ConditionFalse \<and> cond_Reason c = reason
            \<and> cond_Message c = Error err)"
  using UpdateError_written [of env ms reason "Error err" w]
  by (auto simp: failWith_def)

lemma syncStatus_success:
  assumes "syncStatus env ms w = (Inr (res, None), wR)"
  shows "\<exists>msR. last (trace wR) = CStatusUpdate msR
     \<and> LastError (ms_Status msR) = []
     \<and> (\<exists>c. findCondition (Conditions (ms_Status msR)) ''Reconciled'' = Some c
            \<and> cond_Status c = ConditionTrue \<and> cond_Reason c = ''ReconcileSuccess'')
     \<and> RequeueAfter res = (if ReadyReplicas (ms_Status msR) < spec_Replicas (ms_Spec msR)
                            then 5 else 30)"
proof -
  obtain r1 w1 where s1: "(case Get_StatefulSet env (ms_Namespace ms) (ms_Name ms) w of
              (Inl err, w1) \<Rightarrow> (Inr (None, ms), w1)
            | (Inr appSts, w1) \<Rightarrow> UpdateFromAppStatefulSet env ms appSts w1) = (r1, w1)"
    by fastforce
  show ?thesis
  proof (cases r1)
    case (Inl p)
    then show ?thesis using assms s1 by (simp add: syncStatus_def)
  next
    case (Inr a)
    obtain e1 m1 where a: "a = (e1, m1)" by (cases a)
    show ?thesis
    proof (cases e1)
      case (Some err)
      then show ?thesis using assms s1 Inr a by (simp add: syncStatus_def)
    next
      case None
      obtain r2 w2 where s2: "(if databaseEnabled m1 then UpdateDatabase env m1 w1
          else (Inr (None, m1), w1)) = (r2, w2)"
        by fastforce
      show ?thesis
      proof (cases r2)
        case (Inl p)
        then show ?thesis using assms s1 Inr a None s2 by (simp add: syncStatus_def)
      next
        case Inr2: (Inr b)
        obtain e2 m2 where b: "b = (e2, m2)" by (cases b)
        show ?thesis
        proof (cases e2)
          case (Some err)
          then show ?thesis using assms s1 Inr a None s2 Inr2 b by (simp add: syncStatus_def)
        next
          case N2: None
          obtain e3 m3 w3 where u: "UpdateReconciled env m2 w2 = ((e3, m3), w3)"
            and w: "trace w3 = trace w2 @ [CStatusUpdate m3]"
              "LastError (ms_Status m3) = []"
              "\<exists>c. findCondition (Conditions (ms_Status m3)) ''Reconciled'' = Some c
                  \<and> cond_Status c = ConditionTrue \<and> cond_Reason c = ''ReconcileSuccess''"
            using UpdateReconciled_written [of env m2 w2] by blast
          have "wR = w3 \<and> e3 = None
              \<and> RequeueAfter res = (if ReadyReplicas (ms_Status m3) < spec_Replicas (ms_Spec m3)
                            then 5 else 30)"
            using assms s1 Inr a None s2 Inr2 b N2 u
            by (cases e3) (auto simp: syncStatus_def split: if_splits)
          then show ?thesis using w by auto
        qed
      qed
    qed
  qed
qed


lemma databaseEnabled_initStatus [simp]:
  "databaseEnabled (initStatus ms) = databaseEnabled ms"
  by (simp add: databaseEnabled_def initStatus_def)

lemma Reconcile_reaches_resources:
  assumes get: "Get_MusicService env ns name w = (Inr ms, wg)"
    and live: "ms_DeletionTimestamp ms = None"
    and fin: "ContainsFinalizer ms musicServiceFinalizerName \<and> msu = ms \<and> wu = wg
              \<or> \<not> ContainsFinalizer ms musicServiceFinalizerName
                \<and> msu = AddFinalizer ms musicServiceFinalizerName
                \<and> Update_MusicService env msu wg = (None, wu)"
  shows "Reconcile g gs env ns name w = reconcileResources g gs env msu wu"
  using assms by (auto simp: Reconcile_def Let_def)

lemmas client_defs =
  api_call_def client_Get_def client_Create_def client_Update_def client_Delete_def
  Get_StatefulSet_def Create_StatefulSet_def Update_StatefulSet_def Delete_StatefulSet_def
  Get_Service_def Create_Service_def Get_HorizontalPodAutoscaler_def
  Create_HorizontalPodAutoscaler_def Update_HorizontalPodAutoscaler_def
  Delete_HorizontalPodAutoscaler_def Get_Secret_def Create_Secret_def Update_Secret_def
  List_PersistentVolumeClaim_def Update_PersistentVolumeClaim_def
  Delete_PersistentVolumeClaim_def Get_MusicService_def Update_MusicService_def
  Status_Update_def returning_def

lemma ex_get: "Get_MusicService example_env ''default'' ''demo'' example_world
   = (Inr example_ms, example_world\<lparr>trace := [CGet KMusicService ''default'' ''demo'']\<rparr>)"
  by (simp add: client_defs example_env_def example_world_def)

lemma ex_app: "fst (runSteps example_env (initStatus example_ms) appSteps
     (example_world\<lparr>trace := [CGet KMusicService ''default'' ''demo'']\<rparr>)) = Inr None"
  by (simp add: appSteps_def ReconcileService_def ReconcileStatefulSet_def ReconcileAutoscaler_def
      deleteAutoscalerIfExists_def client_defs example_env_def example_world_def
      example_ms_def initStatus_def BuildAppService_def BuildAppStatefulSet_def MustParse_def
      example_parse_def Let_def)


lemma ex_reconcile: "fst (Reconcile ReconcileGalera ReconcileGaleraServices example_env
     ''default'' ''demo'' example_world) = Inr (\<lparr>RequeueAfter = 5\<rparr>, None)"
  by (simp add: Reconcile_def reconcileResources_def syncStatus_def
      UpdateFromAppStatefulSet_def availability_def updateStorageWarnings_def
      status_listPVCsByPrefix_def UpdateReconciled_def storageRequestFromStatefulSet_def
      setStatusCondition_def newCondition_def setCondition_def IsZero_def
      volumeClaimTemplate_def ResourceStorage_def claimPrefix_def
      ContainsFinalizer_def musicServiceFinalizerName_def databaseEnabled_def
      appSteps_def ReconcileService_def ReconcileStatefulSet_def ReconcileAutoscaler_def
      deleteAutoscalerIfExists_def client_defs example_env_def example_world_def
      example_ms_def example_status_def initStatus_def BuildAppService_def
      BuildAppStatefulSet_def MustParse_def example_parse_def Let_def)

section \<open>C8: a failing step ends the pass with a Failed status\<close>

text \<open>
  C8. For every pass of \<open>Reconcile\<close> that fetches a live MusicService (and adds the
  finalizer when it is missing): when the steps before a step return no error and that
  step returns an error, the pass makes one more client call only, the status write of an
  object with phase Failed, \<open>lastError\<close> equal to the error's message and the Reconciled
  condition False with the step's reason and that message, and no later step runs; when
  every step returns no error and the pass returns no error, its last client call is the
  status write of an object with an empty \<open>lastError\<close> and the Reconciled condition True.
\<close>

theorem Reconcile_error_handling:
  assumes get: "Get_MusicService env ns name w = (Inr ms, wg)"
    and live: "ms_DeletionTimestamp ms = None"
    and fin: "ContainsFinalizer ms musicServiceFinalizerName \<and> msu = ms \<and> wu = wg
              \<or> \<not> ContainsFinalizer ms musicServiceFinalizerName
                \<and> msu = AddFinalizer ms musicServiceFinalizerName
                \<and> Update_MusicService env msu wg = (None, wu)"
  shows
   "(\<forall>steps ms1 w0 pre reason st post wp err w2.
       ((ms1 = initStatus msu \<and> steps = appSteps \<and> w0 = wu)
        \<or> (databaseEnabled msu
            \<and> runSteps env (initStatus msu) appSteps wu = (Inr None, w0)
            \<and> ms1 = initDatabaseStatus (initStatus msu)
            \<and> steps = databaseSteps g gs ms1))
       \<and> steps = pre @ (reason, st) # post
       \<and> runSteps env ms1 pre w0 = (Inr None, wp)
       \<and> st env ms1 wp = (Inr (Some err), w2)
       \<longrightarrow> (\<exists>e msF wF.
              Reconcile g gs env ns name w = (Inr (\<lparr>RequeueAfter = 0\<rparr>, e), wF)
              \<and> trace wF = trace w2 @ [CStatusUpdate msF]
              \<and> Phase (ms_Status msF) = ''Failed''
              \<and> LastError (ms_Status msF) = Error err
              \<and> (\<exists>c. findCondition (Conditions (ms_Status msF)) ''Reconciled'' = Some c
                     \<and> cond_Status c = ConditionFalse \<and> cond_Reason c = reason
                     \<and> cond_Message c = Error err)))
    \<and> (\<forall>w0 w1 res wR.
         runSteps env (initStatus msu) appSteps wu = (Inr None, w0)
         \<and> (\<not> databaseEnabled msu \<and> w1 = w0
            \<or> databaseEnabled msu
              \<and> runSteps env (initDatabaseStatus (initStatus msu))
                    (databaseSteps g gs (initDatabaseStatus (initStatus msu))) w0 = (Inr None, w1))
         \<and> Reconcile g gs env ns name w = (Inr (res, None), wR)
         \<longrightarrow> (\<exists>msR. last (trace wR) = CStatusUpdate msR
                \<and> LastError (ms_Status msR) = []
                \<and> (\<exists>c. findCondition (Conditions (ms_Status msR)) ''Reconciled'' = Some c
                       \<and> cond_Status c = ConditionTrue \<and> cond_Reason c = ''ReconcileSuccess'')
                \<and> RequeueAfter res
                     = (if ReadyReplicas (ms_Status msR) < spec_Replicas (ms_Spec msR)
                        then 5 else 30)))"
proof (intro conjI allI impI)
  note R = Reconcile_reaches_resources [OF get live fin, of g gs]
  fix steps ms1 w0 pre reason st post wp err w2
  assume a: "((ms1 = initStatus msu \<and> steps = appSteps \<and> w0 = wu)
        \<or> (databaseEnabled msu
            \<and> runSteps env (initStatus msu) appSteps wu = (Inr None, w0)
            \<and> ms1 = initDatabaseStatus (initStatus msu)
            \<and> steps = databaseSteps g gs ms1))
       \<and> steps = pre @ (reason, st) # post
       \<and> runSteps env ms1 pre w0 = (Inr None, wp)
       \<and> st env ms1 wp = (Inr (Some err), w2)"
  then have run: "runSteps env ms1 steps w0 = (Inr (Some (reason, err)), w2)"
    using runSteps_first_failure [of env ms1 pre w0 wp st err w2 reason post] by simp
  have "Reconcile g gs env ns name w = failWith env ms1 reason err w2"
    using a run by (auto simp: R reconcileResources_def Let_def)
  then show "\<exists>e msF wF.
              Reconcile g gs env ns name w = (Inr (\<lparr>RequeueAfter = 0\<rparr>, e), wF)
              \<and> trace wF = trace w2 @ [CStatusUpdate msF]
              \<and> Phase (ms_Status msF) = ''Failed''
              \<and> LastError (ms_Status msF) = Error err
              \<and> (\<exists>c. findCondition (Conditions (ms_Status msF)) ''Reconciled'' = Some c
                     \<and> cond_Status c = ConditionFalse \<and> cond_Reason c = reason
                     \<and> cond_Message c = Error err)"
    using failWith_written [of env ms1 reason err w2] by simp
next
  note R = Reconcile_reaches_resources [OF get live fin, of g gs]
  fix w0 w1 res wR
  assume a: "runSteps env (initStatus msu) appSteps wu = (Inr None, w0)
         \<and> (\<not> databaseEnabled msu \<and> w1 = w0
            \<or> databaseEnabled msu
              \<and> runSteps env (initDatabaseStatus (initStatus msu))
                    (databaseSteps g gs (initDatabaseStatus (initStatus msu))) w0 = (Inr None, w1))
         \<and> Reconcile g gs env ns name w = (Inr (res, None), wR)"
  then have "\<exists>m. syncStatus env m w1 = (Inr (res, None), wR)"
    by (auto simp: R reconcileResources_def Let_def)
  then show "\<exists>msR. last (trace wR) = CStatusUpdate msR
                \<and> LastError (ms_Status msR) = []
                \<and> (\<exists>c. findCondition (Conditions (ms_Status msR)) ''Reconciled'' = Some c
                       \<and> cond_Status c = ConditionTrue \<and> cond_Reason c = ''ReconcileSuccess'')
                \<and> RequeueAfter res
                     = (if ReadyReplicas (ms_Status msR) < spec_Replicas (ms_Spec msR)
                        then 5 else 30)"
    using syncStatus_success by blast
qed

theorem Reconcile_error_handling_witness:
  "(\<exists>e msF wF.
      Reconcile ReconcileGalera ReconcileGaleraServices example_env_fault
        ''default'' ''demo'' example_world = (Inr (\<lparr>RequeueAfter = 0\<rparr>, e), wF)
      \<and> trace wF = [CGet KMusicService ''default'' ''demo'', CGet KService ''default'' ''demo'',
                     CStatusUpdate msF]
      \<and> Phase (ms_Status msF) = ''Failed''
      \<and> LastError (ms_Status msF) = ''boom''
      \<and> (\<exists>c. findCondition (Conditions (ms_Status msF)) ''Reconciled'' = Some c
             \<and> cond_Status c = ConditionFalse \<and> cond_Reason c = ''ServiceFailed''
             \<and> cond_Message c = ''boom''))
   \<and> (\<exists>msR wR.
        Reconcile ReconcileGalera ReconcileGaleraServices example_env
          ''default'' ''demo'' example_world = (Inr (\<lparr>RequeueAfter = 5\<rparr>, None), wR)
        \<and> last (trace wR) = CStatusUpdate msR
        \<and> LastError (ms_Status msR) = []
        \<and> (\<exists>c. findCondition (Conditions (ms_Status msR)) ''Reconciled'' = Some c
               \<and> cond_Status c = ConditionTrue))"
proof -
  let ?wg = "example_world\<lparr>trace := [CGet KMusicService ''default'' ''demo'']\<rparr>"
  let ?w2 = "example_world\<lparr>trace := [CGet KMusicService ''default'' ''demo'',
      CGet KService ''default'' ''demo'']\<rparr>"
  have live: "ms_DeletionTimestamp example_ms = None"
    by (simp add: example_ms_def)
  have fin: "ContainsFinalizer example_ms musicServiceFinalizerName \<and> example_ms = example_ms
        \<and> ?wg = ?wg
      \<or> \<not> ContainsFinalizer example_ms musicServiceFinalizerName
        \<and> example_ms = AddFinalizer example_ms musicServiceFinalizerName
        \<and> Update_MusicService example_env_fault example_ms ?wg = (None, ?wg)"
    by (simp add: ContainsFinalizer_def example_ms_def)
  have fin': "ContainsFinalizer example_ms musicServiceFinalizerName \<and> example_ms = example_ms
        \<and> ?wg = ?wg
      \<or> \<not> ContainsFinalizer example_ms musicServiceFinalizerName
        \<and> example_ms = AddFinalizer example_ms musicServiceFinalizerName
        \<and> Update_MusicService example_env example_ms ?wg = (None, ?wg)"
    by (simp add: ContainsFinalizer_def example_ms_def)
  have getf: "Get_MusicService example_env_fault ''default'' ''demo'' example_world
      = (Inr example_ms, ?wg)"
    by (simp add: client_defs example_env_fault_def example_env_def example_world_def)
  have failing: "ReconcileService example_env_fault (initStatus example_ms) ?wg
      = (Inr (Some (OtherError ''boom'')), ?w2)"
    by (simp add: ReconcileService_def client_defs example_env_fault_def example_env_def
        example_world_def example_ms_def initStatus_def)
  have steps: "appSteps = [] @ (''ServiceFailed'', ReconcileService)
      # [(''StatefulSetFailed'', ReconcileStatefulSet), (''AutoscalerFailed'', ReconcileAutoscaler)]"
    by (simp add: appSteps_def)
  note F = Reconcile_error_handling [OF getf live fin,
      of ReconcileGalera ReconcileGaleraServices, THEN conjunct1, rule_format,
      where steps = appSteps and ?ms1.0 = "initStatus example_ms" and ?w0.0 = ?wg and pre = "[]"
        and reason = "''ServiceFailed''" and st = ReconcileService
        and post = "[(''StatefulSetFailed'', ReconcileStatefulSet),
                     (''AutoscalerFailed'', ReconcileAutoscaler)]"
        and wp = ?wg and err = "OtherError ''boom''" and ?w2.0 = ?w2]
  have part1: "\<exists>e msF wF.
      Reconcile ReconcileGalera ReconcileGaleraServices example_env_fault
        ''default'' ''demo'' example_world = (Inr (\<lparr>RequeueAfter = 0\<rparr>, e), wF)
      \<and> trace wF = [CGet KMusicService ''default'' ''demo'', CGet KService ''default'' ''demo'',
                     CStatusUpdate msF]
      \<and> Phase (ms_Status msF) = ''Failed''
      \<and> LastError (ms_Status msF) = ''boom''
      \<and> (\<exists>c. findCondition (Conditions (ms_Status msF)) ''Reconciled'' = Some c
             \<and> cond_Status c = ConditionFalse \<and> cond_Reason c = ''ServiceFailed''
             \<and> cond_Message c = ''boom'')"
    using F failing steps by (simp add: example_world_def)
  let ?run = "runSteps example_env (initStatus example_ms) appSteps ?wg"
  let ?R = "Reconcile ReconcileGalera ReconcileGaleraServices example_env
      ''default'' ''demo'' example_world"
  have app: "?run = (Inr None, snd ?run)"
    using ex_app by (simp add: prod_eq_iff)
  have nodb: "\<not> databaseEnabled example_ms"
    by (simp add: databaseEnabled_def example_ms_def)
  have rec: "?R = (Inr (\<lparr>RequeueAfter = 5\<rparr>, None), snd ?R)"
    using ex_reconcile by (simp add: prod_eq_iff)
  note S = Reconcile_error_handling [OF ex_get live fin',
      of ReconcileGalera ReconcileGaleraServices, THEN conjunct2, rule_format,
      where ?w0.0 = "snd ?run" and ?w1.0 = "snd ?run" and res = "\<lparr>RequeueAfter = 5\<rparr>"
        and wR = "snd ?R"]
  have part2: "\<exists>msR wR. ?R = (Inr (\<lparr>RequeueAfter = 5\<rparr>, None), wR)
        \<and> last (trace wR) = CStatusUpdate msR
        \<and> LastError (ms_Status msR) = []
        \<and> (\<exists>c. findCondition (Conditions (ms_Status msR)) ''Reconciled'' = Some c
               \<and> cond_Status c = ConditionTrue)"
    using S app nodb rec by (metis (no_types, lifting))
  show ?thesis
    using part1 part2 by blast
qed

lemma MustParse_Inl: "MustParse env s = Inl p \<longleftrightarrow> ParseQuantity env s = None \<and> p = MustParsePanic s"
  by (auto simp: MustParse_def split: option.splits)

lemma MustParse_Inr: "MustParse env s = Inr q \<longleftrightarrow> ParseQuantity env s = Some q"
  by (auto simp: MustParse_def split: option.splits)

lemma BuildAppStatefulSet_Inl:
  "BuildAppStatefulSet env ms = Inl p \<longleftrightarrow>
     ParseQuantity env (Size (spec_Storage (ms_Spec ms))) = None
     \<and> p = MustParsePanic (Size (spec_Storage (ms_Spec ms)))"
  by (auto simp: BuildAppStatefulSet_def Let_def MustParse_def split: option.splits sum.splits)

lemma buildDatabaseConfig_Inl:
  "buildDatabaseConfig env ms = Inl p \<longleftrightarrow>
     (ParseQuantity env ''10Gi'' = None \<and> p = MustParsePanic ''10Gi''
      \<or> ParseQuantity env ''10Gi'' \<noteq> None
        \<and> (\<exists>db st. spec_Database (ms_Spec ms) = Some db \<and> db_Storage db = Some st
              \<and> ParseQuantity env (Size st) = None \<and> p = MustParsePanic (Size st)))"
proof (cases "spec_Database (ms_Spec ms)")
  case None
  then show ?thesis
    by (auto simp: buildDatabaseConfig_def Let_def MustParse_def split: option.splits)
next
  case (Some db)
  show ?thesis
    unfolding buildDatabaseConfig_Some [OF Some]
    using Some by (cases "db_Storage db") (auto simp: MustParse_def split: option.splits)
qed

lemma database_builders_Inl:
  "BuildDatabaseMasterStatefulSet env ms = Inl p \<longleftrightarrow> buildDatabaseConfig env ms = Inl p"
  "BuildDatabaseReplicaStatefulSet env ms = Inl p \<longleftrightarrow> buildDatabaseConfig env ms = Inl p"
  by (auto simp: BuildDatabaseMasterStatefulSet_def BuildDatabaseReplicaStatefulSet_def Let_def
      split: sum.splits)

lemma autoscaler_builders_Inl:
  "BuildAutoscaler ms = Inl p \<longleftrightarrow> spec_Autoscaling (ms_Spec ms) = None \<and> p = NilPointerDereference"
  "BuildDatabaseReplicaAutoscaler ms = Inl p \<longleftrightarrow>
     (spec_Database (ms_Spec ms) = None
      \<or> (\<exists>db. spec_Database (ms_Spec ms) = Some db \<and> db_Autoscaling db = None))
     \<and> p = NilPointerDereference"
  by (auto simp: BuildAutoscaler_def BuildDatabaseReplicaAutoscaler_def Let_def
      split: option.splits)

lemma not_Inl_Inr: "(\<forall>p. x \<noteq> Inl p) \<longleftrightarrow> (\<exists>d. x = Inr d)"
  by (cases x) auto

lemma ReconcileStatefulSet_panic:
  assumes "fault env (length (trace w)) = None" and "BuildAppStatefulSet env ms = Inl p"
  shows "fst (ReconcileStatefulSet env ms w) = Inl p"
  using assms
  by (simp add: ReconcileStatefulSet_def Get_StatefulSet_def client_Get_def api_call_def
      split: option.splits)

lemma statefulSetNeedsUpdate_replicas:
  assumes "sts_Replicas (sts_Spec current) = Some r" "sts_Replicas (sts_Spec desired) = Some d"
    "r \<noteq> d"
  shows "statefulSetNeedsUpdate current desired = Inr True"
  using assms by (simp add: statefulSetNeedsUpdate_def)

lemma BuildAppStatefulSet_fields:
  assumes "BuildAppStatefulSet env ms = Inr desired"
  shows "sts_Replicas (sts_Spec desired) = Some (spec_Replicas (ms_Spec ms))"
    and "sts_Name desired = ms_Name ms" and "sts_Namespace desired = ms_Namespace ms"
  using assms
  by (auto simp: BuildAppStatefulSet_def Let_def split: sum.splits)

lemma Update_StatefulSet_eq:
  "Update_StatefulSet env s w =
     (case fault env (length (trace w)) of
        Some m \<Rightarrow> (Some (OtherError m), w\<lparr>trace := trace w @ [CUpdate (OStatefulSet s)]\<rparr>)
      | None \<Rightarrow>
          (if statefulsets w (sts_Namespace s, sts_Name s) = None
           then (Some (NotFound (sts_Name s)), w\<lparr>trace := trace w @ [CUpdate (OStatefulSet s)]\<rparr>)
           else (None, w\<lparr>trace := trace w @ [CUpdate (OStatefulSet s)],
                          statefulsets := (statefulsets w)((sts_Namespace s, sts_Name s) \<mapsto> s)\<rparr>)))"
  by (simp add: Update_StatefulSet_def client_Update_def api_call_def split: option.splits)

lemma Get_StatefulSet_eq:
  "Get_StatefulSet env ns n w =
     ((case fault env (length (trace w)) of
         Some m \<Rightarrow> Inl (OtherError m)
       | None \<Rightarrow> (case statefulsets w (ns, n) of None \<Rightarrow> Inl (NotFound n) | Some s \<Rightarrow> Inr s)),
      w\<lparr>trace := trace w @ [CGet KStatefulSet ns n]\<rparr>)"
  by (simp add: Get_StatefulSet_def client_Get_def api_call_def split: option.splits)

lemma example_desired_built:
  "BuildAppStatefulSet example_env example_hpa_ms = Inr example_desired_sts"
  by (simp add: example_desired_sts_def BuildAppStatefulSet_def MustParse_def example_env_def
      example_parse_def example_hpa_ms_def example_ms_def Let_def)

lemma example_hpa_built: "BuildAutoscaler example_hpa_ms = Inr example_hpa"
  by (simp add: example_hpa_def BuildAutoscaler_def example_hpa_ms_def example_ms_def Let_def)

lemma example_scaled_facts:
  "statefulsets example_world_scaled (ms_Namespace example_hpa_ms, ms_Name example_hpa_ms)
     = Some example_scaled_sts"
  "sts_Namespace example_scaled_sts = ms_Namespace example_hpa_ms"
  "sts_Name example_scaled_sts = ms_Name example_hpa_ms"
  "fault example_env (length (trace example_world_scaled)) = None"
  "fault example_env (Suc (length (trace example_world_scaled))) = None"
  "sts_Replicas (sts_Spec example_scaled_sts) = Some 5"
  "(5::int) \<noteq> spec_Replicas (ms_Spec example_hpa_ms)"
  "\<not> storageSizeChanged example_scaled_sts example_desired_sts"
  "ms_Namespace example_hpa_ms = ''default''" "ms_Name example_hpa_ms = ''demo''"
  "trace example_world_scaled = []"
  "example_scaled_sts\<lparr>sts_Spec := sts_Spec example_desired_sts\<rparr>
     = example_desired_sts\<lparr>sts_ReadyReplicas := 5\<rparr>"
  using BuildAppStatefulSet_fields [OF example_desired_built]
  by (simp_all add: example_world_scaled_def example_world_def example_scaled_sts_def
      example_hpa_ms_def example_ms_def example_env_def storageSizeChanged_def
      storageRequestFromStatefulSet_def split: list.splits option.splits)

lemma ReconcileMaster_panic:
  assumes "fault env (length (trace w)) = None" and "BuildDatabaseMasterStatefulSet env ms = Inl p"
  shows "fst (ReconcileMaster env ms w) = Inl p"
  using assms
  by (simp add: ReconcileMaster_def Get_StatefulSet_eq split: option.splits)

lemma ReconcileReplicas_panic:
  assumes "spec_Database (ms_Spec ms) = Some db" and "db_Replicas db \<noteq> 0"
    and "ensureReplicationSecret env ms w = (Inr secret, w0)"
    and "fault env (length (trace w0)) = None"
    and "BuildDatabaseReplicaStatefulSet env ms = Inl p"
  shows "fst (ReconcileReplicas env ms w) = Inl p"
  using assms
  by (simp add: ReconcileReplicas_def Get_StatefulSet_eq split: option.splits)

lemma ReconcileAutoscaler_no_panic: "fst (ReconcileAutoscaler env ms w) \<noteq> Inl q"
  by (auto simp: ReconcileAutoscaler_def deleteAutoscalerIfExists_def returning_def
      BuildAutoscaler_def Let_def split: prod.splits sum.splits option.splits if_splits)

lemma db_ReconcileAutoscaler_no_panic:
  assumes "spec_Database (ms_Spec ms) \<noteq> None"
  shows "fst (db_ReconcileAutoscaler env ms w) \<noteq> Inl q"
  using assms
  by (auto simp: db_ReconcileAutoscaler_def returning_def
      BuildDatabaseReplicaAutoscaler_def Let_def split: prod.splits sum.splits option.splits if_splits)

lemma example_db_malformed_facts:
  "spec_Database (ms_Spec example_db_ms_malformed)
     = Some (example_db\<lparr>db_Storage := Some \<lparr>Size = ''ten'', UpdatePolicy = []\<rparr>\<rparr>)"
  "db_Replicas (example_db\<lparr>db_Storage := Some \<lparr>Size = ''ten'', UpdatePolicy = []\<rparr>\<rparr>) \<noteq> 0"
  "replicationEnabled_ms example_db_ms_malformed"
  "ms_Namespace example_db_ms_malformed = ''default''"
  "ms_Name example_db_ms_malformed = ''demo''"
  "buildDatabaseConfig example_env example_db_ms_malformed = Inl (MustParsePanic ''ten'')"
  by (simp_all add: example_db_ms_malformed_def example_db_ms_def example_ms_def example_db_def
      replicationEnabled_ms_def buildDatabaseConfig_Inl example_env_def example_parse_def)

lemma example_db_malformed_secret:
  "\<exists>secret w0. ensureReplicationSecret example_env example_db_ms_malformed example_world
      = (Inr secret, w0) \<and> fault example_env (length (trace w0)) = None"
proof -
  have "fst (ensureReplicationSecret example_env example_db_ms_malformed example_world)
      = Inr (Some \<lparr>secret_Name = ms_Name example_db_ms_malformed @ ''-db-replication'',
                     secret_Namespace = ms_Namespace example_db_ms_malformed,
                     secret_OwnerReferences = [NewControllerRef example_db_ms_malformed],
                     secret_Type = ''Opaque'',
                     secret_Data = [''username'' \<mapsto> ''repl'',
                        ''password'' \<mapsto> EncodeToString (map (rand_bytes example_env) [0..<16])]\<rparr>)"
    using ensureReplicationSecret_absent [OF example_db_malformed_facts(3)
        example_db_malformed_facts(1) example_db_malformed_facts(2),
        of example_world example_env]
    by (simp add: example_db_malformed_facts example_world_def example_env_def Let_def)
  then show ?thesis
    by (cases "ensureReplicationSecret example_env example_db_ms_malformed example_world")
       (auto simp: example_env_def)
qed

section \<open>C9: how the builder fails\<close>

text \<open>
  C9, as stated, fails: the example service has well-formed quantity strings and no
  autoscaling spec, and \<open>BuildAutoscaler\<close> and \<open>BuildDatabaseReplicaAutoscaler\<close> fail on it
  with a nil pointer dereference; and a malformed storage size makes
  \<open>BuildAppStatefulSet\<close> panic, which leaves \<open>ReconcileStatefulSet\<close> as a panic, not as
  a returned error.
\<close>

theorem builder_fails_counterexample:
  "quantitiesWellFormed example_env example_ms
   \<and> BuildAutoscaler example_ms = Inl NilPointerDereference
   \<and> BuildDatabaseReplicaAutoscaler example_ms = Inl NilPointerDereference
   \<and> BuildAppStatefulSet example_env example_ms_malformed = Inl (MustParsePanic ''ten'')
   \<and> fst (ReconcileStatefulSet example_env example_ms_malformed example_world)
        = Inl (MustParsePanic ''ten'')"
  by (simp add: quantitiesWellFormed_def BuildAutoscaler_def BuildDatabaseReplicaAutoscaler_def
      BuildAppStatefulSet_def MustParse_def example_env_def example_parse_def example_ms_def
      example_ms_malformed_def example_world_def ReconcileStatefulSet_def Get_StatefulSet_def
      client_Get_def api_call_def Let_def)

text \<open>
  C9, amended. A builder function fails only by a panic: \<open>BuildAppStatefulSet\<close> exactly
  when the application's storage size is malformed; \<open>buildDatabaseConfig\<close> and the two
  database StatefulSet builders exactly when the database's storage size is malformed
  (the default size being well-formed); \<open>BuildAutoscaler\<close> exactly when the spec has no
  autoscaling, and \<open>BuildDatabaseReplicaAutoscaler\<close> exactly when the spec has no database
  or the database no autoscaling. The panic of a builder is not swallowed and is not turned
  into an error: it is the result of the reconciler that called the builder, of
  \<open>ReconcileStatefulSet\<close> and \<open>ReconcileMaster\<close> when the read of the live StatefulSet meets
  no failure of the API, and of \<open>ReconcileReplicas\<close> when moreover the database has
  replicas and the replication secret was ensured without error. The callers of the two
  autoscaler builders test the autoscaling spec first: \<open>ReconcileAutoscaler\<close> of the
  application never panics, and \<open>ReconcileAutoscaler\<close> of the database does not when the
  spec has a database. For every spec whose quantity strings are well-formed, every
  builder function returns a descriptor, the two autoscaler builders when the autoscaling
  spec they read is present.
\<close>

theorem builder_fails_only_by_panic:
  "(BuildAppStatefulSet env ms = Inl p \<longleftrightarrow>
      ParseQuantity env (Size (spec_Storage (ms_Spec ms))) = None
      \<and> p = MustParsePanic (Size (spec_Storage (ms_Spec ms))))
   \<and> (ParseQuantity env ''10Gi'' \<noteq> None \<longrightarrow>
        (buildDatabaseConfig env ms = Inl p \<longleftrightarrow>
           (\<exists>db st. spec_Database (ms_Spec ms) = Some db \<and> db_Storage db = Some st
              \<and> ParseQuantity env (Size st) = None \<and> p = MustParsePanic (Size st))))
   \<and> (BuildDatabaseMasterStatefulSet env ms = Inl p \<longleftrightarrow> buildDatabaseConfig env ms = Inl p)
   \<and> (BuildDatabaseReplicaStatefulSet env ms = Inl p \<longleftrightarrow> buildDatabaseConfig env ms = Inl p)
   \<and> (BuildAutoscaler ms = Inl p \<longleftrightarrow>
        spec_Autoscaling (ms_Spec ms) = None \<and> p = NilPointerDereference)
   \<and> (BuildDatabaseReplicaAutoscaler ms = Inl p \<longleftrightarrow>
        (spec_Database (ms_Spec ms) = None
         \<or> (\<exists>db. spec_Database (ms_Spec ms) = Some db \<and> db_Autoscaling db = None))
        \<and> p = NilPointerDereference)
   \<and> (fault env (length (trace w)) = None \<and> BuildAppStatefulSet env ms = Inl p \<longrightarrow>
        fst (ReconcileStatefulSet env ms w) = Inl p)
   \<and> (fault env (length (trace w)) = None \<and> BuildDatabaseMasterStatefulSet env ms = Inl p \<longrightarrow>
        fst (ReconcileMaster env ms w) = Inl p)
   \<and> (\<forall>db secret w0.
         spec_Database (ms_Spec ms) = Some db \<and> db_Replicas db \<noteq> 0
         \<and> ensureReplicationSecret env ms w = (Inr secret, w0)
         \<and> fault env (length (trace w0)) = None
         \<and> BuildDatabaseReplicaStatefulSet env ms = Inl p \<longrightarrow>
         fst (ReconcileReplicas env ms w) = Inl p)
   \<and> (\<forall>q. fst (ReconcileAutoscaler env ms w) \<noteq> Inl q)
   \<and> (spec_Database (ms_Spec ms) \<noteq> None \<longrightarrow>
        (\<forall>q. fst (db_ReconcileAutoscaler env ms w) \<noteq> Inl q))
   \<and> (quantitiesWellFormed env ms \<longrightarrow>
        (\<exists>d. BuildAppStatefulSet env ms = Inr d)
        \<and> (\<exists>c. buildDatabaseConfig env ms = Inr c)
        \<and> (\<exists>d. BuildDatabaseMasterStatefulSet env ms = Inr d)
        \<and> (\<exists>d. BuildDatabaseReplicaStatefulSet env ms = Inr d)
        \<and> (spec_Autoscaling (ms_Spec ms) \<noteq> None \<longrightarrow> (\<exists>d. BuildAutoscaler ms = Inr d))
        \<and> ((\<exists>db. spec_Database (ms_Spec ms) = Some db \<and> db_Autoscaling db \<noteq> None) \<longrightarrow>
             (\<exists>d. BuildDatabaseReplicaAutoscaler ms = Inr d)))"
proof (intro conjI impI allI)
  show "BuildAppStatefulSet env ms = Inl p \<longleftrightarrow>
      ParseQuantity env (Size (spec_Storage (ms_Spec ms))) = None
      \<and> p = MustParsePanic (Size (spec_Storage (ms_Spec ms)))"
    by (rule BuildAppStatefulSet_Inl)
  show "BuildDatabaseMasterStatefulSet env ms = Inl p \<longleftrightarrow> buildDatabaseConfig env ms = Inl p"
    by (rule database_builders_Inl)
  show "BuildDatabaseReplicaStatefulSet env ms = Inl p \<longleftrightarrow> buildDatabaseConfig env ms = Inl p"
    by (rule database_builders_Inl)
  show "BuildAutoscaler ms = Inl p \<longleftrightarrow>
        spec_Autoscaling (ms_Spec ms) = None \<and> p = NilPointerDereference"
    by (rule autoscaler_builders_Inl)
  show "BuildDatabaseReplicaAutoscaler ms = Inl p \<longleftrightarrow>
        (spec_Database (ms_Spec ms) = None
         \<or> (\<exists>db. spec_Database (ms_Spec ms) = Some db \<and> db_Autoscaling db = None))
        \<and> p = NilPointerDereference"
    by (rule autoscaler_builders_Inl)
next
  assume "ParseQuantity env ''10Gi'' \<noteq> None"
  then show "buildDatabaseConfig env ms = Inl p \<longleftrightarrow>
           (\<exists>db st. spec_Database (ms_Spec ms) = Some db \<and> db_Storage db = Some st
              \<and> ParseQuantity env (Size st) = None \<and> p = MustParsePanic (Size st))"
    by (auto simp: buildDatabaseConfig_Inl)
next
  assume "fault env (length (trace w)) = None \<and> BuildAppStatefulSet env ms = Inl p"
  then show "fst (ReconcileStatefulSet env ms w) = Inl p"
    by (simp add: ReconcileStatefulSet_panic)
next
  assume "fault env (length (trace w)) = None \<and> BuildDatabaseMasterStatefulSet env ms = Inl p"
  then show "fst (ReconcileMaster env ms w) = Inl p"
    by (simp add: ReconcileMaster_panic)
next
  fix db secret w0
  assume "spec_Database (ms_Spec ms) = Some db \<and> db_Replicas db \<noteq> 0
         \<and> ensureReplicationSecret env ms w = (Inr secret, w0)
         \<and> fault env (length (trace w0)) = None
         \<and> BuildDatabaseReplicaStatefulSet env ms = Inl p"
  then show "fst (ReconcileReplicas env ms w) = Inl p"
    by (simp add: ReconcileReplicas_panic)
next
  fix q
  show "fst (ReconcileAutoscaler env ms w) \<noteq> Inl q"
    by (rule ReconcileAutoscaler_no_panic)
next
  fix q
  assume "spec_Database (ms_Spec ms) \<noteq> None"
  then show "fst (db_ReconcileAutoscaler env ms w) \<noteq> Inl q"
    by (rule db_ReconcileAutoscaler_no_panic)
next
  assume wf: "quantitiesWellFormed env ms"
  have c: "\<forall>p. buildDatabaseConfig env ms \<noteq> Inl p"
    using wf by (auto simp: buildDatabaseConfig_Inl quantitiesWellFormed_def)
  show "\<exists>d. BuildAppStatefulSet env ms = Inr d"
    using wf by (simp add: not_Inl_Inr [symmetric] BuildAppStatefulSet_Inl quantitiesWellFormed_def)
  show "\<exists>c. buildDatabaseConfig env ms = Inr c"
    using c by (simp add: not_Inl_Inr)
  show "\<exists>d. BuildDatabaseMasterStatefulSet env ms = Inr d"
    using c by (simp add: not_Inl_Inr [symmetric] database_builders_Inl)
  show "\<exists>d. BuildDatabaseReplicaStatefulSet env ms = Inr d"
    using c by (simp add: not_Inl_Inr [symmetric] database_builders_Inl)
next
  assume "spec_Autoscaling (ms_Spec ms) \<noteq> None"
  then show "\<exists>d. BuildAutoscaler ms = Inr d"
    by (simp add: not_Inl_Inr [symmetric] autoscaler_builders_Inl)
next
  assume "\<exists>db. spec_Database (ms_Spec ms) = Some db \<and> db_Autoscaling db \<noteq> None"
  then show "\<exists>d. BuildDatabaseReplicaAutoscaler ms = Inr d"
    by (auto simp: not_Inl_Inr [symmetric] autoscaler_builders_Inl)
qed

theorem builder_fails_only_by_panic_witness:
  "quantitiesWellFormed example_env example_db_ms
   \<and> (\<exists>d. BuildAppStatefulSet example_env example_db_ms = Inr d)
   \<and> (\<exists>d. BuildDatabaseMasterStatefulSet example_env example_db_ms = Inr d)
   \<and> (\<exists>d. BuildDatabaseReplicaStatefulSet example_env example_db_ms = Inr d)
   \<and> quantitiesWellFormed example_env example_hpa_ms
   \<and> spec_Autoscaling (ms_Spec example_hpa_ms) \<noteq> None
   \<and> (\<exists>d. BuildAutoscaler example_hpa_ms = Inr d)
   \<and> fault example_env (length (trace example_world)) = None
   \<and> BuildAppStatefulSet example_env example_ms_malformed = Inl (MustParsePanic ''ten'')
   \<and> fst (ReconcileStatefulSet example_env example_ms_malformed example_world)
        = Inl (MustParsePanic ''ten'')
   \<and> BuildDatabaseMasterStatefulSet example_env example_db_ms_malformed
        = Inl (MustParsePanic ''ten'')
   \<and> fst (ReconcileMaster example_env example_db_ms_malformed example_world)
        = Inl (MustParsePanic ''ten'')
   \<and> BuildDatabaseReplicaStatefulSet example_env example_db_ms_malformed
        = Inl (MustParsePanic ''ten'')
   \<and> fst (ReconcileReplicas example_env example_db_ms_malformed example_world)
        = Inl (MustParsePanic ''ten'')"
proof -
  have w1: "quantitiesWellFormed example_env example_db_ms"
    by (simp add: quantitiesWellFormed_def example_env_def example_parse_def example_db_ms_def
        example_ms_def example_db_def)
  have w2: "quantitiesWellFormed example_env example_hpa_ms"
    by (simp add: quantitiesWellFormed_def example_env_def example_parse_def example_hpa_ms_def
        example_ms_def)
  have a: "spec_Autoscaling (ms_Spec example_hpa_ms) \<noteq> None"
    by (simp add: example_hpa_ms_def)
  have f: "fault example_env (length (trace example_world)) = None"
    by (simp add: example_env_def)
  have b: "BuildAppStatefulSet example_env example_ms_malformed = Inl (MustParsePanic ''ten'')"
    by (simp add: BuildAppStatefulSet_def MustParse_def example_env_def example_parse_def
        example_ms_malformed_def example_ms_def Let_def)
  have m: "BuildDatabaseMasterStatefulSet example_env example_db_ms_malformed
        = Inl (MustParsePanic ''ten'')"
    "BuildDatabaseReplicaStatefulSet example_env example_db_ms_malformed
        = Inl (MustParsePanic ''ten'')"
    by (simp_all add: database_builders_Inl example_db_malformed_facts)
  note T = builder_fails_only_by_panic [of example_env example_db_ms_malformed "MustParsePanic ''ten''" example_world]
  have rm: "fst (ReconcileMaster example_env example_db_ms_malformed example_world)
        = Inl (MustParsePanic ''ten'')"
    using T f m by simp
  have rr: "fst (ReconcileReplicas example_env example_db_ms_malformed example_world)
        = Inl (MustParsePanic ''ten'')"
    using T m example_db_malformed_facts(1,2) example_db_malformed_secret by blast
  have rest: "(\<exists>d. BuildAppStatefulSet example_env example_db_ms = Inr d)
   \<and> (\<exists>d. BuildDatabaseMasterStatefulSet example_env example_db_ms = Inr d)
   \<and> (\<exists>d. BuildDatabaseReplicaStatefulSet example_env example_db_ms = Inr d)
   \<and> (\<exists>d. BuildAutoscaler example_hpa_ms = Inr d)
   \<and> fst (ReconcileStatefulSet example_env example_ms_malformed example_world)
        = Inl (MustParsePanic ''ten'')"
    using w1 w2 a f b
      builder_fails_only_by_panic [of example_env example_db_ms "MustParsePanic ''ten''" example_world]
      builder_fails_only_by_panic [of example_env example_hpa_ms "MustParsePanic ''ten''" example_world]
      builder_fails_only_by_panic [of example_env example_ms_malformed "MustParsePanic ''ten''" example_world]
    by simp
  show ?thesis
    using w1 w2 a f b m rm rr rest by simp
qed

lemma Update_PersistentVolumeClaim_tables:
  "statefulsets (snd (Update_PersistentVolumeClaim env pvc w)) = statefulsets w"
  by (simp add: Update_PersistentVolumeClaim_def api_call_def split: option.splits)

lemma resizePVCs_range_tables:
  "statefulsets (snd (resizePVCs_range env q cs w)) = statefulsets w"
proof (induction cs arbitrary: w)
  case Nil
  show ?case by simp
next
  case (Cons c cs)
  let ?c = "c\<lparr>pvc_Requests := (pvc_Requests c)(ResourceStorage \<mapsto> q)\<rparr>"
  obtain e w1 where u: "Update_PersistentVolumeClaim env ?c w = (e, w1)"
    by (cases "Update_PersistentVolumeClaim env ?c w")
  have s1: "statefulsets w1 = statefulsets w"
    using Update_PersistentVolumeClaim_tables [of env ?c w] u by simp
  show ?case
  proof (cases "pvc_Requests c ResourceStorage")
    case None
    then show ?thesis using Cons.IH by simp
  next
    case (Some x)
    show ?thesis
    proof (cases "x \<ge> q")
      case True
      then show ?thesis using Some Cons.IH by simp
    next
      case False
      show ?thesis
      proof (cases e)
        case None
        then show ?thesis using Some False u s1 Cons.IH [of w1] by simp
      next
        case (Some err)
        then show ?thesis using \<open>pvc_Requests c ResourceStorage = Some x\<close> False u s1 by simp
      qed
    qed
  qed
qed

lemma resizePVCs_tables:
  "statefulsets (snd (resizePVCs env cn an d w)) = statefulsets w"
proof (cases "storageRequestFromStatefulSet d")
  case None
  then show ?thesis by (simp add: resizePVCs_def)
next
  case (Some q)
  show ?thesis
  proof (cases "fault env (length (trace w))")
    case (Some m)
    then show ?thesis
      using \<open>storageRequestFromStatefulSet d = Some q\<close>
      by (simp add: resizePVCs_def listPVCsByPrefix_def List_PersistentVolumeClaim_def api_call_def)
  next
    case None
    then show ?thesis
      using \<open>storageRequestFromStatefulSet d = Some q\<close>
      by (simp add: resizePVCs_def listPVCsByPrefix_def List_PersistentVolumeClaim_def api_call_def
          resizePVCs_range_tables)
  qed
qed

lemma Delete_PersistentVolumeClaim_effect:
  "statefulsets (snd (Delete_PersistentVolumeClaim env pvc w)) = statefulsets w"
  "trace (snd (Delete_PersistentVolumeClaim env pvc w))
     = trace w @ [CDelete KPersistentVolumeClaim (pvc_Namespace pvc) (pvc_Name pvc)]"
  by (simp_all add: Delete_PersistentVolumeClaim_def api_call_def split: option.splits)

lemma deletePVCs_range_effect:
  "statefulsets (snd (deletePVCs_range env cs w)) = statefulsets w
   \<and> (\<exists>ts. trace (snd (deletePVCs_range env cs w)) = trace w @ ts
         \<and> (\<forall>c\<in>set ts. \<exists>ns n. c = CDelete KPersistentVolumeClaim ns n))"
proof (induction cs arbitrary: w)
  case Nil
  show ?case by simp
next
  case (Cons c cs)
  obtain e w1 where d: "Delete_PersistentVolumeClaim env c w = (e, w1)"
    by (cases "Delete_PersistentVolumeClaim env c w")
  have s1: "statefulsets w1 = statefulsets w"
    and t1: "trace w1 = trace w @ [CDelete KPersistentVolumeClaim (pvc_Namespace c) (pvc_Name c)]"
    using Delete_PersistentVolumeClaim_effect [of env c w] d by simp_all
  show ?case
  proof (cases e)
    case (Some err)
    then show ?thesis using d s1 t1 by simp
  next
    case None
    then have eq: "deletePVCs_range env (c # cs) w = deletePVCs_range env cs w1"
      using d by simp
    obtain ts where ts: "trace (snd (deletePVCs_range env cs w1)) = trace w1 @ ts"
        "\<forall>c\<in>set ts. \<exists>ns n. c = CDelete KPersistentVolumeClaim ns n"
      using Cons.IH [of w1, THEN conjunct2] by (elim exE conjE)
    have "trace (snd (deletePVCs_range env (c # cs) w))
        = trace w @ (CDelete KPersistentVolumeClaim (pvc_Namespace c) (pvc_Name c) # ts)"
      using eq ts t1 by simp
    moreover have "\<forall>x\<in>set (CDelete KPersistentVolumeClaim (pvc_Namespace c) (pvc_Name c) # ts).
        \<exists>ns n. x = CDelete KPersistentVolumeClaim ns n"
      using ts(2) by simp
    moreover have "statefulsets (snd (deletePVCs_range env (c # cs) w)) = statefulsets w"
      using eq Cons.IH [of w1] s1 by simp
    ultimately show ?thesis
      by (intro conjI exI [of _ "CDelete KPersistentVolumeClaim (pvc_Namespace c) (pvc_Name c) # ts"])
  qed
qed

lemma deletePVCsByPrefix_effect:
  "statefulsets (snd (deletePVCsByPrefix env cn an ns w)) = statefulsets w
   \<and> (\<exists>ts. trace (snd (deletePVCsByPrefix env cn an ns w))
              = trace w @ CList KPersistentVolumeClaim ns # ts
         \<and> (\<forall>c\<in>set ts. \<exists>ns' n. c = CDelete KPersistentVolumeClaim ns' n))"
proof (cases "fault env (length (trace w))")
  case (Some m)
  then show ?thesis
    by (simp add: deletePVCsByPrefix_def listPVCsByPrefix_def List_PersistentVolumeClaim_def
        api_call_def)
next
  case None
  let ?w1 = "w\<lparr>trace := trace w @ [CList KPersistentVolumeClaim ns]\<rparr>"
  let ?cs = "filter (\<lambda>pvc. HasPrefix (pvc_Name pvc) (claimPrefix cn an))
               (filter (\<lambda>p. pvc_Namespace p = ns) (pvcs ?w1))"
  have eq: "deletePVCsByPrefix env cn an ns w = deletePVCs_range env ?cs ?w1"
    using None
    by (simp add: deletePVCsByPrefix_def listPVCsByPrefix_def List_PersistentVolumeClaim_def
        api_call_def)
  have st: "statefulsets (snd (deletePVCs_range env ?cs ?w1)) = statefulsets ?w1"
    using deletePVCs_range_effect [of env ?cs ?w1] by (rule conjunct1)
  obtain ts where ts: "trace (snd (deletePVCs_range env ?cs ?w1)) = trace ?w1 @ ts"
      "\<forall>c\<in>set ts. \<exists>ns' n. c = CDelete KPersistentVolumeClaim ns' n"
    using deletePVCs_range_effect [of env ?cs ?w1, THEN conjunct2] by (elim exE conjE)
  show ?thesis
    unfolding eq using st ts by (intro conjI exI [of _ ts]) simp_all
qed

lemma Delete_StatefulSet_eq:
  "Delete_StatefulSet env s w =
     (case fault env (length (trace w)) of
        Some m \<Rightarrow> (Some (OtherError m),
                   w\<lparr>trace := trace w @ [CDelete KStatefulSet (sts_Namespace s) (sts_Name s)]\<rparr>)
      | None \<Rightarrow>
          (if statefulsets w (sts_Namespace s, sts_Name s) = None
           then (Some (NotFound (sts_Name s)),
                 w\<lparr>trace := trace w @ [CDelete KStatefulSet (sts_Namespace s) (sts_Name s)]\<rparr>)
           else (None, w\<lparr>trace := trace w @ [CDelete KStatefulSet (sts_Namespace s) (sts_Name s)],
                          statefulsets := (statefulsets w)((sts_Namespace s, sts_Name s) := None)\<rparr>)))"
  by (simp add: Delete_StatefulSet_def client_Delete_def api_call_def split: option.splits)

lemma recreateStatefulSetStorage_effect:
  "(\<exists>ts. trace (snd (recreateStatefulSetStorage env s cn an w))
            = trace w @ CDelete KStatefulSet (sts_Namespace s) (sts_Name s) # ts
       \<and> (\<forall>c\<in>set ts. c = CList KPersistentVolumeClaim (sts_Namespace s)
                        \<or> (\<exists>ns' n. c = CDelete KPersistentVolumeClaim ns' n)))
   \<and> (fault env (length (trace w)) = None
        \<and> statefulsets w (sts_Namespace s, sts_Name s) \<noteq> None \<longrightarrow>
        statefulsets (snd (recreateStatefulSetStorage env s cn an w))
          = (statefulsets w)((sts_Namespace s, sts_Name s) := None))"
proof -
  let ?d = "CDelete KStatefulSet (sts_Namespace s) (sts_Name s)"
  obtain e w1 where d: "Delete_StatefulSet env s w = (e, w1)"
    by (cases "Delete_StatefulSet env s w")
  have t1: "trace w1 = trace w @ [?d]"
    using d by (auto simp: Delete_StatefulSet_eq split: option.splits if_splits)
  show ?thesis
  proof (cases e)
    case (Some err)
    then have eq: "recreateStatefulSetStorage env s cn an w = (Some err, w1)"
      using d by (simp add: recreateStatefulSetStorage_def)
    have "fault env (length (trace w)) = None
        \<and> statefulsets w (sts_Namespace s, sts_Name s) \<noteq> None \<Longrightarrow> False"
      using d Some by (auto simp: Delete_StatefulSet_eq split: option.splits if_splits)
    then show ?thesis
      unfolding eq using t1 by (intro conjI impI exI [of _ "[]"]) simp_all
  next
    case None
    then have eq: "recreateStatefulSetStorage env s cn an w
        = deletePVCsByPrefix env cn an (sts_Namespace s) w1"
      using d by (simp add: recreateStatefulSetStorage_def)
    have s1: "statefulsets w1 = (statefulsets w)((sts_Namespace s, sts_Name s) := None)"
      using d None by (auto simp: Delete_StatefulSet_eq split: option.splits if_splits)
    have st: "statefulsets (snd (deletePVCsByPrefix env cn an (sts_Namespace s) w1))
          = statefulsets w1"
      using deletePVCsByPrefix_effect [of env cn an "sts_Namespace s" w1] by (rule conjunct1)
    obtain ts where ts: "trace (snd (deletePVCsByPrefix env cn an (sts_Namespace s) w1))
              = trace w1 @ CList KPersistentVolumeClaim (sts_Namespace s) # ts"
        "\<forall>c\<in>set ts. \<exists>ns' n. c = CDelete KPersistentVolumeClaim ns' n"
      using deletePVCsByPrefix_effect [of env cn an "sts_Namespace s" w1, THEN conjunct2]
      by (elim exE conjE)
    have tr: "trace (snd (recreateStatefulSetStorage env s cn an w))
        = trace w @ ?d # (CList KPersistentVolumeClaim (sts_Namespace s) # ts)"
      using eq ts(1) t1 by simp
    have al: "\<forall>c\<in>set (CList KPersistentVolumeClaim (sts_Namespace s) # ts).
        c = CList KPersistentVolumeClaim (sts_Namespace s)
        \<or> (\<exists>ns' n. c = CDelete KPersistentVolumeClaim ns' n)"
      using ts(2) by simp
    have fin: "statefulsets (snd (recreateStatefulSetStorage env s cn an w))
          = (statefulsets w)((sts_Namespace s, sts_Name s) := None)"
      using eq st s1 by simp
    show ?thesis
      by (intro conjI impI exI [of _ "CList KPersistentVolumeClaim (sts_Namespace s) # ts"])
         (rule tr, rule al, rule fin)
  qed
qed

lemmas storage_example_defs =
  example_world_recreate_def example_world_resize_def example_world_scaled_def example_world_def
  example_recreate_ms_def example_resize_ms_def withStorageSize_def
  example_hpa_ms_def example_ms_def example_env_def example_parse_def
  example_scaled_sts_def example_desired_sts_def example_recreate_desired_def
  example_resize_desired_def example_claim_def
  BuildAppStatefulSet_def MustParse_def volumeClaimTemplate_def ResourceStorage_def
  storageSizeChanged_def storageRequestFromStatefulSet_def storageUpdatePolicy_def
  StorageUpdatePolicyRecreate_def StorageUpdatePolicyResize_def Let_def

lemma example_recreate_facts:
  "statefulsets example_world_recreate (ms_Namespace example_recreate_ms, ms_Name example_recreate_ms)
     = Some example_scaled_sts"
  "sts_Namespace example_scaled_sts = ms_Namespace example_recreate_ms"
  "sts_Name example_scaled_sts = ms_Name example_recreate_ms"
  "fault example_env (length (trace example_world_recreate)) = None"
  "BuildAppStatefulSet example_env example_recreate_ms = Inr example_recreate_desired"
  "sts_Replicas (sts_Spec example_scaled_sts) = Some 5"
  "(5::int) \<noteq> spec_Replicas (ms_Spec example_recreate_ms)"
  "storageSizeChanged example_scaled_sts example_recreate_desired"
  "storageUpdatePolicy (spec_Storage (ms_Spec example_recreate_ms)) = StorageUpdatePolicyRecreate"
  "fault example_env (Suc (length (trace example_world_recreate))) = None"
  "ms_Namespace example_recreate_ms = ''default''" "ms_Name example_recreate_ms = ''demo''"
  by (simp_all add: storage_example_defs)

lemma example_recreate_trace:
  "trace (snd (ReconcileStatefulSet example_env example_recreate_ms example_world_recreate))
     = [CGet KStatefulSet ''default'' ''demo'', CDelete KStatefulSet ''default'' ''demo'',
        CList KPersistentVolumeClaim ''default'',
        CDelete KPersistentVolumeClaim ''default'' ''music-data-demo-0'']"
  by (simp add: ReconcileStatefulSet_def applyStatefulSet_def recreateStatefulSetStorage_def
      deletePVCsByPrefix_def listPVCsByPrefix_def HasPrefix_def claimPrefix_def samePVC_def
      client_defs storage_example_defs)

lemma example_resize_facts:
  "statefulsets example_world_resize (ms_Namespace example_resize_ms, ms_Name example_resize_ms)
     = Some example_scaled_sts"
  "sts_Namespace example_scaled_sts = ms_Namespace example_resize_ms"
  "sts_Name example_scaled_sts = ms_Name example_resize_ms"
  "fault example_env (length (trace example_world_resize)) = None"
  "BuildAppStatefulSet example_env example_resize_ms = Inr example_resize_desired"
  "sts_Replicas (sts_Spec example_scaled_sts) = Some 5"
  "(5::int) \<noteq> spec_Replicas (ms_Spec example_resize_ms)"
  "storageSizeChanged example_scaled_sts example_resize_desired"
  "storageUpdatePolicy (spec_Storage (ms_Spec example_resize_ms)) \<noteq> StorageUpdatePolicyRecreate"
  "ms_Namespace example_resize_ms = ''default''" "ms_Name example_resize_ms = ''demo''"
  "trace example_world_resize = []"
  "statefulsets example_world_resize = [(''default'', ''demo'') \<mapsto> example_scaled_sts]"
  by (simp_all add: storage_example_defs)

lemma example_resize_claims:
  "resizePVCs example_env ''music-data'' ''demo'' example_resize_desired
     (example_world_resize\<lparr>trace := [CGet KStatefulSet ''default'' ''demo'']\<rparr>)
   = (None, example_world_resize
        \<lparr>trace := [CGet KStatefulSet ''default'' ''demo'', CList KPersistentVolumeClaim ''default'',
                   CUpdate (OPersistentVolumeClaim (example_claim 20))],
         pvcs := [example_claim 20]\<rparr>)"
  by (simp add: resizePVCs_def listPVCsByPrefix_def HasPrefix_def claimPrefix_def samePVC_def
      client_defs storage_example_defs)

section \<open>C3: the replica count of an autoscaled workload\<close>

text \<open>
  C3, as stated, fails: the example service has an autoscaling spec, its autoscaler
  descriptor exists, and the live StatefulSet is the desired one scaled to five replicas;
  \<open>statefulSetNeedsUpdate\<close> is true for it and \<open>ReconcileStatefulSet\<close> writes the
  StatefulSet back with the spec's three replicas.
\<close>

theorem replicas_forced_back_counterexample:
  "spec_Autoscaling (ms_Spec example_hpa_ms) = Some example_autoscaling
   \<and> BuildAutoscaler example_hpa_ms = Inr example_hpa
   \<and> autoscalers example_world_scaled (''default'', ''demo-autoscaler'') = Some example_hpa
   \<and> BuildAppStatefulSet example_env example_hpa_ms = Inr example_desired_sts
   \<and> statefulsets example_world_scaled (''default'', ''demo'')
        = Some (example_desired_sts
             \<lparr>sts_Spec := (sts_Spec example_desired_sts)\<lparr>sts_Replicas := Some 5\<rparr>,
              sts_ReadyReplicas := 5\<rparr>)
   \<and> sts_Replicas (sts_Spec example_desired_sts) = Some 3
   \<and> statefulSetNeedsUpdate example_scaled_sts example_desired_sts = Inr True
   \<and> ReconcileAutoscaler example_env example_hpa_ms example_world_scaled
        = (Inr None, example_world_scaled
             \<lparr>trace := [CGet KHorizontalPodAutoscaler ''default'' ''demo-autoscaler'']\<rparr>)
   \<and> trace (snd (ReconcileStatefulSet example_env example_hpa_ms example_world_scaled))
        = [CGet KStatefulSet ''default'' ''demo'',
           CUpdate (OStatefulSet (example_desired_sts\<lparr>sts_ReadyReplicas := 5\<rparr>))]
   \<and> statefulsets (snd (ReconcileStatefulSet example_env example_hpa_ms example_world_scaled))
        (''default'', ''demo'') = Some (example_desired_sts\<lparr>sts_ReadyReplicas := 5\<rparr>)"
proof -
  have a: "spec_Autoscaling (ms_Spec example_hpa_ms) = Some example_autoscaling"
    by (simp add: example_hpa_ms_def)
  have h: "autoscalers example_world_scaled (''default'', ''demo-autoscaler'') = Some example_hpa"
    by (simp add: example_world_scaled_def)
  have s: "statefulsets example_world_scaled (''default'', ''demo'')
        = Some (example_desired_sts
             \<lparr>sts_Spec := (sts_Spec example_desired_sts)\<lparr>sts_Replicas := Some 5\<rparr>,
              sts_ReadyReplicas := 5\<rparr>)"
    by (simp add: example_world_scaled_def example_scaled_sts_def)
  have d: "sts_Replicas (sts_Spec example_desired_sts) = Some 3"
    using BuildAppStatefulSet_fields [OF example_desired_built]
    by (simp add: example_hpa_ms_def example_ms_def)
  have n: "statefulSetNeedsUpdate example_scaled_sts example_desired_sts = Inr True"
    using d by (simp add: statefulSetNeedsUpdate_def example_scaled_sts_def)
  have au: "ReconcileAutoscaler example_env example_hpa_ms example_world_scaled
        = (Inr None, example_world_scaled
             \<lparr>trace := [CGet KHorizontalPodAutoscaler ''default'' ''demo-autoscaler'']\<rparr>)"
    using example_hpa_built
    by (simp add: ReconcileAutoscaler_def a Get_HorizontalPodAutoscaler_def client_Get_def
        api_call_def example_world_scaled_def example_world_def example_env_def
        example_hpa_ms_def example_ms_def autoscalerNeedsUpdate_def example_hpa_def
        BuildAutoscaler_def autoscalerMetrics_def buildResourceMetric_def example_autoscaling_def
        Let_def)
  have run: "ReconcileStatefulSet example_env example_hpa_ms example_world_scaled
      = returning (Update_StatefulSet example_env (example_desired_sts\<lparr>sts_ReadyReplicas := 5\<rparr>)
          (example_world_scaled\<lparr>trace := [CGet KStatefulSet ''default'' ''demo'']\<rparr>))"
    using example_scaled_facts n example_desired_built
    by (simp add: ReconcileStatefulSet_def Get_StatefulSet_eq applyStatefulSet_def Let_def)
  have t: "trace (snd (ReconcileStatefulSet example_env example_hpa_ms example_world_scaled))
        = [CGet KStatefulSet ''default'' ''demo'',
           CUpdate (OStatefulSet (example_desired_sts\<lparr>sts_ReadyReplicas := 5\<rparr>))]"
    and st: "statefulsets (snd (ReconcileStatefulSet example_env example_hpa_ms example_world_scaled))
        (''default'', ''demo'') = Some (example_desired_sts\<lparr>sts_ReadyReplicas := 5\<rparr>)"
    unfolding run returning_def Update_StatefulSet_eq
    using example_scaled_facts BuildAppStatefulSet_fields [OF example_desired_built]
    by simp_all
  show ?thesis
    using a example_hpa_built h example_desired_built s d n au t st by simp
qed

text \<open>
  C3, amended. Whether or not an autoscaler descriptor exists for the workload, the replica
  count is part of the update diff. For every pass of \<open>ReconcileStatefulSet\<close> that reads
  the live application StatefulSet (stored under its own name) without a failure of the
  API and builds the desired one: when the live replica count differs from the spec's
  static count, \<open>statefulSetNeedsUpdate\<close> is true, the replica count of the desired spec
  is the spec's static count, and
  \<^item> when the storage size is unchanged, the pass calls Update of the StatefulSet with the
    desired spec and, when that call does not fail, returns no error and the StatefulSet
    is stored with the desired spec;
  \<^item> when the storage size changed and the policy is not Recreate, the pass does the same
    after the resize of the claims, unless the resize returns an error: then the pass
    returns that error and the StatefulSet is not updated;
  \<^item> when the storage size changed and the policy is Recreate, the pass does not update
    the StatefulSet: it deletes it, then lists and deletes its claims.
\<close>

theorem ReconcileStatefulSet_writes_spec_replicas:
  assumes live: "statefulsets w (ms_Namespace ms, ms_Name ms) = Some sts"
    and key: "sts_Namespace sts = ms_Namespace ms" "sts_Name sts = ms_Name ms"
    and get: "fault env (length (trace w)) = None"
    and build: "BuildAppStatefulSet env ms = Inr desired"
    and scaled: "sts_Replicas (sts_Spec sts) = Some r" "r \<noteq> spec_Replicas (ms_Spec ms)"
  shows "statefulSetNeedsUpdate sts desired = Inr True
     \<and> sts_Replicas (sts_Spec desired) = Some (spec_Replicas (ms_Spec ms))
     \<and> (\<not> storageSizeChanged sts desired \<longrightarrow>
          trace (snd (ReconcileStatefulSet env ms w))
            = trace w @ [CGet KStatefulSet (ms_Namespace ms) (ms_Name ms),
                         CUpdate (OStatefulSet (sts\<lparr>sts_Spec := sts_Spec desired\<rparr>))]
          \<and> (fault env (Suc (length (trace w))) = None \<longrightarrow>
                fst (ReconcileStatefulSet env ms w) = Inr None
                \<and> statefulsets (snd (ReconcileStatefulSet env ms w))
                    = (statefulsets w)((ms_Namespace ms, ms_Name ms) \<mapsto>
                         sts\<lparr>sts_Spec := sts_Spec desired\<rparr>)))
     \<and> (storageSizeChanged sts desired
          \<and> storageUpdatePolicy (spec_Storage (ms_Spec ms)) \<noteq> StorageUpdatePolicyRecreate \<longrightarrow>
          (\<forall>err w'. resizePVCs env ''music-data'' (ms_Name ms) desired
                       (w\<lparr>trace := trace w @ [CGet KStatefulSet (ms_Namespace ms) (ms_Name ms)]\<rparr>)
                     = (Some err, w') \<longrightarrow>
              ReconcileStatefulSet env ms w = (Inr (Some err), w'))
          \<and> (\<forall>w'. resizePVCs env ''music-data'' (ms_Name ms) desired
                     (w\<lparr>trace := trace w @ [CGet KStatefulSet (ms_Namespace ms) (ms_Name ms)]\<rparr>)
                   = (None, w') \<longrightarrow>
              trace (snd (ReconcileStatefulSet env ms w))
                = trace w' @ [CUpdate (OStatefulSet (sts\<lparr>sts_Spec := sts_Spec desired\<rparr>))]
              \<and> (fault env (length (trace w')) = None \<longrightarrow>
                    fst (ReconcileStatefulSet env ms w) = Inr None
                    \<and> statefulsets (snd (ReconcileStatefulSet env ms w))
                        = (statefulsets w)((ms_Namespace ms, ms_Name ms) \<mapsto>
                             sts\<lparr>sts_Spec := sts_Spec desired\<rparr>))))
     \<and> (storageSizeChanged sts desired
          \<and> storageUpdatePolicy (spec_Storage (ms_Spec ms)) = StorageUpdatePolicyRecreate \<longrightarrow>
          (\<exists>ts. trace (snd (ReconcileStatefulSet env ms w))
                  = trace w @ [CGet KStatefulSet (ms_Namespace ms) (ms_Name ms),
                               CDelete KStatefulSet (ms_Namespace ms) (ms_Name ms)] @ ts
              \<and> (\<forall>c\<in>set ts. c = CList KPersistentVolumeClaim (ms_Namespace ms)
                               \<or> (\<exists>ns' n. c = CDelete KPersistentVolumeClaim ns' n)))
          \<and> (fault env (Suc (length (trace w))) = None \<longrightarrow>
                statefulsets (snd (ReconcileStatefulSet env ms w))
                  = (statefulsets w)((ms_Namespace ms, ms_Name ms) := None)))"
proof -
  note f = BuildAppStatefulSet_fields [OF build]
  let ?R = "ReconcileStatefulSet env ms w"
  let ?wG = "w\<lparr>trace := trace w @ [CGet KStatefulSet (ms_Namespace ms) (ms_Name ms)]\<rparr>"
  let ?new = "sts\<lparr>sts_Spec := sts_Spec desired\<rparr>"
  have n: "statefulSetNeedsUpdate sts desired = Inr True"
    using scaled f(1) by (simp add: statefulSetNeedsUpdate_replicas)
  have app: "?R = applyStatefulSet env (spec_Storage (ms_Spec ms)) ''music-data'' (ms_Name ms)
                    sts desired ?wG"
    using live get build by (simp add: ReconcileStatefulSet_def Get_StatefulSet_eq)
  have same: "\<not> storageSizeChanged sts desired \<Longrightarrow>
      ?R = returning (Update_StatefulSet env ?new ?wG)"
    unfolding app using n by (simp add: applyStatefulSet_def Let_def)
  have p1: "\<not> storageSizeChanged sts desired \<longrightarrow>
          trace (snd ?R) = trace w @ [CGet KStatefulSet (ms_Namespace ms) (ms_Name ms),
                         CUpdate (OStatefulSet ?new)]
          \<and> (fault env (Suc (length (trace w))) = None \<longrightarrow>
                fst ?R = Inr None
                \<and> statefulsets (snd ?R) = (statefulsets w)((ms_Namespace ms, ms_Name ms) \<mapsto> ?new))"
    using live key
    by (auto simp: same returning_def Update_StatefulSet_eq split: option.splits)
  have p2: "storageSizeChanged sts desired
          \<and> storageUpdatePolicy (spec_Storage (ms_Spec ms)) \<noteq> StorageUpdatePolicyRecreate \<longrightarrow>
          (\<forall>err w'. resizePVCs env ''music-data'' (ms_Name ms) desired ?wG = (Some err, w') \<longrightarrow>
              ?R = (Inr (Some err), w'))
          \<and> (\<forall>w'. resizePVCs env ''music-data'' (ms_Name ms) desired ?wG = (None, w') \<longrightarrow>
              trace (snd ?R) = trace w' @ [CUpdate (OStatefulSet ?new)]
              \<and> (fault env (length (trace w')) = None \<longrightarrow>
                    fst ?R = Inr None
                    \<and> statefulsets (snd ?R)
                        = (statefulsets w)((ms_Namespace ms, ms_Name ms) \<mapsto> ?new)))"
  proof (intro impI conjI allI)
    fix err w'
    assume c: "storageSizeChanged sts desired
          \<and> storageUpdatePolicy (spec_Storage (ms_Spec ms)) \<noteq> StorageUpdatePolicyRecreate"
      and r: "resizePVCs env ''music-data'' (ms_Name ms) desired ?wG = (Some err, w')"
    show "?R = (Inr (Some err), w')"
      unfolding app using c r by (simp add: applyStatefulSet_def Let_def)
  next
    fix w'
    assume c: "storageSizeChanged sts desired
          \<and> storageUpdatePolicy (spec_Storage (ms_Spec ms)) \<noteq> StorageUpdatePolicyRecreate"
      and r: "resizePVCs env ''music-data'' (ms_Name ms) desired ?wG = (None, w')"
    have R: "?R = returning (Update_StatefulSet env ?new w')"
      unfolding app using c r n by (simp add: applyStatefulSet_def Let_def)
    have st: "statefulsets w' = statefulsets w"
      using resizePVCs_tables [of env "''music-data''" "ms_Name ms" desired ?wG] r by simp
    show "trace (snd ?R) = trace w' @ [CUpdate (OStatefulSet ?new)]"
      by (simp add: R returning_def Update_StatefulSet_eq split: option.splits)
    assume g: "fault env (length (trace w')) = None"
    show "fst ?R = Inr None"
      using g st live key by (simp add: R returning_def Update_StatefulSet_eq)
    show "statefulsets (snd ?R) = (statefulsets w)((ms_Namespace ms, ms_Name ms) \<mapsto> ?new)"
      using g st live key by (simp add: R returning_def Update_StatefulSet_eq)
  qed
  have p3: "storageSizeChanged sts desired
          \<and> storageUpdatePolicy (spec_Storage (ms_Spec ms)) = StorageUpdatePolicyRecreate \<longrightarrow>
          (\<exists>ts. trace (snd ?R)
                  = trace w @ [CGet KStatefulSet (ms_Namespace ms) (ms_Name ms),
                               CDelete KStatefulSet (ms_Namespace ms) (ms_Name ms)] @ ts
              \<and> (\<forall>c\<in>set ts. c = CList KPersistentVolumeClaim (ms_Namespace ms)
                               \<or> (\<exists>ns' n. c = CDelete KPersistentVolumeClaim ns' n)))
          \<and> (fault env (Suc (length (trace w))) = None \<longrightarrow>
                statefulsets (snd ?R) = (statefulsets w)((ms_Namespace ms, ms_Name ms) := None))"
  proof (intro impI)
    assume c: "storageSizeChanged sts desired
          \<and> storageUpdatePolicy (spec_Storage (ms_Spec ms)) = StorageUpdatePolicyRecreate"
    have R: "snd ?R = snd (recreateStatefulSetStorage env sts ''music-data'' (ms_Name ms) ?wG)"
      unfolding app using c by (simp add: applyStatefulSet_def Let_def returning_def)
    note e = recreateStatefulSetStorage_effect [of env sts "''music-data''" "ms_Name ms" ?wG]
    obtain ts where ts: "trace (snd (recreateStatefulSetStorage env sts ''music-data'' (ms_Name ms) ?wG))
            = trace ?wG @ CDelete KStatefulSet (sts_Namespace sts) (sts_Name sts) # ts"
        "\<forall>c\<in>set ts. c = CList KPersistentVolumeClaim (sts_Namespace sts)
                        \<or> (\<exists>ns' n. c = CDelete KPersistentVolumeClaim ns' n)"
      using e [THEN conjunct1] by (elim exE conjE)
    have a: "trace (snd ?R)
                  = trace w @ [CGet KStatefulSet (ms_Namespace ms) (ms_Name ms),
                               CDelete KStatefulSet (ms_Namespace ms) (ms_Name ms)] @ ts"
      using R ts(1) key by simp
    have b: "\<forall>c\<in>set ts. c = CList KPersistentVolumeClaim (ms_Namespace ms)
                               \<or> (\<exists>ns' n. c = CDelete KPersistentVolumeClaim ns' n)"
      using ts(2) key by simp
    have d: "fault env (Suc (length (trace w))) = None \<longrightarrow>
                statefulsets (snd ?R) = (statefulsets w)((ms_Namespace ms, ms_Name ms) := None)"
      using e [THEN conjunct2] R live key by simp
    show "(\<exists>ts. trace (snd ?R)
                  = trace w @ [CGet KStatefulSet (ms_Namespace ms) (ms_Name ms),
                               CDelete KStatefulSet (ms_Namespace ms) (ms_Name ms)] @ ts
              \<and> (\<forall>c\<in>set ts. c = CList KPersistentVolumeClaim (ms_Namespace ms)
                               \<or> (\<exists>ns' n. c = CDelete KPersistentVolumeClaim ns' n)))
          \<and> (fault env (Suc (length (trace w))) = None \<longrightarrow>
                statefulsets (snd ?R) = (statefulsets w)((ms_Namespace ms, ms_Name ms) := None))"
      by (intro conjI exI [of _ ts]) (rule a, rule b, rule d)
  qed
  show ?thesis
    by (intro conjI) (rule n, rule f(1), rule p1, rule p2, rule p3)
qed

theorem ReconcileStatefulSet_writes_spec_replicas_witness:
  "statefulsets example_world_scaled (''default'', ''demo'') = Some example_scaled_sts
   \<and> BuildAppStatefulSet example_env example_hpa_ms = Inr example_desired_sts
   \<and> sts_Replicas (sts_Spec example_scaled_sts) = Some 5
   \<and> \<not> storageSizeChanged example_scaled_sts example_desired_sts
   \<and> statefulSetNeedsUpdate example_scaled_sts example_desired_sts = Inr True
   \<and> sts_Replicas (sts_Spec example_desired_sts) = Some 3
   \<and> fst (ReconcileStatefulSet example_env example_hpa_ms example_world_scaled) = Inr None
   \<and> trace (snd (ReconcileStatefulSet example_env example_hpa_ms example_world_scaled))
        = [CGet KStatefulSet ''default'' ''demo'',
           CUpdate (OStatefulSet (example_scaled_sts\<lparr>sts_Spec := sts_Spec example_desired_sts\<rparr>))]
   \<and> statefulsets example_world_resize (''default'', ''demo'') = Some example_scaled_sts
   \<and> BuildAppStatefulSet example_env example_resize_ms = Inr example_resize_desired
   \<and> storageSizeChanged example_scaled_sts example_resize_desired
   \<and> storageUpdatePolicy (spec_Storage (ms_Spec example_resize_ms)) \<noteq> StorageUpdatePolicyRecreate
   \<and> fst (ReconcileStatefulSet example_env example_resize_ms example_world_resize) = Inr None
   \<and> trace (snd (ReconcileStatefulSet example_env example_resize_ms example_world_resize))
        = [CGet KStatefulSet ''default'' ''demo'', CList KPersistentVolumeClaim ''default'',
           CUpdate (OPersistentVolumeClaim (example_claim 20)),
           CUpdate (OStatefulSet (example_scaled_sts\<lparr>sts_Spec := sts_Spec example_resize_desired\<rparr>))]
   \<and> sts_Replicas (sts_Spec example_resize_desired) = Some 3
   \<and> statefulsets example_world_recreate (''default'', ''demo'') = Some example_scaled_sts
   \<and> BuildAppStatefulSet example_env example_recreate_ms = Inr example_recreate_desired
   \<and> storageSizeChanged example_scaled_sts example_recreate_desired
   \<and> storageUpdatePolicy (spec_Storage (ms_Spec example_recreate_ms)) = StorageUpdatePolicyRecreate
   \<and> statefulSetNeedsUpdate example_scaled_sts example_recreate_desired = Inr True
   \<and> trace (snd (ReconcileStatefulSet example_env example_recreate_ms example_world_recreate))
        = [CGet KStatefulSet ''default'' ''demo'', CDelete KStatefulSet ''default'' ''demo'',
           CList KPersistentVolumeClaim ''default'',
           CDelete KPersistentVolumeClaim ''default'' ''music-data-demo-0'']
   \<and> statefulsets (snd (ReconcileStatefulSet example_env example_recreate_ms example_world_recreate))
        (''default'', ''demo'') = None"
proof -
  note A = ReconcileStatefulSet_writes_spec_replicas
      [OF example_scaled_facts(1) example_scaled_facts(2) example_scaled_facts(3)
          example_scaled_facts(4) example_desired_built example_scaled_facts(6)
          example_scaled_facts(7)]
  note B = ReconcileStatefulSet_writes_spec_replicas
      [OF example_resize_facts(1) example_resize_facts(2) example_resize_facts(3)
          example_resize_facts(4) example_resize_facts(5) example_resize_facts(6)
          example_resize_facts(7)]
  note C = ReconcileStatefulSet_writes_spec_replicas
      [OF example_recreate_facts(1) example_recreate_facts(2) example_recreate_facts(3)
          example_recreate_facts(4) example_recreate_facts(5) example_recreate_facts(6)
          example_recreate_facts(7)]
  have a: "statefulSetNeedsUpdate example_scaled_sts example_desired_sts = Inr True"
      "sts_Replicas (sts_Spec example_desired_sts) = Some 3"
      "fst (ReconcileStatefulSet example_env example_hpa_ms example_world_scaled) = Inr None"
      "trace (snd (ReconcileStatefulSet example_env example_hpa_ms example_world_scaled))
        = [CGet KStatefulSet ''default'' ''demo'',
           CUpdate (OStatefulSet (example_scaled_sts\<lparr>sts_Spec := sts_Spec example_desired_sts\<rparr>))]"
    using A example_scaled_facts by (simp_all add: example_hpa_ms_def example_ms_def)
  have b0: "sts_Replicas (sts_Spec example_resize_desired) = Some 3"
    using B by (simp add: storage_example_defs)
  note B2 = B [THEN conjunct2, THEN conjunct2, THEN conjunct2, THEN conjunct1, rule_format,
      THEN conjunct2, rule_format,
      of "example_world_resize
        \<lparr>trace := [CGet KStatefulSet ''default'' ''demo'', CList KPersistentVolumeClaim ''default'',
                   CUpdate (OPersistentVolumeClaim (example_claim 20))],
         pvcs := [example_claim 20]\<rparr>"]
  have b: "fst (ReconcileStatefulSet example_env example_resize_ms example_world_resize) = Inr None"
      "trace (snd (ReconcileStatefulSet example_env example_resize_ms example_world_resize))
        = [CGet KStatefulSet ''default'' ''demo'', CList KPersistentVolumeClaim ''default'',
           CUpdate (OPersistentVolumeClaim (example_claim 20)),
           CUpdate (OStatefulSet (example_scaled_sts\<lparr>sts_Spec := sts_Spec example_resize_desired\<rparr>))]"
    using B2 example_resize_claims example_resize_facts
    by (simp_all add: example_env_def)
  have c: "statefulSetNeedsUpdate example_scaled_sts example_recreate_desired = Inr True"
      "statefulsets (snd (ReconcileStatefulSet example_env example_recreate_ms example_world_recreate))
        (''default'', ''demo'') = None"
    using C example_recreate_facts by simp_all
  show ?thesis
    using a b b0 c example_scaled_facts example_desired_built example_resize_facts
      example_recreate_facts example_recreate_trace
    by simp
qed

section \<open>Evaluation of whole passes on the examples\<close>

lemmas eval_defs =
  Reconcile_def reconcileResources_def syncStatus_def runSteps.simps failWith_def
  UpdateFromAppStatefulSet_def availability_def updateStorageWarnings_def
  status_listPVCsByPrefix_def UpdateReconciled_def UpdateDatabase_def
  storageRequestFromStatefulSet_def
  setStatusCondition_def newCondition_def setCondition_def IsZero_def findCondition_def
  volumeClaimTemplate_def ResourceStorage_def claimPrefix_def HasPrefix_def ClaimBound_def
  ContainsFinalizer_def musicServiceFinalizerName_def databaseEnabled_def databaseHAEnabled_def
  appSteps_def databaseSteps_def
  ReconcileService_def ReconcileStatefulSet_def ReconcileAutoscaler_def
  applyStatefulSet_def resizePVCs_def listPVCsByPrefix_def
  storageSizeChanged_def storageUpdatePolicy_def
  StorageUpdatePolicyResize_def StorageUpdatePolicyRecreate_def statefulSetNeedsUpdate_def
  containerNeedsUpdate_def samePVC_def
  deleteAutoscalerIfExists_def client_defs example_env_def example_world_def
  example_ms_def example_status_def initStatus_def BuildAppService_def
  BuildAppStatefulSet_def MustParse_def example_parse_def Let_def
  example_world_claim_def example_claim_def example_created_sts_def withStorageSize_def

lemma shrink_input_facts:
  "storageUpdatePolicy (spec_Storage (ms_Spec (withStorageSize ''15Gi'' example_ms)))
     = StorageUpdatePolicyResize"
  "ParseQuantity example_env (Size (spec_Storage (ms_Spec (withStorageSize ''15Gi'' example_ms))))
     = Some 15"
  "pvc_Requests (example_claim 20) ResourceStorage = Some 20"
  "storageRequestFromStatefulSet example_created_sts = Some 10"
  by (simp_all add: eval_defs)

lemma grow_resizes_claim:
  "pvcs (snd (ReconcileStatefulSet example_env (withStorageSize ''20Gi'' example_ms)
                (example_world_claim ''20Gi'' 10))) = [example_claim 20]"
  by (simp add: eval_defs)

lemma grow_keeps_template:
  "statefulsets (snd (ReconcileStatefulSet example_env (withStorageSize ''20Gi'' example_ms)
                        (example_world_claim ''20Gi'' 10))) (''default'', ''demo'')
     = Some example_created_sts"
  by (simp add: eval_defs)

lemma shrink_reconcile_calls:
  "ReconcileStatefulSet example_env (withStorageSize ''15Gi'' example_ms)
     (example_world_claim ''15Gi'' 20)
   = (Inr None, (example_world_claim ''15Gi'' 20)
        \<lparr>trace := [CGet KStatefulSet ''default'' ''demo'',
                   CList KPersistentVolumeClaim ''default'']\<rparr>)"
  by (simp add: eval_defs)

lemma shrink_pass_result:
  "fst (Reconcile ReconcileGalera ReconcileGaleraServices example_env ''default'' ''demo''
          (example_world_claim ''15Gi'' 20)) = Inr (\<lparr>RequeueAfter = 30\<rparr>, None)"
  by (simp add: eval_defs)

lemma shrink_pass_claims:
  "pvcs (snd (Reconcile ReconcileGalera ReconcileGaleraServices example_env ''default'' ''demo''
                (example_world_claim ''15Gi'' 20))) = [example_claim 20]"
  by (simp add: eval_defs)

lemma shrink_pass_condition:
  "findCondition (Conditions (ms_Status (the (musicservices
      (snd (Reconcile ReconcileGalera ReconcileGaleraServices example_env ''default'' ''demo''
              (example_world_claim ''15Gi'' 20))) (''default'', ''demo''))))) ''StorageWarningApp''
     = Some \<lparr>cond_Type = ''StorageWarningApp'', cond_Status = ConditionTrue,
             cond_ObservedGeneration = 1, cond_LastTransitionTime = Some 100,
             cond_Reason = ''StorageHealthy'',
             cond_Message = ''Storage requests are within expected bounds''\<rparr>"
  by (simp add: eval_defs)

lemma example_replica_hpa_built:
  "BuildDatabaseReplicaAutoscaler example_ha_ms = Inr example_replica_hpa"
  by (simp add: example_replica_hpa_def BuildDatabaseReplicaAutoscaler_def example_ha_ms_def
      example_ms_def example_db_def Let_def)

lemma example_ha_enabled: "databaseEnabled example_ha_ms" "databaseHAEnabled example_ha_ms"
  "map_option db_Replicas (spec_Database (ms_Spec example_ha_ms)) = Some 2"
  by (simp_all add: databaseEnabled_def databaseHAEnabled_def example_ha_ms_def example_ms_def
      example_db_def)

lemma example_ha_steps:
  "map fst (databaseSteps ReconcileGalera ReconcileGaleraServices example_ha_ms)
     = [''DBGaleraFailed'', ''DBGaleraServicesFailed'', ''DBAutoscalerFailed'']"
  "snd (last (databaseSteps ReconcileGalera ReconcileGaleraServices example_ha_ms))
     = db_ReconcileAutoscaler"
  using example_ha_enabled by (simp_all add: databaseSteps_def)

lemma example_ha_autoscaler_step:
  "db_ReconcileAutoscaler example_env example_ha_ms example_world_ha
     = (Inr None, example_world_ha
         \<lparr>autoscalers := [(''default'', ''demo-db-replica-autoscaler'') \<mapsto> example_replica_hpa],
          trace := [CGet KHorizontalPodAutoscaler ''default'' ''demo-db-replica-autoscaler'',
                    CCreate (OHorizontalPodAutoscaler example_replica_hpa)]\<rparr>)"
  unfolding db_ReconcileAutoscaler_def example_replica_hpa_built
  by (simp add: client_defs example_world_ha_def example_world_def example_env_def
      example_ha_ms_def example_ms_def example_db_def example_autoscaling_def
      example_replica_hpa_def BuildDatabaseReplicaAutoscaler_def Let_def)

lemma example_replica_hpa_target:
  "hpa_Name example_replica_hpa = ''demo-db-replica-autoscaler''"
  "ScaleTargetRef (hpa_Spec example_replica_hpa)
     = \<lparr>ref_APIVersion = ''apps/v1'', ref_Kind = ''StatefulSet'', ref_Name = ''demo-db-replica''\<rparr>"
  by (simp_all add: example_replica_hpa_def BuildDatabaseReplicaAutoscaler_def example_ha_ms_def
      example_ms_def example_db_def Let_def)

lemmas ha_defs = eval_defs example_ha_enabled
  ReconcileGalera_def ReconcileGaleraServices_def db_ReconcileAutoscaler_def
  BuildDatabaseGaleraStatefulSet_def BuildDatabaseGaleraService_def
  BuildDatabaseGaleraPrimaryService_def buildDatabaseConfig_def BuildDatabaseReplicaAutoscaler_def
  initDatabaseStatus_def databaseStatus_def setDatabaseStatus_def emptyDatabaseStatus_def
  masterObserved_def replicaObserved_def replicaNotFound_def
  example_world_ha_def example_ha_ms_def example_db_def example_autoscaling_def
  example_replica_hpa_def getLabels_def NewControllerRef_def

lemma ha_pass_result:
  "fst (Reconcile ReconcileGalera ReconcileGaleraServices example_env
          ''default'' ''demo'' example_world_ha) = Inr (\<lparr>RequeueAfter = 5\<rparr>, None)"
  by (simp add: ha_defs)

lemma ha_pass_autoscaler:
  "autoscalers (snd (Reconcile ReconcileGalera ReconcileGaleraServices example_env
      ''default'' ''demo'' example_world_ha)) (''default'', ''demo-db-replica-autoscaler'')
     = Some example_replica_hpa"
  by (simp add: ha_defs)

lemma ha_pass_no_replica_set:
  "statefulsets (snd (Reconcile ReconcileGalera ReconcileGaleraServices example_env
      ''default'' ''demo'' example_world_ha)) (''default'', ''demo-db-replica'') = None"
  by (simp add: ha_defs)

section \<open>C2: a declared size below the size of the claims\<close>

text \<open>
  C2, on the example. The application's policy is unset, hence Resize. A pass with a
  declared size of twenty grows the claim from ten to twenty and leaves the template of
  the StatefulSet at ten. In the world so reached, a pass with a declared size of fifteen,
  strictly smaller than the twenty the claim requests, mutates no claim (the storage
  reconciler makes one Get and one List), returns without error, and the status pass
  stores the condition \<open>StorageWarningApp\<close> as true with reason \<open>StorageHealthy\<close>, not
  the warning \<open>ShrinkNotSupported\<close>: \<open>updateStorageWarnings\<close> compares the declared size
  with the template of the StatefulSet, ten, not with the request of the claims.
\<close>

theorem shrink_below_claims_reported_healthy:
  "storageUpdatePolicy (spec_Storage (ms_Spec (withStorageSize ''15Gi'' example_ms)))
     = StorageUpdatePolicyResize
   \<and> pvcs (snd (ReconcileStatefulSet example_env (withStorageSize ''20Gi'' example_ms)
                   (example_world_claim ''20Gi'' 10))) = [example_claim 20]
   \<and> statefulsets (snd (ReconcileStatefulSet example_env (withStorageSize ''20Gi'' example_ms)
                          (example_world_claim ''20Gi'' 10))) (''default'', ''demo'')
       = Some example_created_sts
   \<and> ParseQuantity example_env (Size (spec_Storage (ms_Spec (withStorageSize ''15Gi'' example_ms))))
       = Some 15
   \<and> pvc_Requests (example_claim 20) ResourceStorage = Some 20
   \<and> storageRequestFromStatefulSet example_created_sts = Some 10
   \<and> ReconcileStatefulSet example_env (withStorageSize ''15Gi'' example_ms)
        (example_world_claim ''15Gi'' 20)
       = (Inr None, (example_world_claim ''15Gi'' 20)
            \<lparr>trace := [CGet KStatefulSet ''default'' ''demo'',
                       CList KPersistentVolumeClaim ''default'']\<rparr>)
   \<and> fst (Reconcile ReconcileGalera ReconcileGaleraServices example_env ''default'' ''demo''
            (example_world_claim ''15Gi'' 20)) = Inr (\<lparr>RequeueAfter = 30\<rparr>, None)
   \<and> pvcs (snd (Reconcile ReconcileGalera ReconcileGaleraServices example_env ''default'' ''demo''
                  (example_world_claim ''15Gi'' 20))) = [example_claim 20]
   \<and> findCondition (Conditions (ms_Status (the (musicservices
        (snd (Reconcile ReconcileGalera ReconcileGaleraServices example_env ''default'' ''demo''
                (example_world_claim ''15Gi'' 20))) (''default'', ''demo''))))) ''StorageWarningApp''
       = Some \<lparr>cond_Type = ''StorageWarningApp'', cond_Status = ConditionTrue,
               cond_ObservedGeneration = 1, cond_LastTransitionTime = Some 100,
               cond_Reason = ''StorageHealthy'',
               cond_Message = ''Storage requests are within expected bounds''\<rparr>"
  by (intro conjI shrink_input_facts grow_resizes_claim grow_keeps_template
      shrink_reconcile_calls shrink_pass_result shrink_pass_claims shrink_pass_condition)

section \<open>C1: the database autoscaler in a high-availability pass\<close>

text \<open>
  C1, on the example. The service has its database enabled with high availability, two
  replicas and a database autoscaling spec. The steps of the database in that pass are
  the two of the high-availability branch and then \<open>ReconcileAutoscaler\<close> of the database
  reconciler, which is called for both topologies. On a world without that autoscaler it
  creates the descriptor \<open>demo-db-replica-autoscaler\<close>, the autoscaler of the replica tier
  of the primary/replica topology, whose scale target is the StatefulSet
  \<open>demo-db-replica\<close>. After the whole pass, which ends without error, the autoscaler is
  stored and its target StatefulSet does not exist.
\<close>

theorem ha_pass_creates_replica_autoscaler:
  "databaseEnabled example_ha_ms
   \<and> databaseHAEnabled example_ha_ms
   \<and> map_option db_Replicas (spec_Database (ms_Spec example_ha_ms)) = Some 2
   \<and> map fst (databaseSteps ReconcileGalera ReconcileGaleraServices example_ha_ms)
       = [''DBGaleraFailed'', ''DBGaleraServicesFailed'', ''DBAutoscalerFailed'']
   \<and> snd (last (databaseSteps ReconcileGalera ReconcileGaleraServices example_ha_ms))
       = db_ReconcileAutoscaler
   \<and> db_ReconcileAutoscaler example_env example_ha_ms example_world_ha
       = (Inr None, example_world_ha
           \<lparr>autoscalers := [(''default'', ''demo-db-replica-autoscaler'') \<mapsto> example_replica_hpa],
            trace := [CGet KHorizontalPodAutoscaler ''default'' ''demo-db-replica-autoscaler'',
                      CCreate (OHorizontalPodAutoscaler example_replica_hpa)]\<rparr>)
   \<and> hpa_Name example_replica_hpa = ''demo-db-replica-autoscaler''
   \<and> ScaleTargetRef (hpa_Spec example_replica_hpa)
       = \<lparr>ref_APIVersion = ''apps/v1'', ref_Kind = ''StatefulSet'', ref_Name = ''demo-db-replica''\<rparr>
   \<and> fst (Reconcile ReconcileGalera ReconcileGaleraServices example_env
            ''default'' ''demo'' example_world_ha) = Inr (\<lparr>RequeueAfter = 5\<rparr>, None)
   \<and> autoscalers (snd (Reconcile ReconcileGalera ReconcileGaleraServices example_env
        ''default'' ''demo'' example_world_ha)) (''default'', ''demo-db-replica-autoscaler'')
       = Some example_replica_hpa
   \<and> statefulsets (snd (Reconcile ReconcileGalera ReconcileGaleraServices example_env
        ''default'' ''demo'' example_world_ha)) (''default'', ''demo-db-replica'') = None"
  by (intro conjI example_ha_enabled example_ha_steps example_ha_autoscaler_step
      example_replica_hpa_target ha_pass_result ha_pass_autoscaler ha_pass_no_replica_set)

end
